theory Spec2Isabelle
  imports Complex_Main
begin

section \<open>Geomagnetic evolution algorithm (aeg\_v2.py): shallow embedding\<close>

text \<open>
  Python floats are read as the real numbers of HOL. Every call of the ambient
  random generator (\<^verbatim>\<open>np.random\<close>) is an explicit argument of the function that
  makes the call: the value the generator handed out. Exceptions are values of
  \<open>erro\<close> on the left of a sum.
\<close>

subsection \<open>Errors\<close>

datatype erro = ValueError | IndexError | DivisaoPorZero

text \<open>Sequencing of fallible steps: the first error ends the computation.\<close>

definition entao :: "erro + 'a \<Rightarrow> ('a \<Rightarrow> erro + 'b) \<Rightarrow> erro + 'b" where
  "entao r f = (case r of Inl e \<Rightarrow> Inl e | Inr v \<Rightarrow> f v)"

text \<open>
  A division whose divisor is zero has no real value (numpy yields \<^verbatim>\<open>inf\<close> or
  \<^verbatim>\<open>nan\<close> with a RuntimeWarning); the model marks it \<open>DivisaoPorZero\<close>.
\<close>

definition dividir :: "real \<Rightarrow> real \<Rightarrow> erro + real" where
  "dividir a b = (if b = 0 then Inl DivisaoPorZero else Inr (a / b))"

subsection \<open>Physical and algorithm parameters (lines 14-30)\<close>

definition MU_0 :: real where
  "MU_0 = 4 * pi * (1 / 10000000)"

definition NUM_BOBINAS :: nat where
  "NUM_BOBINAS = 6"

definition np_linspace :: "real \<Rightarrow> real \<Rightarrow> nat \<Rightarrow> real list" where
  "np_linspace a b n = map (\<lambda>k. a + real k * ((b - a) / real (n - 1))) [0..<n]"

definition Z_AVALIACAO :: "real list" where
  "Z_AVALIACAO = np_linspace (- 1) 1 100"

definition RAIO_MINIMO :: real where
  "RAIO_MINIMO = 1 / 2"

definition DISTANCIA_MIN_BOBINAS :: real where
  "DISTANCIA_MIN_BOBINAS = 2 / 10"

definition SENTINELA :: real where
  "SENTINELA = - 1000000000"

subsection \<open>Field of one ring on the axis (lines 34-36)\<close>

definition calcular_campo_eixo_z :: "real \<Rightarrow> real \<Rightarrow> real \<Rightarrow> real \<Rightarrow> erro + real" where
  "calcular_campo_eixo_z z raio z_bobina corrente =
     dividir (MU_0 * corrente * raio\<^sup>2)
             (2 * (raio\<^sup>2 + (z - z_bobina)\<^sup>2) powr (3 / 2))"

text \<open>The same function applied to an array of positions (numpy broadcasting).\<close>

fun campo_vetor :: "real list \<Rightarrow> real \<Rightarrow> real \<Rightarrow> real \<Rightarrow> erro + real list" where
  "campo_vetor [] raio z_bobina corrente = Inr []"
| "campo_vetor (z # zs) raio z_bobina corrente =
     entao (calcular_campo_eixo_z z raio z_bobina corrente) (\<lambda>b.
     entao (campo_vetor zs raio z_bobina corrente) (\<lambda>bs. Inr (b # bs)))"

subsection \<open>Fitness (lines 38-68)\<close>

type_synonym bobina = "real \<times> real \<times> real"

fun linhas :: "real list \<Rightarrow> bobina list" where
  "linhas (raio # z_pos # corrente # resto) = (raio, z_pos, corrente) # linhas resto"
| "linhas _ = []"

text \<open>\<^verbatim>\<open>cromossomo.reshape((NUM_BOBINAS, 3))\<close> raises ValueError on any other size.\<close>

definition reshape :: "real list \<Rightarrow> erro + bobina list" where
  "reshape cromossomo =
     (if length cromossomo = NUM_BOBINAS * 3 then Inr (linhas cromossomo) else Inl ValueError)"

definition np_zeros_like :: "real list \<Rightarrow> real list" where
  "np_zeros_like xs = map (\<lambda>_. 0) xs"

definition soma_vetores :: "real list \<Rightarrow> real list \<Rightarrow> real list" where
  "soma_vetores xs ys = map (\<lambda>(x, y). x + y) (zip xs ys)"

text \<open>The loop over the coils either returns from the function or falls through
  with the accumulated field.\<close>

datatype laco = Retorna real | Continua "real list"

fun laco_bobinas :: "bobina list \<Rightarrow> real list \<Rightarrow> erro + laco" where
  "laco_bobinas [] campo_total = Inr (Continua campo_total)"
| "laco_bobinas ((raio, z_pos, corrente) # resto) campo_total =
     (if raio < RAIO_MINIMO \<or> corrente \<le> 0 then Inr (Retorna SENTINELA)
      else entao (campo_vetor Z_AVALIACAO raio z_pos corrente) (\<lambda>campo.
           laco_bobinas resto (soma_vetores campo_total campo)))"

definition np_mean :: "real list \<Rightarrow> erro + real" where
  "np_mean xs = dividir (sum_list xs) (real (length xs))"

definition np_std :: "real list \<Rightarrow> erro + real" where
  "np_std xs =
     entao (np_mean xs) (\<lambda>m.
     entao (np_mean (map (\<lambda>x. \<bar>x - m\<bar>\<^sup>2) xs)) (\<lambda>v. Inr (sqrt v)))"

definition laco_j :: "real list \<Rightarrow> nat \<Rightarrow> int \<Rightarrow> int" where
  "laco_j posicoes_z i penalidade =
     foldl (\<lambda>pen j. if \<bar>posicoes_z ! i - posicoes_z ! j\<bar> < DISTANCIA_MIN_BOBINAS
                     then pen + 5000 else pen)
           penalidade [i + 1..<NUM_BOBINAS]"

definition laco_penalidade :: "real list \<Rightarrow> int" where
  "laco_penalidade posicoes_z =
     foldl (\<lambda>pen i. laco_j posicoes_z i pen) 0 [0..<NUM_BOBINAS]"

definition calcular_aptidao :: "real list \<Rightarrow> erro + real" where
  "calcular_aptidao cromossomo =
     entao (reshape cromossomo) (\<lambda>bobinas.
     entao (laco_bobinas bobinas (np_zeros_like Z_AVALIACAO)) (\<lambda>r.
       case r of
         Retorna v \<Rightarrow> Inr v
       | Continua campo_total \<Rightarrow>
           entao (np_mean campo_total) (\<lambda>media_campo.
           entao (np_std campo_total) (\<lambda>desvio_padrao.
             if media_campo < 1 / 10 then Inr (1 / 10)
             else
               entao (dividir desvio_padrao media_campo) (\<lambda>coef_variacao.
               entao (dividir 1 (coef_variacao + 1 / 1000000000)) (\<lambda>aptidao_uniformidade.
                 let penalidade = laco_penalidade (map (\<lambda>(raio, z_pos, corrente). z_pos) bobinas)
                 in Inr ((1 * media_campo) * (5 * aptidao_uniformidade) - real_of_int penalidade)))))))"

subsection \<open>Configuration (lines 25-30)\<close>

text \<open>The module-level constants of the evolutionary algorithm, gathered in one value
  that every operator receives; \<open>config_padrao\<close> holds the values of the source.\<close>

record config =
  tamanho_populacao :: nat
  num_geracoes :: nat
  taxa_mutacao :: real
  taxa_cruzamento :: real
  tamanho_torneio :: nat

definition config_padrao :: config where
  "config_padrao =
     \<lparr>tamanho_populacao = 100, num_geracoes = 250, taxa_mutacao = 8 / 100,
      taxa_cruzamento = 8 / 10, tamanho_torneio = 3\<rparr>"

subsection \<open>Arrays in memory\<close>

text \<open>
  A chromosome is a numpy array, an object that several names can refer to and that
  \<open>mutacao\<close> updates in place. The memory maps the address of each array to its
  contents; a population is a list of addresses.
\<close>

type_synonym ref = nat

record memoria =
  celulas :: "ref \<Rightarrow> real list"
  proxima :: ref

definition alocar :: "memoria \<Rightarrow> real list \<Rightarrow> ref \<times> memoria" where
  "alocar m xs =
     (proxima m, m\<lparr>celulas := (celulas m)(proxima m := xs), proxima := Suc (proxima m)\<rparr>)"

subsection \<open>The random generator\<close>

text \<open>
  Each function below takes the value drawn by the generator as its last argument and
  adds what numpy does with the arguments of the call; the predicates \<open>sorteio_...\<close>
  say which values the generator can draw. \<^verbatim>\<open>np.random.rand()\<close> draws from \<open>[0, 1)\<close>;
  \<^verbatim>\<open>np.random.choice(n, k, replace=False)\<close> draws \<open>k\<close> distinct indices below \<open>n\<close> and
  raises ValueError when \<open>k > n\<close>; \<^verbatim>\<open>np.random.randint(low, high)\<close> raises ValueError
  when \<open>low >= high\<close> and otherwise maps the raw draw of the generator onto the
  integers from \<open>low\<close> (inclusive) to \<open>high\<close> (exclusive), each of them the image of
  equally many raw draws; \<^verbatim>\<open>np.random.normal(mu, sigma)\<close> is \<open>mu + sigma * z\<close> for a
  standard normal draw \<open>z\<close>.
\<close>

definition sorteio_rand :: "real \<Rightarrow> bool" where
  "sorteio_rand u = (0 \<le> u \<and> u < 1)"

definition np_random_choice :: "nat \<Rightarrow> nat \<Rightarrow> nat list \<Rightarrow> erro + nat list" where
  "np_random_choice n k sorteio = (if n < k then Inl ValueError else Inr sorteio)"

definition sorteio_choice :: "nat \<Rightarrow> nat \<Rightarrow> nat list \<Rightarrow> bool" where
  "sorteio_choice n k sorteio =
     (length sorteio = k \<and> distinct sorteio \<and> list_all (\<lambda>i. i < n) sorteio)"

definition np_random_randint :: "int \<Rightarrow> int \<Rightarrow> int \<Rightarrow> erro + int" where
  "np_random_randint low high bruto =
     (if high \<le> low then Inl ValueError else Inr (low + bruto mod (high - low)))"

definition np_random_normal :: "real \<Rightarrow> real \<Rightarrow> real \<Rightarrow> real" where
  "np_random_normal mu sigma z = mu + sigma * z"

subsection \<open>Initial population (lines 72-81)\<close>

definition inicializar_cromossomo :: "(nat \<Rightarrow> real) \<Rightarrow> real list" where
  "inicializar_cromossomo u =
     map (\<lambda>j. if j mod 3 = 0 then u j * (2 - RAIO_MINIMO) + RAIO_MINIMO
               else if j mod 3 = 1 then u j * 4 - 2
               else u j * 9000000 + 1000000)
         [0..<NUM_BOBINAS * 3]"

fun inicializar_laco :: "(nat \<Rightarrow> nat \<Rightarrow> real) \<Rightarrow> nat list \<Rightarrow> memoria \<times> ref list \<Rightarrow> memoria \<times> ref list" where
  "inicializar_laco u [] est = est"
| "inicializar_laco u (k # ks) (m, populacao) =
     (let (r, m') = alocar m (inicializar_cromossomo (u k))
      in inicializar_laco u ks (m', populacao @ [r]))"

definition inicializar_populacao :: "config \<Rightarrow> memoria \<Rightarrow> (nat \<Rightarrow> nat \<Rightarrow> real) \<Rightarrow> memoria \<times> ref list" where
  "inicializar_populacao cfg m u = inicializar_laco u [0..<tamanho_populacao cfg] (m, [])"

subsection \<open>Tournament selection (lines 83-86)\<close>

text \<open>Python's \<^verbatim>\<open>max(xs, key=f)\<close>: the running maximum is replaced only by a strictly
  greater key; an empty sequence raises ValueError.\<close>

fun max_laco :: "(nat \<Rightarrow> real) \<Rightarrow> nat \<Rightarrow> nat list \<Rightarrow> nat" where
  "max_laco key melhor [] = melhor"
| "max_laco key melhor (x # xs) = max_laco key (if key melhor < key x then x else melhor) xs"

definition py_max :: "nat list \<Rightarrow> (nat \<Rightarrow> real) \<Rightarrow> erro + nat" where
  "py_max xs key = (case xs of [] \<Rightarrow> Inl ValueError | x # resto \<Rightarrow> Inr (max_laco key x resto))"

definition indexar :: "'a list \<Rightarrow> nat \<Rightarrow> erro + 'a" where
  "indexar xs i = (if i < length xs then Inr (xs ! i) else Inl IndexError)"

definition selecao :: "config \<Rightarrow> ref list \<Rightarrow> real list \<Rightarrow> nat list \<Rightarrow> erro + ref" where
  "selecao cfg populacao aptidoes sorteio =
     entao (np_random_choice (length populacao) (tamanho_torneio cfg) sorteio) (\<lambda>selecionados.
       if list_all (\<lambda>i. i < length aptidoes) selecionados
       then entao (py_max selecionados (\<lambda>i. aptidoes ! i)) (\<lambda>melhor_idx.
            indexar populacao melhor_idx)
       else Inl IndexError)"

subsection \<open>Crossover (lines 88-94)\<close>

definition cortar :: "real list \<Rightarrow> real list \<Rightarrow> nat \<Rightarrow> real list \<times> real list" where
  "cortar pai1 pai2 ponto =
     (take ponto pai1 @ drop ponto pai2, take ponto pai2 @ drop ponto pai1)"

text \<open>\<^verbatim>\<open>np.concatenate\<close> builds a new array; the other branch returns the parents
  themselves.\<close>

definition cruzamento :: "config \<Rightarrow> memoria \<Rightarrow> ref \<Rightarrow> ref \<Rightarrow> real \<Rightarrow> int \<Rightarrow> erro + (ref \<times> ref \<times> memoria)" where
  "cruzamento cfg m pai1 pai2 u bruto =
     (if u < taxa_cruzamento cfg then
        entao (np_random_randint 1 (int (length (celulas m pai1)) - 1) bruto) (\<lambda>ponto.
          let (c1, c2) = cortar (celulas m pai1) (celulas m pai2) (nat ponto);
              (filho1, m1) = alocar m c1;
              (filho2, m2) = alocar m1 c2
          in Inr (filho1, filho2, m2))
      else Inr (pai1, pai2, m))"

subsection \<open>Mutation (lines 96-102)\<close>

text \<open>One turn of the loop, for gene \<open>i\<close>: \<open>u\<close> is the draw of \<^verbatim>\<open>rand()\<close>, \<open>z\<close> the
  standard normal draw behind \<^verbatim>\<open>normal(0, 0.2)\<close>.\<close>

definition mutar_gene :: "config \<Rightarrow> nat \<Rightarrow> real \<times> real \<Rightarrow> real list \<Rightarrow> real list" where
  "mutar_gene cfg i s cromossomo =
     (case s of (u, z) \<Rightarrow>
        if u < taxa_mutacao cfg then
          let c1 = cromossomo[i := cromossomo ! i + np_random_normal 0 (2 / 10) z]
          in if i mod 3 = 0 \<and> c1 ! i < RAIO_MINIMO then c1[i := RAIO_MINIMO] else c1
        else cromossomo)"

definition mutacao_laco :: "config \<Rightarrow> (nat \<Rightarrow> real \<times> real) \<Rightarrow> real list \<Rightarrow> real list" where
  "mutacao_laco cfg sorteios cromossomo =
     foldl (\<lambda>c i. mutar_gene cfg i (sorteios i) c) cromossomo [0..<length cromossomo]"

text \<open>The array is updated in place and the same array is returned.\<close>

definition mutacao :: "config \<Rightarrow> memoria \<Rightarrow> ref \<Rightarrow> (nat \<Rightarrow> real \<times> real) \<Rightarrow> ref \<times> memoria" where
  "mutacao cfg m cromossomo sorteios =
     (cromossomo,
      m\<lparr>celulas := (celulas m)(cromossomo := mutacao_laco cfg sorteios (celulas m cromossomo))\<rparr>)"

subsection \<open>One generation (lines 109-119)\<close>

text \<open>The draws of one turn of the reproduction loop; \<open>bruto_corte\<close> is the raw draw
  behind \<^verbatim>\<open>randint\<close>.\<close>

record sorteios_iteracao =
  torneio1 :: "nat list"
  torneio2 :: "nat list"
  u_cruzamento :: real
  bruto_corte :: int
  genes1 :: "nat \<Rightarrow> real \<times> real"
  genes2 :: "nat \<Rightarrow> real \<times> real"

definition iteracao :: "config \<Rightarrow> ref list \<Rightarrow> real list \<Rightarrow> sorteios_iteracao \<Rightarrow> memoria \<times> ref list \<Rightarrow> erro + (memoria \<times> ref list)" where
  "iteracao cfg populacao aptidoes s est =
     (case est of (m, nova_populacao) \<Rightarrow>
        entao (selecao cfg populacao aptidoes (torneio1 s)) (\<lambda>pai1.
        entao (selecao cfg populacao aptidoes (torneio2 s)) (\<lambda>pai2.
        entao (cruzamento cfg m pai1 pai2 (u_cruzamento s) (bruto_corte s)) (\<lambda>(filho1, filho2, m1).
          let (r1, m2) = mutacao cfg m1 filho1 (genes1 s);
              (r2, m3) = mutacao cfg m2 filho2 (genes2 s)
          in Inr (m3, nova_populacao @ [r1, r2])))))"

fun laco_reproducao :: "config \<Rightarrow> ref list \<Rightarrow> real list \<Rightarrow> (nat \<Rightarrow> sorteios_iteracao) \<Rightarrow> nat list \<Rightarrow> memoria \<times> ref list \<Rightarrow> erro + (memoria \<times> ref list)" where
  "laco_reproducao cfg populacao aptidoes sorteios [] est = Inr est"
| "laco_reproducao cfg populacao aptidoes sorteios (k # ks) est =
     entao (iteracao cfg populacao aptidoes (sorteios k) est)
           (laco_reproducao cfg populacao aptidoes sorteios ks)"

definition reproducao :: "config \<Rightarrow> memoria \<Rightarrow> ref list \<Rightarrow> real list \<Rightarrow> (nat \<Rightarrow> sorteios_iteracao) \<Rightarrow> erro + (memoria \<times> ref list)" where
  "reproducao cfg m populacao aptidoes sorteios =
     laco_reproducao cfg populacao aptidoes sorteios [0..<tamanho_populacao cfg div 2] (m, [])"

fun avaliar :: "memoria \<Rightarrow> ref list \<Rightarrow> erro + real list" where
  "avaliar m [] = Inr []"
| "avaliar m (ind # resto) =
     entao (calcular_aptidao (celulas m ind)) (\<lambda>a.
     entao (avaliar m resto) (\<lambda>as. Inr (a # as)))"

text \<open>Every 25th generation prints \<^verbatim>\<open>max(aptidoes)\<close> (lines 120-121), which raises
  ValueError on an empty list; the printing itself changes nothing.\<close>

definition melhor_aptidao :: "real list \<Rightarrow> erro + real" where
  "melhor_aptidao aptidoes =
     (case aptidoes of [] \<Rightarrow> Inl ValueError | x # resto \<Rightarrow> Inr (foldl max x resto))"

text \<open>The body of the loop over the generations, for generation \<open>g\<close>.\<close>

definition geracao :: "config \<Rightarrow> nat \<Rightarrow> memoria \<Rightarrow> ref list \<Rightarrow> (nat \<Rightarrow> sorteios_iteracao) \<Rightarrow> erro + (memoria \<times> ref list)" where
  "geracao cfg g m populacao sorteios =
     entao (avaliar m populacao) (\<lambda>aptidoes.
     entao (reproducao cfg m populacao aptidoes sorteios) (\<lambda>est.
       if (g + 1) mod 25 = 0 then entao (melhor_aptidao aptidoes) (\<lambda>melhor. Inr est)
       else Inr est))"

subsection \<open>The main loop (lines 106-119)\<close>

text \<open>The population is initialised, then \<open>populacao\<close> is replaced by the new population
  once per generation; \<open>sorteios g k\<close> are the draws of turn \<open>k\<close> of the reproduction
  loop of generation \<open>g\<close>.\<close>

fun laco_geracoes :: "config \<Rightarrow> (nat \<Rightarrow> nat \<Rightarrow> sorteios_iteracao) \<Rightarrow> nat list \<Rightarrow> memoria \<times> ref list \<Rightarrow> erro + (memoria \<times> ref list)" where
  "laco_geracoes cfg sorteios [] est = Inr est"
| "laco_geracoes cfg sorteios (g # gs) (m, populacao) =
     entao (geracao cfg g m populacao (sorteios g)) (laco_geracoes cfg sorteios gs)"

definition evolucao :: "config \<Rightarrow> memoria \<Rightarrow> (nat \<Rightarrow> nat \<Rightarrow> real) \<Rightarrow> (nat \<Rightarrow> nat \<Rightarrow> sorteios_iteracao) \<Rightarrow> erro + (memoria \<times> ref list)" where
  "evolucao cfg m u sorteios =
     laco_geracoes cfg sorteios [0..<num_geracoes cfg] (inicializar_populacao cfg m u)"

subsection \<open>The best individual (lines 128-129)\<close>

text \<open>\<^verbatim>\<open>np.argmax\<close>: the index of the first occurrence of the maximum; ValueError on an
  empty sequence.\<close>

fun argmax_laco :: "real list \<Rightarrow> nat \<Rightarrow> nat \<Rightarrow> real \<Rightarrow> nat" where
  "argmax_laco [] i melhor_i melhor_v = melhor_i"
| "argmax_laco (x # xs) i melhor_i melhor_v =
     (if melhor_v < x then argmax_laco xs (Suc i) i x
      else argmax_laco xs (Suc i) melhor_i melhor_v)"

definition np_argmax :: "real list \<Rightarrow> erro + nat" where
  "np_argmax xs = (case xs of [] \<Rightarrow> Inl ValueError | x # resto \<Rightarrow> Inr (argmax_laco resto 1 0 x))"

definition melhor_individuo :: "ref list \<Rightarrow> real list \<Rightarrow> erro + ref" where
  "melhor_individuo populacao aptidoes_finais =
     entao (np_argmax aptidoes_finais) (\<lambda>i. indexar populacao i)"

subsection \<open>Notions in which the properties of the fitness are stated\<close>

text \<open>The closed form of the field of one coil at position \<open>z\<close>.\<close>

definition campo :: "real \<Rightarrow> bobina \<Rightarrow> real" where
  "campo z b = (case b of (raio, z_bobina, corrente) \<Rightarrow>
      (MU_0 * corrente * raio\<^sup>2) / (2 * (raio\<^sup>2 + (z - z_bobina)\<^sup>2) powr (3 / 2)))"

text \<open>The field profile: at every evaluation position, the sum over all coils.\<close>

definition perfil_campo :: "bobina list \<Rightarrow> real list" where
  "perfil_campo bobinas = map (\<lambda>z. sum_list (map (campo z) bobinas)) Z_AVALIACAO"

text \<open>Arithmetic mean and population standard deviation.\<close>

definition media :: "real list \<Rightarrow> real" where
  "media xs = sum_list xs / real (length xs)"

definition desvio :: "real list \<Rightarrow> real" where
  "desvio xs = sqrt (media (map (\<lambda>x. (x - media xs)\<^sup>2) xs))"

definition bobina_invalida :: "bobina \<Rightarrow> bool" where
  "bobina_invalida b = (case b of (raio, z_pos, corrente) \<Rightarrow> raio < RAIO_MINIMO \<or> corrente \<le> 0)"

text \<open>A chromosome of 6 coils, each with radius at least the minimum and positive current.\<close>

definition estruturalmente_valido :: "real list \<Rightarrow> bool" where
  "estruturalmente_valido c =
     (length c = 18 \<and> (\<forall>k < 6. RAIO_MINIMO \<le> c ! (3 * k) \<and> 0 < c ! (3 * k + 2)))"


text \<open>The uniformity score: the inverse of the coefficient of variation plus the epsilon.\<close>

definition uniformidade :: "real list \<Rightarrow> real" where
  "uniformidade xs = 1 / (desvio xs / media xs + 1 / 1000000000)"

text \<open>Two coils, by index into the array of positions, closer than the minimum spacing.\<close>

definition proximas :: "real list \<Rightarrow> nat \<Rightarrow> nat \<Rightarrow> bool" where
  "proximas p i j = (\<bar>p ! i - p ! j\<bar> < DISTANCIA_MIN_BOBINAS)"

text \<open>Two example chromosomes: six coincident coils with a current of 1 A, and six
  coils spread over the axis with 10 MA each.\<close>

definition cromossomo_fraco :: "real list" where
  "cromossomo_fraco = [1, 0, 1, 1, 0, 1, 1, 0, 1, 1, 0, 1, 1, 0, 1, 1, 0, 1]"

definition cromossomo_forte :: "real list" where
  "cromossomo_forte =
     [1, - 2, 10000000, 1, - 1, 10000000, 1, 0, 10000000,
      1, 1 / 2, 10000000, 1, 1, 10000000, 1, 2, 10000000]"

subsection \<open>Notions in which the properties of the operators are stated\<close>

text \<open>What one turn of the mutation loop makes of the value \<open>x\<close> of gene \<open>i\<close>.\<close>

definition gene_mutado :: "config \<Rightarrow> nat \<Rightarrow> real \<times> real \<Rightarrow> real \<Rightarrow> real" where
  "gene_mutado cfg i s x =
     (if fst s < taxa_mutacao cfg then
        (if i mod 3 = 0 \<and> x + 2 / 10 * snd s < RAIO_MINIMO then RAIO_MINIMO
         else x + 2 / 10 * snd s)
      else x)"

text \<open>The cut index that \<^verbatim>\<open>np.random.randint(1, L - 1)\<close> makes of a raw draw, for
  parents of length \<open>L\<close>.\<close>

definition corte_sorteado :: "nat \<Rightarrow> int \<Rightarrow> nat" where
  "corte_sorteado L bruto = nat (1 + bruto mod (int L - 1 - 1))"

text \<open>An example memory with four chromosomes at the addresses 0 to 3.\<close>

definition memoria_exemplo :: memoria where
  "memoria_exemplo =
     \<lparr>celulas = (\<lambda>_. [])(0 := cromossomo_fraco, 1 := cromossomo_forte,
                           2 := cromossomo_forte, 3 := cromossomo_fraco),
      proxima = 4\<rparr>"

text \<open>A memory in which every array is the weak example chromosome (fitness 0.1), and
  the draws of one turn of the reproduction loop in which the crossover is skipped and
  the mutation of the first child changes gene 1.\<close>

definition memoria_fraca :: memoria where
  "memoria_fraca = \<lparr>celulas = (\<lambda>_. cromossomo_fraco), proxima = 50\<rparr>"

definition sorteios_sem_cruzamento :: sorteios_iteracao where
  "sorteios_sem_cruzamento =
     \<lparr>torneio1 = [0, 3, 2], torneio2 = [2, 3, 1], u_cruzamento = 9 / 10, bruto_corte = 5,
      genes1 = (\<lambda>i. if i = 1 then (0, 1) else (1 / 2, 0)),
      genes2 = (\<lambda>i. (1 / 2, 0))\<rparr>"

text \<open>The draws of one turn of the reproduction loop that the generator can hand out,
  for a population of \<open>n\<close> chromosomes.\<close>

definition sorteios_validos :: "config \<Rightarrow> nat \<Rightarrow> sorteios_iteracao \<Rightarrow> bool" where
  "sorteios_validos cfg n s =
     (sorteio_choice n (tamanho_torneio cfg) (torneio1 s)
      \<and> sorteio_choice n (tamanho_torneio cfg) (torneio2 s)
      \<and> sorteio_rand (u_cruzamento s))"

text \<open>The number of chromosomes that generation \<open>g\<close> starts with: the initial population
  has \<open>tamanho_populacao\<close> chromosomes, every reproduction phase appends two per turn of
  its \<open>tamanho_populacao div 2\<close> turns.\<close>

definition tamanho_na_geracao :: "config \<Rightarrow> nat \<Rightarrow> nat" where
  "tamanho_na_geracao cfg g =
     (if g = 0 then tamanho_populacao cfg else 2 * (tamanho_populacao cfg div 2))"

text \<open>The draws of generation \<open>g\<close> and of a whole run that the generator can hand
  out.\<close>

definition sorteios_da_geracao :: "config \<Rightarrow> nat \<Rightarrow> (nat \<Rightarrow> sorteios_iteracao) \<Rightarrow> bool" where
  "sorteios_da_geracao cfg g s =
     (\<forall>k < tamanho_populacao cfg div 2. sorteios_validos cfg (tamanho_na_geracao cfg g) (s k))"

definition sorteios_da_execucao :: "config \<Rightarrow> (nat \<Rightarrow> nat \<Rightarrow> sorteios_iteracao) \<Rightarrow> bool" where
  "sorteios_da_execucao cfg s = (\<forall>g < num_geracoes cfg. sorteios_da_geracao cfg g (s g))"

text \<open>Degenerate configurations: an odd population size with the tournament of the
  source, an odd population size with a tournament of two, and a tournament larger than
  the population; draws for a population of three and draws that fit a population of two
  or more.\<close>

definition config_impar :: config where
  "config_impar = config_padrao\<lparr>tamanho_populacao := 3\<rparr>"

definition config_torneio_grande :: config where
  "config_torneio_grande = config_padrao\<lparr>tamanho_populacao := 2\<rparr>"

definition sorteios_tres :: sorteios_iteracao where
  "sorteios_tres =
     \<lparr>torneio1 = [0, 2, 1], torneio2 = [2, 1, 0], u_cruzamento = 9 / 10, bruto_corte = 5,
      genes1 = (\<lambda>i. (1 / 2, 0)), genes2 = (\<lambda>i. (1 / 2, 0))\<rparr>"

definition config_impar_torneio_2 :: config where
  "config_impar_torneio_2 = config_padrao\<lparr>tamanho_populacao := 3, tamanho_torneio := 2\<rparr>"

definition sorteios_dois :: sorteios_iteracao where
  "sorteios_dois =
     \<lparr>torneio1 = [0, 1], torneio2 = [1, 0], u_cruzamento = 1 / 2, bruto_corte = 5,
      genes1 = (\<lambda>i. (1 / 2, 0)), genes2 = (\<lambda>i. (0, 1))\<rparr>"

subsection \<open>The fitness with the overflow of float64\<close>

text \<open>
  A float64 value is a finite number, one of the two infinities or nan. The operations
  below follow IEEE 754 on the infinities and on nan; a finite result whose magnitude
  reaches \<open>2^1024 - 2^970\<close> overflows to the infinity of its sign. Two things are left
  out: the rounding of a finite result (it is kept exact) and the sign of zero (a
  division of a non-zero number by zero gives the infinity of the dividend's sign).
\<close>

datatype f64 = Fin real | PInf | NInf | NaN

definition LIMIAR :: real where
  "LIMIAR = 2 ^ 1024 - 2 ^ 970"

definition arredondar :: "real \<Rightarrow> f64" where
  "arredondar x = (if LIMIAR \<le> x then PInf else if x \<le> - LIMIAR then NInf else Fin x)"

definition inf_de :: "bool \<Rightarrow> f64" where
  "inf_de positivo = (if positivo then PInf else NInf)"

fun f_neg :: "f64 \<Rightarrow> f64" where
  "f_neg (Fin a) = Fin (- a)"
| "f_neg PInf = NInf"
| "f_neg NInf = PInf"
| "f_neg NaN = NaN"

fun f_add :: "f64 \<Rightarrow> f64 \<Rightarrow> f64" where
  "f_add NaN y = NaN"
| "f_add x NaN = NaN"
| "f_add (Fin a) (Fin b) = arredondar (a + b)"
| "f_add PInf NInf = NaN"
| "f_add NInf PInf = NaN"
| "f_add PInf y = PInf"
| "f_add x PInf = PInf"
| "f_add NInf y = NInf"
| "f_add x NInf = NInf"

definition f_sub :: "f64 \<Rightarrow> f64 \<Rightarrow> f64" where
  "f_sub x y = f_add x (f_neg y)"

fun f_mul :: "f64 \<Rightarrow> f64 \<Rightarrow> f64" where
  "f_mul NaN y = NaN"
| "f_mul x NaN = NaN"
| "f_mul (Fin a) (Fin b) = arredondar (a * b)"
| "f_mul (Fin a) PInf = (if a = 0 then NaN else inf_de (0 < a))"
| "f_mul (Fin a) NInf = (if a = 0 then NaN else inf_de (a < 0))"
| "f_mul PInf (Fin b) = (if b = 0 then NaN else inf_de (0 < b))"
| "f_mul NInf (Fin b) = (if b = 0 then NaN else inf_de (b < 0))"
| "f_mul PInf PInf = PInf"
| "f_mul PInf NInf = NInf"
| "f_mul NInf PInf = NInf"
| "f_mul NInf NInf = PInf"

fun f_div :: "f64 \<Rightarrow> f64 \<Rightarrow> f64" where
  "f_div NaN y = NaN"
| "f_div x NaN = NaN"
| "f_div (Fin a) (Fin b) =
     (if b = 0 then (if a = 0 then NaN else inf_de (0 < a)) else arredondar (a / b))"
| "f_div (Fin a) PInf = Fin 0"
| "f_div (Fin a) NInf = Fin 0"
| "f_div PInf (Fin b) = inf_de (0 \<le> b)"
| "f_div NInf (Fin b) = inf_de (b < 0)"
| "f_div PInf y = NaN"
| "f_div NInf y = NaN"

text \<open>\<^verbatim>\<open>x ** (3/2)\<close>: the exponent is the float 1.5.\<close>

fun f_pot :: "f64 \<Rightarrow> f64" where
  "f_pot (Fin a) = (if a < 0 then NaN else arredondar (a powr (3 / 2)))"
| "f_pot PInf = PInf"
| "f_pot NInf = PInf"
| "f_pot NaN = NaN"

fun f_sqrt :: "f64 \<Rightarrow> f64" where
  "f_sqrt (Fin a) = (if a < 0 then NaN else Fin (sqrt a))"
| "f_sqrt PInf = PInf"
| "f_sqrt NInf = NaN"
| "f_sqrt NaN = NaN"

fun f_abs :: "f64 \<Rightarrow> f64" where
  "f_abs (Fin a) = Fin \<bar>a\<bar>"
| "f_abs PInf = PInf"
| "f_abs NInf = PInf"
| "f_abs NaN = NaN"

text \<open>Comparisons: every comparison with nan is false.\<close>

fun f_lt :: "f64 \<Rightarrow> f64 \<Rightarrow> bool" where
  "f_lt NaN y = False"
| "f_lt x NaN = False"
| "f_lt (Fin a) (Fin b) = (a < b)"
| "f_lt x NInf = False"
| "f_lt PInf y = False"
| "f_lt NInf y = True"
| "f_lt x PInf = True"

definition calcular_campo_eixo_z_f64 :: "f64 \<Rightarrow> f64 \<Rightarrow> f64 \<Rightarrow> f64 \<Rightarrow> f64" where
  "calcular_campo_eixo_z_f64 z raio z_bobina corrente =
     f_div (f_mul (f_mul (Fin MU_0) corrente) (f_mul raio raio))
           (f_mul (Fin 2)
              (f_pot (f_add (f_mul raio raio)
                            (f_mul (f_sub z z_bobina) (f_sub z z_bobina)))))"

definition soma_vetores_f64 :: "f64 list \<Rightarrow> f64 list \<Rightarrow> f64 list" where
  "soma_vetores_f64 xs ys = map (\<lambda>(x, y). f_add x y) (zip xs ys)"

text \<open>The loop over the coils; the genes of a chromosome are finite numbers, the field
  accumulated from them need not be.\<close>

datatype laco_f64 = Retorna_f64 f64 | Continua_f64 "f64 list"

fun laco_bobinas_f64 :: "real list \<Rightarrow> bobina list \<Rightarrow> f64 list \<Rightarrow> laco_f64" where
  "laco_bobinas_f64 zs [] campo_total = Continua_f64 campo_total"
| "laco_bobinas_f64 zs ((raio, z_pos, corrente) # resto) campo_total =
     (if raio < RAIO_MINIMO \<or> corrente \<le> 0 then Retorna_f64 (Fin SENTINELA)
      else laco_bobinas_f64 zs resto
             (soma_vetores_f64 campo_total
                (map (\<lambda>z. calcular_campo_eixo_z_f64 (Fin z) (Fin raio) (Fin z_pos) (Fin corrente))
                     zs)))"

text \<open>\<^verbatim>\<open>np.mean\<close> adds the elements up and divides by their number; the mean of no
  element is \<open>0 / 0\<close>, nan.\<close>

definition np_mean_f64 :: "f64 list \<Rightarrow> f64" where
  "np_mean_f64 xs = f_div (foldl f_add (Fin 0) xs) (Fin (real (length xs)))"

definition np_std_f64 :: "f64 list \<Rightarrow> f64" where
  "np_std_f64 xs =
     f_sqrt (np_mean_f64 (map (\<lambda>x. f_mul (f_abs (f_sub x (np_mean_f64 xs)))
                                          (f_abs (f_sub x (np_mean_f64 xs)))) xs))"

definition laco_j_f64 :: "real list \<Rightarrow> nat \<Rightarrow> int \<Rightarrow> int" where
  "laco_j_f64 posicoes_z i penalidade =
     foldl (\<lambda>pen j. if f_lt (f_abs (f_sub (Fin (posicoes_z ! i)) (Fin (posicoes_z ! j))))
                             (Fin DISTANCIA_MIN_BOBINAS)
                     then pen + 5000 else pen)
           penalidade [i + 1..<NUM_BOBINAS]"

definition laco_penalidade_f64 :: "real list \<Rightarrow> int" where
  "laco_penalidade_f64 posicoes_z =
     foldl (\<lambda>pen i. laco_j_f64 posicoes_z i pen) 0 [0..<NUM_BOBINAS]"

text \<open>The fitness over the evaluation positions \<open>zs\<close>; the source fixes them to
  \<open>Z_AVALIACAO\<close>.\<close>

definition calcular_aptidao_f64_em :: "real list \<Rightarrow> real list \<Rightarrow> erro + f64" where
  "calcular_aptidao_f64_em zs cromossomo =
     entao (reshape cromossomo) (\<lambda>bobinas.
       case laco_bobinas_f64 zs bobinas (map (\<lambda>_. Fin 0) zs) of
         Retorna_f64 v \<Rightarrow> Inr v
       | Continua_f64 campo_total \<Rightarrow>
           (let media_campo = np_mean_f64 campo_total;
                desvio_padrao = np_std_f64 campo_total
            in if f_lt media_campo (Fin (1 / 10)) then Inr (Fin (1 / 10))
               else
                 (let coef_variacao = f_div desvio_padrao media_campo;
                      aptidao_uniformidade = f_div (Fin 1) (f_add coef_variacao (Fin (1 / 1000000000)));
                      penalidade = laco_penalidade_f64 (map (\<lambda>(raio, z_pos, corrente). z_pos) bobinas)
                  in Inr (f_sub (f_mul (f_mul (Fin 1) media_campo)
                                       (f_mul (Fin 5) aptidao_uniformidade))
                                (Fin (real_of_int penalidade))))))"

definition calcular_aptidao_f64 :: "real list \<Rightarrow> erro + f64" where
  "calcular_aptidao_f64 cromossomo = calcular_aptidao_f64_em Z_AVALIACAO cromossomo"

text \<open>A chromosome whose genes stay far below the overflow: radii up to \<open>10^4\<close>,
  positions within \<open>10^4\<close> of the origin, currents up to \<open>10^10\<close>.\<close>

definition genes_limitados :: "real list \<Rightarrow> bool" where
  "genes_limitados c =
     (\<forall>k < 6. c ! (3 * k) \<le> 10000 \<and> \<bar>c ! (3 * k + 1)\<bar> \<le> 10000 \<and> c ! (3 * k + 2) \<le> 10000000000)"

text \<open>Six coils of radius \<open>10^200\<close>: structurally valid, and the square of the radius
  overflows.\<close>

definition raio_enorme :: real where
  "raio_enorme = 10 ^ 200"

definition cromossomo_enorme :: "real list" where
  "cromossomo_enorme =
     [raio_enorme, 0, 1, raio_enorme, 0, 1, raio_enorme, 0, 1,
      raio_enorme, 0, 1, raio_enorme, 0, 1, raio_enorme, 0, 1]"

text \<open>A valid coil with limited genes.\<close>

definition bobina_limitada :: "bobina \<Rightarrow> bool" where
  "bobina_limitada b = (case b of (raio, z_pos, corrente) \<Rightarrow>
      1 / 2 \<le> raio \<and> raio \<le> 10000 \<and> \<bar>z_pos\<bar> \<le> 10000 \<and> 0 < corrente \<and> corrente \<le> 10000000000)"

section \<open>Properties\<close>


subsection \<open>Fallible steps\<close>

lemma entao_Inr [simp]: "entao (Inr v) f = f v"
  by (simp add: entao_def)

lemma entao_Inl [simp]: "entao (Inl e) f = Inl e"
  by (simp add: entao_def)

lemma dividir_ok: "b \<noteq> 0 \<Longrightarrow> dividir a b = Inr (a / b)"
  by (simp add: dividir_def)

lemma denominador_pos: "(raio::real) \<noteq> 0 \<Longrightarrow> 0 < 2 * (raio\<^sup>2 + (z - z_bobina)\<^sup>2) powr (3 / 2)"
proof -
  assume "raio \<noteq> 0"
  then have "0 < raio\<^sup>2" by simp
  moreover have "0 \<le> (z - z_bobina)\<^sup>2" by simp
  ultimately have "0 < raio\<^sup>2 + (z - z_bobina)\<^sup>2" by linarith
  then have "0 < (raio\<^sup>2 + (z - z_bobina)\<^sup>2) powr (3 / 2)" by (simp only: powr_gt_zero)
  then show ?thesis by linarith
qed

lemma calcular_campo_ok:
  "raio \<noteq> 0 \<Longrightarrow> calcular_campo_eixo_z z raio zb i = Inr (campo z (raio, zb, i))"
  using denominador_pos [of raio z zb]
  by (simp add: calcular_campo_eixo_z_def campo_def dividir_def)

lemma campo_vetor_ok:
  "raio \<noteq> 0 \<Longrightarrow> campo_vetor zs raio zb i = Inr (map (\<lambda>z. campo z (raio, zb, i)) zs)"
  by (induction zs) (simp_all add: calcular_campo_ok)

lemma laco_bobinas_sentinela:
  "\<exists>b \<in> set bobinas. bobina_invalida b \<Longrightarrow> laco_bobinas bobinas ct = Inr (Retorna SENTINELA)"
proof (induction bobinas arbitrary: ct)
  case Nil
  then show ?case by simp
next
  case (Cons b bs)
  obtain raio z_pos corrente where b: "b = (raio, z_pos, corrente)" by (cases b)
  show ?case
  proof (cases "bobina_invalida b")
    case True
    then show ?thesis by (simp add: b bobina_invalida_def)
  next
    case False
    then have r: "raio \<noteq> 0" and v: "\<not> (raio < RAIO_MINIMO \<or> corrente \<le> 0)"
      by (auto simp: b bobina_invalida_def RAIO_MINIMO_def)
    from False Cons.prems have "\<exists>b \<in> set bs. bobina_invalida b" by auto
    then show ?thesis using Cons.IH v by (simp add: b campo_vetor_ok [OF r])
  qed
qed

lemma length_linhas: "length (linhas c) = length c div 3"
  by (induction c rule: linhas.induct) simp_all

lemma linhas_nth:
  "3 * k + 2 < length c \<Longrightarrow> linhas c ! k = (c ! (3 * k), c ! (3 * k + 1), c ! (3 * k + 2))"
proof (induction c arbitrary: k rule: linhas.induct)
  case (1 raio z_pos corrente resto)
  show ?case
  proof (cases k)
    case 0
    then show ?thesis by simp
  next
    case (Suc k')
    with "1.prems" have "3 * k' + 2 < length resto" by simp
    then have "linhas resto ! k' = (resto ! (3 * k'), resto ! (3 * k' + 1), resto ! (3 * k' + 2))"
      by (rule "1.IH")
    then show ?thesis by (simp add: Suc)
  qed
qed simp_all

subsection \<open>The coil loop computes the field profile\<close>

lemma soma_vetores_map:
  "length ct = length zs \<Longrightarrow>
   soma_vetores (soma_vetores ct (map f zs)) (map g zs) = soma_vetores ct (map (\<lambda>z. f z + g z) zs)"
  by (rule nth_equalityI) (simp_all add: soma_vetores_def)

lemma soma_vetores_zero:
  "length ct = length zs \<Longrightarrow> soma_vetores ct (map (\<lambda>z. 0) zs) = ct"
  by (rule nth_equalityI) (simp_all add: soma_vetores_def)

lemma soma_vetores_zeros_like:
  "soma_vetores (np_zeros_like zs) (map f zs) = map f zs"
  by (rule nth_equalityI) (simp_all add: soma_vetores_def np_zeros_like_def)

lemma length_soma_vetores:
  "length ct = length zs \<Longrightarrow> length (soma_vetores ct (map f zs)) = length zs"
  by (simp add: soma_vetores_def)

lemma laco_bobinas_continua:
  "\<forall>b \<in> set bobinas. \<not> bobina_invalida b \<Longrightarrow> length ct = length Z_AVALIACAO \<Longrightarrow>
   laco_bobinas bobinas ct =
     Inr (Continua (soma_vetores ct (map (\<lambda>z. sum_list (map (campo z) bobinas)) Z_AVALIACAO)))"
proof (induction bobinas arbitrary: ct)
  case Nil
  then show ?case by (simp add: soma_vetores_zero)
next
  case (Cons b bs)
  obtain raio z_pos corrente where b: "b = (raio, z_pos, corrente)" by (cases b)
  from Cons.prems(1) have v: "\<not> (raio < RAIO_MINIMO \<or> corrente \<le> 0)"
    by (simp add: b bobina_invalida_def)
  then have r: "raio \<noteq> 0" by (auto simp: RAIO_MINIMO_def)
  let ?ct = "soma_vetores ct (map (\<lambda>z. campo z b) Z_AVALIACAO)"
  have len: "length ?ct = length Z_AVALIACAO"
    using Cons.prems(2) by (rule length_soma_vetores)
  have "laco_bobinas (b # bs) ct = laco_bobinas bs ?ct"
    using v by (simp add: b campo_vetor_ok [OF r])
  also have "\<dots> = Inr (Continua (soma_vetores ?ct
       (map (\<lambda>z. sum_list (map (campo z) bs)) Z_AVALIACAO)))"
    using Cons.prems(1) len by (intro Cons.IH) simp_all
  also have "soma_vetores ?ct (map (\<lambda>z. sum_list (map (campo z) bs)) Z_AVALIACAO)
      = soma_vetores ct (map (\<lambda>z. campo z b + sum_list (map (campo z) bs)) Z_AVALIACAO)"
    using Cons.prems(2) by (rule soma_vetores_map)
  finally show ?case by simp
qed

lemma laco_bobinas_perfil:
  "\<forall>b \<in> set bobinas. \<not> bobina_invalida b \<Longrightarrow>
   laco_bobinas bobinas (np_zeros_like Z_AVALIACAO) = Inr (Continua (perfil_campo bobinas))"
proof -
  assume v: "\<forall>b \<in> set bobinas. \<not> bobina_invalida b"
  have "length (np_zeros_like Z_AVALIACAO) = length Z_AVALIACAO"
    by (simp add: np_zeros_like_def)
  with v show ?thesis
    by (simp add: laco_bobinas_continua soma_vetores_zeros_like perfil_campo_def)
qed

lemma length_Z_AVALIACAO: "length Z_AVALIACAO = 100"
  by (simp add: Z_AVALIACAO_def np_linspace_def)

lemma length_perfil_campo: "length (perfil_campo bobinas) = 100"
  by (simp add: perfil_campo_def length_Z_AVALIACAO)

lemma np_mean_media: "xs \<noteq> [] \<Longrightarrow> np_mean xs = Inr (media xs)"
  by (simp add: np_mean_def media_def dividir_def)

lemma np_std_desvio: "xs \<noteq> [] \<Longrightarrow> np_std xs = Inr (desvio xs)"
  by (simp add: np_std_def np_mean_media desvio_def)

lemma media_nonneg: "\<forall>x \<in> set xs. 0 \<le> x \<Longrightarrow> 0 \<le> media xs"
  by (simp add: media_def sum_list_nonneg)

lemma desvio_nonneg: "0 \<le> desvio xs"
  by (simp add: desvio_def media_nonneg)

lemma valido_linhas:
  assumes "estruturalmente_valido c"
  shows "\<forall>b \<in> set (linhas c). \<not> bobina_invalida b"
proof
  fix b assume "b \<in> set (linhas c)"
  then obtain k where k: "k < length (linhas c)" and b: "b = linhas c ! k"
    by (auto simp: in_set_conv_nth)
  from assms have len: "length c = 18" by (simp add: estruturalmente_valido_def)
  with k have k6: "k < 6" by (simp add: length_linhas)
  then have "3 * k + 2 < length c" using len by simp
  then have "b = (c ! (3 * k), c ! (3 * k + 1), c ! (3 * k + 2))"
    unfolding b by (rule linhas_nth)
  moreover from assms k6 have "RAIO_MINIMO \<le> c ! (3 * k) \<and> 0 < c ! (3 * k + 2)"
    by (simp add: estruturalmente_valido_def)
  ultimately show "\<not> bobina_invalida b" by (simp add: bobina_invalida_def)
qed

lemma aptidao_valida:
  assumes "estruturalmente_valido c"
  shows "calcular_aptidao c =
     Inr (if media (perfil_campo (linhas c)) < 1 / 10 then 1 / 10
          else (1 * media (perfil_campo (linhas c))) * (5 * uniformidade (perfil_campo (linhas c)))
               - real_of_int (laco_penalidade (map (\<lambda>(raio, z_pos, corrente). z_pos) (linhas c))))"
proof -
  let ?p = "perfil_campo (linhas c)"
  have len: "length c = NUM_BOBINAS * 3"
    using assms by (simp add: estruturalmente_valido_def NUM_BOBINAS_def)
  have ne: "?p \<noteq> []" using length_perfil_campo [of "linhas c"] by auto
  have laco: "laco_bobinas (linhas c) (np_zeros_like Z_AVALIACAO) = Inr (Continua ?p)"
    using valido_linhas [OF assms] by (rule laco_bobinas_perfil)
  show ?thesis
  proof (cases "media ?p < 1 / 10")
    case True
    then show ?thesis
      by (simp add: calcular_aptidao_def reshape_def len laco np_mean_media [OF ne] np_std_desvio [OF ne])
  next
    case False
    then have m: "media ?p \<noteq> 0" by simp
    from False have "0 \<le> desvio ?p / media ?p" by (simp add: desvio_nonneg)
    then have d: "desvio ?p / media ?p + 1 / 1000000000 \<noteq> 0" by simp
    show ?thesis
      using False m d
      by (simp add: calcular_aptidao_def reshape_def len laco np_mean_media [OF ne]
          np_std_desvio [OF ne] dividir_def uniformidade_def)
  qed
qed

subsection \<open>The spacing penalty counts the close pairs\<close>

lemma foldl_condicional:
  "foldl (\<lambda>pen j. if P j then pen + k else pen) pen xs = pen + k * int (length (filter P xs))"
  by (induction xs arbitrary: pen) (simp_all add: algebra_simps)

lemma laco_j_conta:
  "laco_j p i pen = pen + 5000 * int (card {j. i < j \<and> j < 6 \<and> proximas p i j})"
proof -
  have s: "{j. i < j \<and> j < 6 \<and> proximas p i j} = set (filter (proximas p i) [i + 1..<6])"
    by auto
  have "card (set (filter (proximas p i) [i + 1..<6])) = length (filter (proximas p i) [i + 1..<6])"
    by (rule distinct_card) simp
  then have "card {j. i < j \<and> j < 6 \<and> proximas p i j} = length (filter (proximas p i) [i + 1..<6])"
    by (simp only: s)
  then show ?thesis
    unfolding laco_j_def NUM_BOBINAS_def proximas_def [symmetric]
    by (simp add: foldl_condicional proximas_def [abs_def])
qed

lemma foldl_soma:
  "foldl (\<lambda>pen i. pen + f i) pen xs = pen + sum_list (map f xs)"
  by (induction xs arbitrary: pen) (simp_all add: algebra_simps)

lemma int_sum_list: "int (sum_list (map f xs)) = sum_list (map (\<lambda>x. int (f x)) xs)"
  by (induction xs) simp_all

lemma laco_penalidade_conta:
  "laco_penalidade p = 5000 * int (card {(i, j). i < j \<and> j < 6 \<and> proximas p i j})"
proof -
  let ?A = "\<lambda>i. {j. i < j \<and> j < 6 \<and> proximas p i j}"
  have fin: "\<And>i. finite (?A i)" by simp
  have s: "{(i, j). i < j \<and> j < 6 \<and> proximas p i j} = (SIGMA i:{..<6}. ?A i)"
    by auto
  have "card (SIGMA i:{..<6}. ?A i) = (\<Sum>i<6. card (?A i))"
    by (rule card_SigmaI) simp_all
  then have "card {(i, j). i < j \<and> j < 6 \<and> proximas p i j} = (\<Sum>i<6. card (?A i))"
    by (simp only: s)
  also have "\<dots> = sum_list (map (\<lambda>i. card (?A i)) [0..<6])"
    by (simp add: sum_list_sum_nth atLeast0LessThan del: upt_Suc)
  finally have c: "card {(i, j). i < j \<and> j < 6 \<and> proximas p i j}
      = sum_list (map (\<lambda>i. card (?A i)) [0..<6])" .
  have "laco_penalidade p = sum_list (map (\<lambda>i. 5000 * int (card (?A i))) [0..<6])"
    unfolding laco_penalidade_def NUM_BOBINAS_def
    by (simp add: laco_j_conta foldl_soma del: upt_Suc)
  also have "\<dots> = 5000 * int (sum_list (map (\<lambda>i. card (?A i)) [0..<6]))"
    by (simp add: sum_list_const_mult int_sum_list del: upt_Suc)
  finally show ?thesis by (simp only: c)
qed

lemma laco_j_limite: "laco_j p i pen \<le> pen + 5000 * int (5 - i)"
proof -
  have "length (filter (proximas p i) [i + 1..<6]) \<le> length [i + 1..<6]"
    by (rule length_filter_le)
  then have "int (length (filter (proximas p i) [i + 1..<6])) \<le> int (5 - i)" by simp
  then show ?thesis
    unfolding laco_j_def NUM_BOBINAS_def
    by (simp add: foldl_condicional proximas_def [abs_def])
qed

lemma laco_penalidade_nonneg: "0 \<le> laco_penalidade p"
  by (simp add: laco_penalidade_conta)

lemma laco_penalidade_limite: "laco_penalidade p \<le> 75000"
proof -
  define a0 where "a0 = laco_j p 0 0"
  define a1 where "a1 = laco_j p 1 a0"
  define a2 where "a2 = laco_j p 2 a1"
  define a3 where "a3 = laco_j p 3 a2"
  define a4 where "a4 = laco_j p 4 a3"
  define a5 where "a5 = laco_j p 5 a4"
  have "[0..<6] = [0, 1, 2, 3, 4, 5]" by (simp add: upt_rec)
  then have "laco_penalidade p = a5"
    by (simp add: laco_penalidade_def NUM_BOBINAS_def a0_def a1_def a2_def a3_def a4_def a5_def)
  moreover have "a0 \<le> 25000" using laco_j_limite [of p 0 0] by (simp add: a0_def)
  moreover have "a1 \<le> a0 + 20000" using laco_j_limite [of p 1 a0] by (simp add: a1_def)
  moreover have "a2 \<le> a1 + 15000" using laco_j_limite [of p 2 a1] by (simp add: a2_def)
  moreover have "a3 \<le> a2 + 10000" using laco_j_limite [of p 3 a2] by (simp add: a3_def)
  moreover have "a4 \<le> a3 + 5000" using laco_j_limite [of p 4 a3] by (simp add: a4_def)
  moreover have "a5 \<le> a4" using laco_j_limite [of p 5 a4] by (simp add: a5_def)
  ultimately show ?thesis by linarith
qed



subsection \<open>Bounds on the field and its mean\<close>

lemma media_limite_inferior:
  assumes "xs \<noteq> []" and "\<forall>x \<in> set xs. b \<le> x"
  shows "b \<le> media xs"
proof -
  have "sum_list (map (\<lambda>x. b) xs) \<le> sum_list (map (\<lambda>x. x) xs)"
    using assms(2) by (intro sum_list_mono) simp
  then have "real (length xs) * b \<le> sum_list xs" by (simp add: sum_list_triv)
  moreover have "0 < real (length xs)" using assms(1) by simp
  ultimately show ?thesis
    unfolding media_def by (simp add: pos_le_divide_eq mult.commute)
qed

lemma media_limite_superior:
  assumes "xs \<noteq> []" and "\<forall>x \<in> set xs. x \<le> b"
  shows "media xs \<le> b"
proof -
  have "sum_list (map (\<lambda>x. x) xs) \<le> sum_list (map (\<lambda>x. b) xs)"
    using assms(2) by (intro sum_list_mono) simp
  then have "sum_list xs \<le> real (length xs) * b" by (simp add: sum_list_triv)
  moreover have "0 < real (length xs)" using assms(1) by simp
  ultimately show ?thesis
    unfolding media_def by (simp add: pos_divide_le_eq mult.commute)
qed

lemma Z_AVALIACAO_intervalo:
  assumes "z \<in> set Z_AVALIACAO"
  shows "- 1 \<le> z \<and> z \<le> 1"
proof -
  from assms obtain k :: nat where k: "k < 100" and z: "z = - 1 + real k * (2 / 99)"
    by (auto simp: Z_AVALIACAO_def np_linspace_def)
  from k have "real k \<le> 99" by simp
  then show ?thesis unfolding z by simp
qed

lemma MU_0_limites: "8 / 10000000 \<le> MU_0 \<and> MU_0 < 16 / 10000000"
  using pi_ge_two pi_less_4 by (simp add: MU_0_def)

lemma campo_limite_superior:
  assumes "0 \<le> corrente"
  shows "campo z (1, z_bobina, corrente) \<le> MU_0 * corrente / 2"
proof -
  have "1 \<le> 1 + (z - z_bobina)\<^sup>2" by simp
  then have "1 \<le> (1 + (z - z_bobina)\<^sup>2) powr (3 / 2)"
    by (rule ge_one_powr_ge_zero) simp
  then have d: "2 \<le> 2 * (1 + (z - z_bobina)\<^sup>2) powr (3 / 2)" by simp
  have n: "0 \<le> MU_0 * corrente" using assms MU_0_limites by simp
  have "MU_0 * corrente / (2 * (1 + (z - z_bobina)\<^sup>2) powr (3 / 2)) \<le> MU_0 * corrente / 2"
    using n d by (intro divide_left_mono mult_pos_pos) linarith+
  then show ?thesis by (simp add: campo_def)
qed

lemma campo_limite_inferior:
  assumes "0 \<le> corrente" and "\<bar>z - z_bobina\<bar> \<le> 3"
  shows "MU_0 * corrente / 200 \<le> campo z (1, z_bobina, corrente)"
proof -
  let ?x = "1 + (z - z_bobina)\<^sup>2"
  have "(z - z_bobina)\<^sup>2 \<le> 3\<^sup>2"
    using assms(2) by (intro abs_le_square_iff [THEN iffD1]) simp
  then have x: "?x \<le> 10" by simp
  have x1: "1 \<le> ?x" by simp
  have "?x powr (3 / 2) \<le> ?x powr 2" using x1 by (intro powr_mono) simp_all
  also have "\<dots> = ?x\<^sup>2" using x1 by simp
  also have "\<dots> \<le> 10\<^sup>2" using x x1 by (intro power_mono) simp_all
  finally have d: "2 * ?x powr (3 / 2) \<le> 200" by simp
  have "?x \<noteq> 0" using x1 by linarith
  then have "0 < ?x powr (3 / 2)" by (simp only: powr_gt_zero simp_thms)
  then have dp: "0 < 2 * ?x powr (3 / 2)" by linarith
  have n: "0 \<le> MU_0 * corrente" using assms(1) MU_0_limites by simp
  have "MU_0 * corrente / 200 \<le> MU_0 * corrente / (2 * ?x powr (3 / 2))"
    using n d dp by (intro divide_left_mono mult_pos_pos) linarith+
  then show ?thesis by (simp add: campo_def)
qed

subsection \<open>The example chromosomes\<close>

lemma todos_menor_6:
  "(\<forall>k<6::nat. P k) \<longleftrightarrow> P 0 \<and> P 1 \<and> P 2 \<and> P 3 \<and> P 4 \<and> P 5"
  by (simp add: eval_nat_numeral All_less_Suc) blast

lemma fraco_valido: "estruturalmente_valido cromossomo_fraco"
  by (simp add: estruturalmente_valido_def todos_menor_6 cromossomo_fraco_def RAIO_MINIMO_def)

lemma forte_valido: "estruturalmente_valido cromossomo_forte"
  by (simp add: estruturalmente_valido_def todos_menor_6 cromossomo_forte_def RAIO_MINIMO_def)

lemma fraco_media: "media (perfil_campo (linhas cromossomo_fraco)) < 1 / 10"
proof -
  let ?p = "perfil_campo (linhas cromossomo_fraco)"
  have ne: "?p \<noteq> []" using length_perfil_campo [of "linhas cromossomo_fraco"] by auto
  have "\<forall>x \<in> set ?p. x \<le> 6 * (MU_0 * 1 / 2)"
  proof
    fix x assume "x \<in> set ?p"
    then obtain z where "x = 6 * campo z (1, 0, 1)"
      by (auto simp: perfil_campo_def cromossomo_fraco_def)
    then show "x \<le> 6 * (MU_0 * 1 / 2)"
      using campo_limite_superior [of 1 z 0] by simp
  qed
  with ne have "media ?p \<le> 6 * (MU_0 * 1 / 2)" by (rule media_limite_superior)
  then show ?thesis using MU_0_limites by simp
qed

lemma forte_media: "1 / 10 \<le> media (perfil_campo (linhas cromossomo_forte))"
proof -
  let ?p = "perfil_campo (linhas cromossomo_forte)"
  let ?I = "10000000 :: real"
  have ne: "?p \<noteq> []" using length_perfil_campo [of "linhas cromossomo_forte"] by auto
  have "\<forall>x \<in> set ?p. 6 * (MU_0 * ?I / 200) \<le> x"
  proof
    fix x assume "x \<in> set ?p"
    then obtain z where z: "z \<in> set Z_AVALIACAO"
      and x: "x = campo z (1, - 2, ?I) + (campo z (1, - 1, ?I) + (campo z (1, 0, ?I)
             + (campo z (1, 1 / 2, ?I) + (campo z (1, 1, ?I) + campo z (1, 2, ?I)))))"
      by (auto simp: perfil_campo_def cromossomo_forte_def)
    from z have zi: "- 1 \<le> z \<and> z \<le> 1" by (rule Z_AVALIACAO_intervalo)
    have "MU_0 * ?I / 200 \<le> campo z (1, - 2, ?I)"
      using zi by (intro campo_limite_inferior) (simp, linarith)
    moreover have "MU_0 * ?I / 200 \<le> campo z (1, - 1, ?I)"
      using zi by (intro campo_limite_inferior) (simp, linarith)
    moreover have "MU_0 * ?I / 200 \<le> campo z (1, 0, ?I)"
      using zi by (intro campo_limite_inferior) (simp, linarith)
    moreover have "MU_0 * ?I / 200 \<le> campo z (1, 1 / 2, ?I)"
      using zi by (intro campo_limite_inferior) (simp, linarith)
    moreover have "MU_0 * ?I / 200 \<le> campo z (1, 1, ?I)"
      using zi by (intro campo_limite_inferior) (simp, linarith)
    moreover have "MU_0 * ?I / 200 \<le> campo z (1, 2, ?I)"
      using zi by (intro campo_limite_inferior) (simp, linarith)
    ultimately show "6 * (MU_0 * ?I / 200) \<le> x" unfolding x by linarith
  qed
  with ne have "6 * (MU_0 * ?I / 200) \<le> media ?p" by (rule media_limite_inferior)
  then show ?thesis using MU_0_limites by simp
qed



lemma uniformidade_pos:
  assumes "1 / 10 \<le> media xs"
  shows "0 < uniformidade xs"
proof -
  have "0 \<le> desvio xs / media xs" using assms by (simp add: desvio_nonneg)
  then have "0 < desvio xs / media xs + 1 / 1000000000" by simp
  then show ?thesis unfolding uniformidade_def by simp
qed

subsection \<open>The mutation loop, gene by gene\<close>

lemma length_mutar_gene: "length (mutar_gene cfg i s c) = length c"
  by (cases s) (simp add: mutar_gene_def Let_def)

lemma mutar_gene_nth:
  "j < length c \<Longrightarrow>
   mutar_gene cfg i s c ! j = (if j = i then gene_mutado cfg i s (c ! j) else c ! j)"
  by (cases s) (simp add: mutar_gene_def gene_mutado_def np_random_normal_def Let_def)

lemma foldl_mutar_gene:
  "n \<le> length c \<Longrightarrow>
   length (foldl (\<lambda>c i. mutar_gene cfg i (s i) c) c [0..<n]) = length c \<and>
   (\<forall>j < length c. foldl (\<lambda>c i. mutar_gene cfg i (s i) c) c [0..<n] ! j =
        (if j < n then gene_mutado cfg j (s j) (c ! j) else c ! j))"
proof (induction n)
  case 0
  then show ?case by simp
next
  case (Suc n)
  let ?r = "foldl (\<lambda>c i. mutar_gene cfg i (s i) c) c [0..<n]"
  from Suc have len: "length ?r = length c"
    and nth: "\<forall>j < length c. ?r ! j = (if j < n then gene_mutado cfg j (s j) (c ! j) else c ! j)"
    by simp_all
  have step: "foldl (\<lambda>c i. mutar_gene cfg i (s i) c) c [0..<Suc n] = mutar_gene cfg n (s n) ?r"
    by simp
  show ?case
  proof (intro conjI allI impI)
    show "length (foldl (\<lambda>c i. mutar_gene cfg i (s i) c) c [0..<Suc n]) = length c"
      by (simp only: step length_mutar_gene len)
  next
    fix j assume j: "j < length c"
    then have "mutar_gene cfg n (s n) ?r ! j
        = (if j = n then gene_mutado cfg n (s n) (?r ! j) else ?r ! j)"
      by (simp only: mutar_gene_nth len)
    with nth j show "foldl (\<lambda>c i. mutar_gene cfg i (s i) c) c [0..<Suc n] ! j =
        (if j < Suc n then gene_mutado cfg j (s j) (c ! j) else c ! j)"
      unfolding step by (auto simp: less_Suc_eq)
  qed
qed

lemma length_mutacao_laco: "length (mutacao_laco cfg s c) = length c"
  using foldl_mutar_gene [of "length c" c cfg s] by (simp add: mutacao_laco_def)

lemma mutacao_laco_nth:
  "j < length c \<Longrightarrow> mutacao_laco cfg s c ! j = gene_mutado cfg j (s j) (c ! j)"
  using foldl_mutar_gene [of "length c" c cfg s] by (simp add: mutacao_laco_def)

lemma mutacao_laco_taxa_0:
  assumes "\<forall>i. sorteio_rand (fst (s i))" and "taxa_mutacao cfg = 0"
  shows "mutacao_laco cfg s c = c"
proof (rule nth_equalityI)
  show "length (mutacao_laco cfg s c) = length c" by (rule length_mutacao_laco)
next
  fix i assume "i < length (mutacao_laco cfg s c)"
  then have i: "i < length c" by (simp add: length_mutacao_laco)
  from assms(1) have "0 \<le> fst (s i)" by (simp add: sorteio_rand_def)
  then show "mutacao_laco cfg s c ! i = c ! i"
    using assms(2) by (simp add: mutacao_laco_nth [OF i] gene_mutado_def)
qed

lemma mutacao_laco_taxa_1:
  assumes "\<forall>i. sorteio_rand (fst (s i))" and "taxa_mutacao cfg = 1" and "i < length c"
  shows "mutacao_laco cfg s c ! i =
     (if i mod 3 = 0 then max RAIO_MINIMO (c ! i + 2 / 10 * snd (s i))
      else c ! i + 2 / 10 * snd (s i))"
proof -
  from assms(1) have "fst (s i) < 1" by (simp add: sorteio_rand_def)
  then show ?thesis
    using assms(2) by (simp add: mutacao_laco_nth [OF assms(3)] gene_mutado_def max_def)
qed

subsection \<open>Crossover: the two branches\<close>

lemma corte_sorteado_limites:
  assumes "3 \<le> L"
  shows "1 \<le> corte_sorteado L bruto \<and> corte_sorteado L bruto \<le> L - 2"
proof -
  have p: "0 < int L - 1 - 1" using assms by simp
  then have "0 \<le> bruto mod (int L - 1 - 1) \<and> bruto mod (int L - 1 - 1) < int L - 1 - 1"
    by simp
  then show ?thesis unfolding corte_sorteado_def by linarith
qed

lemma cruzamento_corta:
  assumes "u < taxa_cruzamento cfg" and "3 \<le> length (celulas m pai1)"
  shows "cruzamento cfg m pai1 pai2 u bruto =
     Inr (proxima m, Suc (proxima m),
          m\<lparr>celulas := (celulas m)
                (proxima m := fst (cortar (celulas m pai1) (celulas m pai2)
                                    (corte_sorteado (length (celulas m pai1)) bruto)),
                 Suc (proxima m) := snd (cortar (celulas m pai1) (celulas m pai2)
                                    (corte_sorteado (length (celulas m pai1)) bruto))),
            proxima := Suc (Suc (proxima m))\<rparr>)"
proof -
  from assms(2) have "\<not> int (length (celulas m pai1)) - 1 \<le> 1" by simp
  then show ?thesis
    using assms(1)
    by (simp add: cruzamento_def np_random_randint_def corte_sorteado_def alocar_def Let_def
        split_beta)
qed

lemma cruzamento_copia:
  "\<not> u < taxa_cruzamento cfg \<Longrightarrow> cruzamento cfg m pai1 pai2 u bruto = Inr (pai1, pai2, m)"
  by (simp add: cruzamento_def)

lemma corte_sorteado_bijecao:
  assumes "3 \<le> L"
  shows "bij_betw (corte_sorteado L) {0..<int L - 2} {1..L - 2}"
proof (rule bij_betw_byWitness [where f' = "\<lambda>k. int k - 1"])
  show "\<forall>b \<in> {0..<int L - 2}. int (corte_sorteado L b) - 1 = b"
  proof
    fix b assume b: "b \<in> {0..<int L - 2}"
    then have "b mod (int L - 1 - 1) = b" by simp
    then show "int (corte_sorteado L b) - 1 = b"
      using b by (simp add: corte_sorteado_def)
  qed
next
  show "\<forall>k \<in> {1..L - 2}. corte_sorteado L (int k - 1) = k"
  proof
    fix k assume k: "k \<in> {1..L - 2}"
    then have "(int k - 1) mod (int L - 1 - 1) = int k - 1" using assms by auto
    then show "corte_sorteado L (int k - 1) = k"
      using k by (simp add: corte_sorteado_def)
  qed
next
  show "corte_sorteado L ` {0..<int L - 2} \<subseteq> {1..L - 2}"
    using corte_sorteado_limites [OF assms] by auto
next
  show "(\<lambda>k. int k - 1) ` {1..L - 2} \<subseteq> {0..<int L - 2}"
    using assms by auto
qed

lemma nth_corte:
  assumes "k \<le> i" and "i < length p2" and "length p1 = length p2"
  shows "(take k p1 @ drop k p2) ! i = p2 ! i"
  using assms by (simp add: nth_append min_def)

lemma exemplo_comprimentos:
  "length (celulas memoria_exemplo 0) = 18" "length (celulas memoria_exemplo 2) = 18"
  by (simp_all add: memoria_exemplo_def cromossomo_fraco_def cromossomo_forte_def)

subsection \<open>First maximum: \<open>max\<close> with a key and \<open>argmax\<close>\<close>

lemma max_laco_primeiro:
  "(max_laco key b xs = b \<and> (\<forall>x \<in> set xs. key x \<le> key b)) \<or>
   (\<exists>p < length xs. max_laco key b xs = xs ! p \<and> key b < key (xs ! p)
        \<and> (\<forall>q < length xs. key (xs ! q) \<le> key (xs ! p))
        \<and> (\<forall>q < p. key (xs ! q) < key (xs ! p)))"
proof (induction xs arbitrary: b)
  case Nil
  then show ?case by simp
next
  case (Cons x xs)
  show ?case
  proof (cases "key b < key x")
    case True
    then have m: "max_laco key b (x # xs) = max_laco key x xs" by simp
    from Cons.IH [of x] show ?thesis
    proof
      assume a: "max_laco key x xs = x \<and> (\<forall>y \<in> set xs. key y \<le> key x)"
      have "0 < length (x # xs) \<and> max_laco key b (x # xs) = (x # xs) ! 0
          \<and> key b < key ((x # xs) ! 0)
          \<and> (\<forall>q < length (x # xs). key ((x # xs) ! q) \<le> key ((x # xs) ! 0))
          \<and> (\<forall>q < 0. key ((x # xs) ! q) < key ((x # xs) ! 0))"
        using a True m by (auto simp: nth_Cons')
      then show ?thesis by blast
    next
      assume "\<exists>p < length xs. max_laco key x xs = xs ! p \<and> key x < key (xs ! p)
        \<and> (\<forall>q < length xs. key (xs ! q) \<le> key (xs ! p))
        \<and> (\<forall>q < p. key (xs ! q) < key (xs ! p))"
      then obtain p where p: "p < length xs" "max_laco key x xs = xs ! p" "key x < key (xs ! p)"
        "\<forall>q < length xs. key (xs ! q) \<le> key (xs ! p)" "\<forall>q < p. key (xs ! q) < key (xs ! p)"
        by blast
      have "Suc p < length (x # xs) \<and> max_laco key b (x # xs) = (x # xs) ! Suc p
          \<and> key b < key ((x # xs) ! Suc p)
          \<and> (\<forall>q < length (x # xs). key ((x # xs) ! q) \<le> key ((x # xs) ! Suc p))
          \<and> (\<forall>q < Suc p. key ((x # xs) ! q) < key ((x # xs) ! Suc p))"
        using p True m by (auto simp: nth_Cons' less_Suc_eq_0_disj)
      then show ?thesis by blast
    qed
  next
    case False
    then have m: "max_laco key b (x # xs) = max_laco key b xs" by simp
    from Cons.IH [of b] show ?thesis
    proof
      assume "max_laco key b xs = b \<and> (\<forall>y \<in> set xs. key y \<le> key b)"
      then show ?thesis using False m by auto
    next
      assume "\<exists>p < length xs. max_laco key b xs = xs ! p \<and> key b < key (xs ! p)
        \<and> (\<forall>q < length xs. key (xs ! q) \<le> key (xs ! p))
        \<and> (\<forall>q < p. key (xs ! q) < key (xs ! p))"
      then obtain p where p: "p < length xs" "max_laco key b xs = xs ! p" "key b < key (xs ! p)"
        "\<forall>q < length xs. key (xs ! q) \<le> key (xs ! p)" "\<forall>q < p. key (xs ! q) < key (xs ! p)"
        by blast
      have "Suc p < length (x # xs) \<and> max_laco key b (x # xs) = (x # xs) ! Suc p
          \<and> key b < key ((x # xs) ! Suc p)
          \<and> (\<forall>q < length (x # xs). key ((x # xs) ! q) \<le> key ((x # xs) ! Suc p))
          \<and> (\<forall>q < Suc p. key ((x # xs) ! q) < key ((x # xs) ! Suc p))"
        using p False m by (auto simp: nth_Cons' less_Suc_eq_0_disj)
      then show ?thesis by blast
    qed
  qed
qed

lemma py_max_primeiro:
  assumes "ys \<noteq> []"
  shows "\<exists>p < length ys. py_max ys key = Inr (ys ! p)
        \<and> (\<forall>q < length ys. key (ys ! q) \<le> key (ys ! p))
        \<and> (\<forall>q < p. key (ys ! q) < key (ys ! p))"
proof -
  from assms obtain b xs where ys: "ys = b # xs" by (cases ys) auto
  from max_laco_primeiro [of key b xs] show ?thesis
  proof
    assume a: "max_laco key b xs = b \<and> (\<forall>x \<in> set xs. key x \<le> key b)"
    have "0 < length ys \<and> py_max ys key = Inr (ys ! 0)
        \<and> (\<forall>q < length ys. key (ys ! q) \<le> key (ys ! 0))
        \<and> (\<forall>q < 0. key (ys ! q) < key (ys ! 0))"
      using a by (auto simp: ys py_max_def nth_Cons')
    then show ?thesis by blast
  next
    assume "\<exists>p < length xs. max_laco key b xs = xs ! p \<and> key b < key (xs ! p)
        \<and> (\<forall>q < length xs. key (xs ! q) \<le> key (xs ! p))
        \<and> (\<forall>q < p. key (xs ! q) < key (xs ! p))"
    then obtain p where p: "p < length xs" "max_laco key b xs = xs ! p" "key b < key (xs ! p)"
        "\<forall>q < length xs. key (xs ! q) \<le> key (xs ! p)" "\<forall>q < p. key (xs ! q) < key (xs ! p)"
      by blast
    have "Suc p < length ys \<and> py_max ys key = Inr (ys ! Suc p)
        \<and> (\<forall>q < length ys. key (ys ! q) \<le> key (ys ! Suc p))
        \<and> (\<forall>q < Suc p. key (ys ! q) < key (ys ! Suc p))"
      using p by (auto simp: ys py_max_def nth_Cons' less_Suc_eq_0_disj)
    then show ?thesis by blast
  qed
qed

lemma argmax_laco_primeiro:
  "(argmax_laco xs i bi bv = bi \<and> (\<forall>x \<in> set xs. x \<le> bv)) \<or>
   (\<exists>p < length xs. argmax_laco xs i bi bv = i + p \<and> bv < xs ! p
        \<and> (\<forall>q < length xs. xs ! q \<le> xs ! p)
        \<and> (\<forall>q < p. xs ! q < xs ! p))"
proof (induction xs arbitrary: i bi bv)
  case Nil
  then show ?case by simp
next
  case (Cons x xs)
  show ?case
  proof (cases "bv < x")
    case True
    then have m: "argmax_laco (x # xs) i bi bv = argmax_laco xs (Suc i) i x" by simp
    from Cons.IH [of "Suc i" i x] show ?thesis
    proof
      assume a: "argmax_laco xs (Suc i) i x = i \<and> (\<forall>y \<in> set xs. y \<le> x)"
      have "0 < length (x # xs) \<and> argmax_laco (x # xs) i bi bv = i + 0
          \<and> bv < (x # xs) ! 0
          \<and> (\<forall>q < length (x # xs). (x # xs) ! q \<le> (x # xs) ! 0)
          \<and> (\<forall>q < 0. (x # xs) ! q < (x # xs) ! 0)"
        using a True m by (auto simp: nth_Cons')
      then show ?thesis by blast
    next
      assume "\<exists>p < length xs. argmax_laco xs (Suc i) i x = Suc i + p \<and> x < xs ! p
        \<and> (\<forall>q < length xs. xs ! q \<le> xs ! p) \<and> (\<forall>q < p. xs ! q < xs ! p)"
      then obtain p where p: "p < length xs" "argmax_laco xs (Suc i) i x = Suc i + p"
        "x < xs ! p" "\<forall>q < length xs. xs ! q \<le> xs ! p" "\<forall>q < p. xs ! q < xs ! p"
        by blast
      have "Suc p < length (x # xs) \<and> argmax_laco (x # xs) i bi bv = i + Suc p
          \<and> bv < (x # xs) ! Suc p
          \<and> (\<forall>q < length (x # xs). (x # xs) ! q \<le> (x # xs) ! Suc p)
          \<and> (\<forall>q < Suc p. (x # xs) ! q < (x # xs) ! Suc p)"
        using p True m by (auto simp: nth_Cons' less_Suc_eq_0_disj)
      then show ?thesis by blast
    qed
  next
    case False
    then have m: "argmax_laco (x # xs) i bi bv = argmax_laco xs (Suc i) bi bv" by simp
    from Cons.IH [of "Suc i" bi bv] show ?thesis
    proof
      assume "argmax_laco xs (Suc i) bi bv = bi \<and> (\<forall>y \<in> set xs. y \<le> bv)"
      then show ?thesis using False m by auto
    next
      assume "\<exists>p < length xs. argmax_laco xs (Suc i) bi bv = Suc i + p \<and> bv < xs ! p
        \<and> (\<forall>q < length xs. xs ! q \<le> xs ! p) \<and> (\<forall>q < p. xs ! q < xs ! p)"
      then obtain p where p: "p < length xs" "argmax_laco xs (Suc i) bi bv = Suc i + p"
        "bv < xs ! p" "\<forall>q < length xs. xs ! q \<le> xs ! p" "\<forall>q < p. xs ! q < xs ! p"
        by blast
      have "Suc p < length (x # xs) \<and> argmax_laco (x # xs) i bi bv = i + Suc p
          \<and> bv < (x # xs) ! Suc p
          \<and> (\<forall>q < length (x # xs). (x # xs) ! q \<le> (x # xs) ! Suc p)
          \<and> (\<forall>q < Suc p. (x # xs) ! q < (x # xs) ! Suc p)"
        using p False m by (auto simp: nth_Cons' less_Suc_eq_0_disj)
      then show ?thesis by blast
    qed
  qed
qed

lemma np_argmax_primeiro:
  assumes "ys \<noteq> []"
  shows "\<exists>i < length ys. np_argmax ys = Inr i
        \<and> (\<forall>j < length ys. ys ! j \<le> ys ! i)
        \<and> (\<forall>j < i. ys ! j < ys ! i)"
proof -
  from assms obtain b xs where ys: "ys = b # xs" by (cases ys) auto
  from argmax_laco_primeiro [of xs 1 0 b] show ?thesis
  proof
    assume a: "argmax_laco xs 1 0 b = 0 \<and> (\<forall>x \<in> set xs. x \<le> b)"
    have "0 < length ys \<and> np_argmax ys = Inr 0
        \<and> (\<forall>j < length ys. ys ! j \<le> ys ! 0) \<and> (\<forall>j < 0. ys ! j < ys ! 0)"
      using a by (auto simp: ys np_argmax_def nth_Cons')
    then show ?thesis by blast
  next
    assume "\<exists>p < length xs. argmax_laco xs 1 0 b = 1 + p \<and> b < xs ! p
        \<and> (\<forall>q < length xs. xs ! q \<le> xs ! p) \<and> (\<forall>q < p. xs ! q < xs ! p)"
    then obtain p where p: "p < length xs" "argmax_laco xs 1 0 b = 1 + p" "b < xs ! p"
        "\<forall>q < length xs. xs ! q \<le> xs ! p" "\<forall>q < p. xs ! q < xs ! p"
      by blast
    have "Suc p < length ys \<and> np_argmax ys = Inr (Suc p)
        \<and> (\<forall>j < length ys. ys ! j \<le> ys ! Suc p) \<and> (\<forall>j < Suc p. ys ! j < ys ! Suc p)"
      using p by (auto simp: ys np_argmax_def nth_Cons' less_Suc_eq_0_disj)
    then show ?thesis by blast
  qed
qed

lemma selecao_primeiro:
  assumes "sorteio_choice (length populacao) (tamanho_torneio cfg) sel"
    and "0 < tamanho_torneio cfg"
    and "length aptidoes = length populacao"
  shows "\<exists>p < length sel. selecao cfg populacao aptidoes sel = Inr (populacao ! (sel ! p))
        \<and> sel ! p < length populacao
        \<and> (\<forall>q < length sel. aptidoes ! (sel ! q) \<le> aptidoes ! (sel ! p))
        \<and> (\<forall>q < p. aptidoes ! (sel ! q) < aptidoes ! (sel ! p))"
proof -
  from assms(1) have len: "length sel = tamanho_torneio cfg"
    and lim: "list_all (\<lambda>i. i < length populacao) sel"
    by (simp_all add: sorteio_choice_def)
  from len assms(2) have ne: "sel \<noteq> []" by auto
  have "distinct sel \<and> set sel \<subseteq> {..<length populacao}"
    using assms(1) by (auto simp: sorteio_choice_def list_all_iff)
  then have "length sel \<le> length populacao"
    by (metis card_lessThan card_mono distinct_card finite_lessThan)
  then have ch: "np_random_choice (length populacao) (tamanho_torneio cfg) sel = Inr sel"
    by (simp add: np_random_choice_def len)
  from py_max_primeiro [OF ne, of "\<lambda>i. aptidoes ! i"]
  obtain p where p: "p < length sel" "py_max sel (\<lambda>i. aptidoes ! i) = Inr (sel ! p)"
    "\<forall>q < length sel. aptidoes ! (sel ! q) \<le> aptidoes ! (sel ! p)"
    "\<forall>q < p. aptidoes ! (sel ! q) < aptidoes ! (sel ! p)"
    by blast
  from lim p(1) have i: "sel ! p < length populacao" by (simp add: list_all_length)
  have "selecao cfg populacao aptidoes sel = Inr (populacao ! (sel ! p))"
    using lim i by (simp add: selecao_def ch assms(3) p(2) indexar_def)
  with p i show ?thesis by blast
qed

subsection \<open>One turn of the reproduction loop without crossover\<close>

lemma selecao_membro:
  assumes "selecao cfg populacao aptidoes sel = Inr r"
  shows "r \<in> set populacao"
proof -
  from assms obtain i where "indexar populacao i = Inr r"
    by (auto simp: selecao_def entao_def split: sum.splits if_splits)
  then show ?thesis by (auto simp: indexar_def split: if_splits)
qed

lemma iteracao_sem_cruzamento:
  assumes "selecao cfg populacao aptidoes (torneio1 s) = Inr pai1"
    and "selecao cfg populacao aptidoes (torneio2 s) = Inr pai2"
    and "\<not> u_cruzamento s < taxa_cruzamento cfg"
  shows "iteracao cfg populacao aptidoes s (m, nova) =
     Inr (snd (mutacao cfg (snd (mutacao cfg m pai1 (genes1 s))) pai2 (genes2 s)),
          nova @ [pai1, pai2])"
  using assms by (simp add: iteracao_def cruzamento_def mutacao_def)

lemma aptidao_fraco: "calcular_aptidao cromossomo_fraco = Inr (1 / 10)"
  using fraco_media by (simp add: aptidao_valida [OF fraco_valido])

subsection \<open>The reproduction loop and the loop over the generations\<close>

lemma aptidao_total_18:
  assumes "length c = 18"
  shows "\<exists>v. calcular_aptidao c = Inr v"
proof (cases "estruturalmente_valido c")
  case True
  then show ?thesis by (simp add: aptidao_valida)
next
  case False
  with assms obtain k where k: "k < 6" "c ! (3 * k) < RAIO_MINIMO \<or> c ! (3 * k + 2) \<le> 0"
    by (auto simp: estruturalmente_valido_def not_le not_less)
  have len: "3 * k + 2 < length c" using assms k(1) by simp
  have "k < length (linhas c)" using assms k(1) by (simp add: length_linhas)
  then have "linhas c ! k \<in> set (linhas c)" by simp
  moreover have "bobina_invalida (linhas c ! k)"
    using k(2) by (simp add: linhas_nth [OF len] bobina_invalida_def)
  ultimately have "\<exists>b \<in> set (linhas c). bobina_invalida b" by blast
  then have "laco_bobinas (linhas c) (np_zeros_like Z_AVALIACAO) = Inr (Retorna SENTINELA)"
    by (rule laco_bobinas_sentinela)
  then show ?thesis using assms by (simp add: calcular_aptidao_def reshape_def NUM_BOBINAS_def)
qed

lemma avaliar_ok:
  "\<forall>r \<in> set populacao. length (celulas m r) = 18 \<Longrightarrow>
     \<exists>as. avaliar m populacao = Inr as \<and> length as = length populacao"
proof (induction populacao)
  case Nil
  then show ?case by simp
next
  case (Cons r rs)
  then have "length (celulas m r) = 18" by simp
  then obtain a where a: "calcular_aptidao (celulas m r) = Inr a"
    using aptidao_total_18 by blast
  from Cons obtain as where "avaliar m rs = Inr as" "length as = length rs" by auto
  then show ?case by (simp add: a)
qed

lemma cruzamento_comprimentos:
  assumes "length (celulas m pai1) = n" and "length (celulas m pai2) = n" and "3 \<le> n"
  shows "\<exists>filho1 filho2 m'. cruzamento cfg m pai1 pai2 u bruto = Inr (filho1, filho2, m')
           \<and> (\<forall>r. length (celulas m r) = n \<longrightarrow> length (celulas m' r) = n)
           \<and> length (celulas m' filho1) = n \<and> length (celulas m' filho2) = n"
proof (cases "u < taxa_cruzamento cfg")
  case True
  have l: "3 \<le> length (celulas m pai1)" using assms(1,3) by simp
  have "length (fst (cortar (celulas m pai1) (celulas m pai2) k)) = n"
    "length (snd (cortar (celulas m pai1) (celulas m pai2) k)) = n" for k
    using assms(1,2) by (simp_all add: cortar_def)
  then show ?thesis
    unfolding cruzamento_corta [OF True l] by simp
next
  case False
  then show ?thesis using assms by (simp add: cruzamento_copia)
qed

lemma mutacao_comprimentos:
  "length (celulas (snd (mutacao cfg m r s)) r') = length (celulas m r')"
  by (simp add: mutacao_def length_mutacao_laco)

lemma iteracao_ok:
  assumes "sorteios_validos cfg (length populacao) s"
    and "0 < tamanho_torneio cfg"
    and "length aptidoes = length populacao"
    and "\<forall>r \<in> set populacao. length (celulas m r) = 18"
  shows "\<exists>m' r1 r2. iteracao cfg populacao aptidoes s (m, nova) = Inr (m', nova @ [r1, r2])
           \<and> (\<forall>r. length (celulas m r) = 18 \<longrightarrow> length (celulas m' r) = 18)
           \<and> length (celulas m' r1) = 18 \<and> length (celulas m' r2) = 18"
proof -
  from assms(1) have t1: "sorteio_choice (length populacao) (tamanho_torneio cfg) (torneio1 s)"
    and t2: "sorteio_choice (length populacao) (tamanho_torneio cfg) (torneio2 s)"
    by (simp_all add: sorteios_validos_def)
  from selecao_primeiro [OF t1 assms(2,3)]
  obtain pai1 where p1: "selecao cfg populacao aptidoes (torneio1 s) = Inr pai1"
    by blast
  from selecao_primeiro [OF t2 assms(2,3)]
  obtain pai2 where p2: "selecao cfg populacao aptidoes (torneio2 s) = Inr pai2"
    by blast
  have "pai1 \<in> set populacao" "pai2 \<in> set populacao"
    using p1 p2 by (auto dest: selecao_membro)
  with assms(4) have l: "length (celulas m pai1) = 18" "length (celulas m pai2) = 18"
    by simp_all
  have "(3::nat) \<le> 18" by simp
  from cruzamento_comprimentos [OF l this, of cfg "u_cruzamento s" "bruto_corte s"]
  obtain filho1 filho2 m1 where
    c: "cruzamento cfg m pai1 pai2 (u_cruzamento s) (bruto_corte s) = Inr (filho1, filho2, m1)"
    and c1: "\<forall>r. length (celulas m r) = 18 \<longrightarrow> length (celulas m1 r) = 18"
    and c2: "length (celulas m1 filho1) = 18" "length (celulas m1 filho2) = 18"
    by blast
  let ?m2 = "snd (mutacao cfg m1 filho1 (genes1 s))"
  let ?m3 = "snd (mutacao cfg ?m2 filho2 (genes2 s))"
  have "iteracao cfg populacao aptidoes s (m, nova) = Inr (?m3, nova @ [filho1, filho2])"
    by (simp add: iteracao_def p1 p2 c mutacao_def)
  moreover have "\<forall>r. length (celulas m r) = 18 \<longrightarrow> length (celulas ?m3 r) = 18"
    using c1 by (simp add: mutacao_comprimentos)
  moreover have "length (celulas ?m3 filho1) = 18" "length (celulas ?m3 filho2) = 18"
    using c2 by (simp_all add: mutacao_comprimentos)
  ultimately show ?thesis by blast
qed

lemma laco_reproducao_ok:
  assumes "0 < tamanho_torneio cfg"
    and "length aptidoes = length populacao"
  shows "\<forall>k \<in> set ks. sorteios_validos cfg (length populacao) (s k) \<Longrightarrow>
     \<forall>r \<in> set populacao \<union> set nova. length (celulas m r) = 18 \<Longrightarrow>
     \<exists>m' nova'. laco_reproducao cfg populacao aptidoes s ks (m, nova) = Inr (m', nova')
        \<and> length nova' = length nova + 2 * length ks
        \<and> (\<forall>r \<in> set nova'. length (celulas m' r) = 18)"
proof (induction ks arbitrary: m nova)
  case Nil
  then show ?case by simp
next
  case (Cons k ks)
  from Cons.prems(1) have v: "sorteios_validos cfg (length populacao) (s k)" by simp
  from Cons.prems(2) have p: "\<forall>r \<in> set populacao. length (celulas m r) = 18" by simp
  from iteracao_ok [OF v assms p, of nova]
  obtain m1 r1 r2 where
    i: "iteracao cfg populacao aptidoes (s k) (m, nova) = Inr (m1, nova @ [r1, r2])"
    and l: "\<forall>r. length (celulas m r) = 18 \<longrightarrow> length (celulas m1 r) = 18"
    and n: "length (celulas m1 r1) = 18" "length (celulas m1 r2) = 18"
    by blast
  have vs: "\<forall>k \<in> set ks. sorteios_validos cfg (length populacao) (s k)"
    using Cons.prems(1) by simp
  have inv: "\<forall>r \<in> set populacao \<union> set (nova @ [r1, r2]). length (celulas m1 r) = 18"
    using Cons.prems(2) l n by auto
  from Cons.IH [OF vs inv]
  obtain m' nova' where
    "laco_reproducao cfg populacao aptidoes s ks (m1, nova @ [r1, r2]) = Inr (m', nova')"
    "length nova' = length (nova @ [r1, r2]) + 2 * length ks"
    "\<forall>r \<in> set nova'. length (celulas m' r) = 18"
    by blast
  then show ?case by (simp add: i)
qed

lemma reproducao_ok:
  assumes "\<forall>k < tamanho_populacao cfg div 2. sorteios_validos cfg (length populacao) (s k)"
    and "0 < tamanho_torneio cfg"
    and "length aptidoes = length populacao"
    and "\<forall>r \<in> set populacao. length (celulas m r) = 18"
  shows "\<exists>m' nova. reproducao cfg m populacao aptidoes s = Inr (m', nova)
        \<and> length nova = 2 * (tamanho_populacao cfg div 2)
        \<and> (\<forall>r \<in> set nova. length (celulas m' r) = 18)"
proof -
  have v: "\<forall>k \<in> set [0..<tamanho_populacao cfg div 2]. sorteios_validos cfg (length populacao) (s k)"
    using assms(1) by simp
  have i: "\<forall>r \<in> set populacao \<union> set []. length (celulas m r) = 18" using assms(4) by simp
  from laco_reproducao_ok [OF assms(2,3) v i] show ?thesis by (simp add: reproducao_def)
qed

lemma reproducao_torneio_grande:
  assumes "length populacao < tamanho_torneio cfg" and "2 \<le> tamanho_populacao cfg"
  shows "reproducao cfg m populacao aptidoes s = Inl ValueError"
proof -
  from assms(2) have "0 < tamanho_populacao cfg div 2" by simp
  then have u: "[0..<tamanho_populacao cfg div 2] = 0 # [1..<tamanho_populacao cfg div 2]"
    by (simp add: upt_conv_Cons)
  have "selecao cfg populacao aptidoes (torneio1 (s 0)) = Inl ValueError"
    using assms(1) by (simp add: selecao_def np_random_choice_def)
  then have "iteracao cfg populacao aptidoes (s 0) (m, []) = Inl ValueError"
    by (simp add: iteracao_def)
  then show ?thesis by (simp add: reproducao_def u)
qed

lemma melhor_aptidao_ok: "aptidoes \<noteq> [] \<Longrightarrow> \<exists>v. melhor_aptidao aptidoes = Inr v"
  by (cases aptidoes) (simp_all add: melhor_aptidao_def)

lemma geracao_ok:
  assumes "sorteios_da_geracao cfg g s"
    and "0 < tamanho_torneio cfg"
    and "length populacao = tamanho_na_geracao cfg g"
    and "\<forall>r \<in> set populacao. length (celulas m r) = 18"
    and "2 \<le> tamanho_populacao cfg"
  shows "\<exists>m' nova. geracao cfg g m populacao s = Inr (m', nova)
        \<and> length nova = tamanho_na_geracao cfg (Suc g)
        \<and> (\<forall>r \<in> set nova. length (celulas m' r) = 18)"
proof -
  from avaliar_ok [OF assms(4)]
  obtain as where a: "avaliar m populacao = Inr as" "length as = length populacao" by blast
  have v: "\<forall>k < tamanho_populacao cfg div 2. sorteios_validos cfg (length populacao) (s k)"
    using assms(1,3) by (simp add: sorteios_da_geracao_def)
  from reproducao_ok [OF v assms(2) a(2) assms(4)]
  obtain m' nova where r: "reproducao cfg m populacao as s = Inr (m', nova)"
    "length nova = 2 * (tamanho_populacao cfg div 2)"
    "\<forall>r \<in> set nova. length (celulas m' r) = 18"
    by blast
  have "0 < tamanho_na_geracao cfg g" using assms(5) by (simp add: tamanho_na_geracao_def)
  with a(2) assms(3) have "as \<noteq> []" by auto
  then obtain b where "melhor_aptidao as = Inr b" using melhor_aptidao_ok by blast
  then have "geracao cfg g m populacao s = Inr (m', nova)"
    by (simp add: geracao_def a(1) r(1))
  with r(2,3) show ?thesis by (simp add: tamanho_na_geracao_def)
qed

lemma geracao_torneio_grande:
  assumes "length populacao < tamanho_torneio cfg" and "2 \<le> tamanho_populacao cfg"
    and "\<forall>r \<in> set populacao. length (celulas m r) = 18"
  shows "geracao cfg g m populacao s = Inl ValueError"
proof -
  from avaliar_ok [OF assms(3)]
  obtain as where a: "avaliar m populacao = Inr as" by blast
  show ?thesis
    by (simp add: geracao_def a reproducao_torneio_grande [OF assms(1,2)])
qed

lemma inicializar_laco_ok:
  "\<forall>r \<in> set populacao. length (celulas m r) = 18 \<Longrightarrow>
   length (snd (inicializar_laco u ks (m, populacao))) = length populacao + length ks
   \<and> (\<forall>r \<in> set (snd (inicializar_laco u ks (m, populacao))).
         length (celulas (fst (inicializar_laco u ks (m, populacao))) r) = 18)"
proof (induction ks arbitrary: m populacao)
  case Nil
  then show ?case by simp
next
  case (Cons k ks)
  let ?c = "inicializar_cromossomo (u k)"
  let ?m = "m\<lparr>celulas := (celulas m)(proxima m := ?c), proxima := Suc (proxima m)\<rparr>"
  have l: "length ?c = 18" by (simp add: inicializar_cromossomo_def NUM_BOBINAS_def)
  have "\<forall>r \<in> set (populacao @ [proxima m]). length (celulas ?m r) = 18"
    using Cons.prems l by simp
  from Cons.IH [OF this] show ?case by (simp add: alocar_def)
qed

lemma inicializar_populacao_ok:
  "length (snd (inicializar_populacao cfg m u)) = tamanho_populacao cfg
   \<and> (\<forall>r \<in> set (snd (inicializar_populacao cfg m u)).
         length (celulas (fst (inicializar_populacao cfg m u)) r) = 18)"
  using inicializar_laco_ok [of "[]" m u "[0..<tamanho_populacao cfg]"]
  by (simp add: inicializar_populacao_def)

lemma laco_geracoes_ok:
  assumes "0 < tamanho_torneio cfg" and "2 \<le> tamanho_populacao cfg"
  shows "\<forall>g < a + n. sorteios_da_geracao cfg g (s g) \<Longrightarrow>
     length populacao = tamanho_na_geracao cfg a \<Longrightarrow>
     \<forall>r \<in> set populacao. length (celulas m r) = 18 \<Longrightarrow>
     \<exists>m' final. laco_geracoes cfg s [a..<a + n] (m, populacao) = Inr (m', final)
        \<and> length final = tamanho_na_geracao cfg (a + n)
        \<and> (\<forall>r \<in> set final. length (celulas m' r) = 18)"
proof (induction n arbitrary: a m populacao)
  case 0
  then show ?case by simp
next
  case (Suc n)
  have u: "[a..<a + Suc n] = a # [Suc a..<Suc a + n]" by (simp add: upt_conv_Cons)
  from Suc.prems(1) have v: "sorteios_da_geracao cfg a (s a)" by simp
  from geracao_ok [OF v assms(1) Suc.prems(2,3) assms(2)]
  obtain m1 nova where g: "geracao cfg a m populacao (s a) = Inr (m1, nova)"
    and l: "length nova = tamanho_na_geracao cfg (Suc a)"
    and i: "\<forall>r \<in> set nova. length (celulas m1 r) = 18"
    by blast
  have vs: "\<forall>g < Suc a + n. sorteios_da_geracao cfg g (s g)" using Suc.prems(1) by simp
  from Suc.IH [OF vs l i]
  obtain m' final where "laco_geracoes cfg s [Suc a..<Suc a + n] (m1, nova) = Inr (m', final)"
    "length final = tamanho_na_geracao cfg (Suc a + n)"
    "\<forall>r \<in> set final. length (celulas m' r) = 18"
    by blast
  then show ?case unfolding u by (simp add: g)
qed

lemma evolucao_ok:
  assumes "0 < tamanho_torneio cfg" and "2 \<le> tamanho_populacao cfg"
    and "\<forall>g < num_geracoes cfg. sorteios_da_geracao cfg g (s g)"
  shows "\<exists>m' final. evolucao cfg m u s = Inr (m', final)
        \<and> length final = tamanho_na_geracao cfg (num_geracoes cfg)"
proof -
  obtain m0 p0 where e: "inicializar_populacao cfg m u = (m0, p0)" by (cases "inicializar_populacao cfg m u")
  with inicializar_populacao_ok [of cfg m u]
  have l: "length p0 = tamanho_na_geracao cfg 0"
    and i: "\<forall>r \<in> set p0. length (celulas m0 r) = 18"
    by (simp_all add: tamanho_na_geracao_def)
  have v: "\<forall>g < 0 + num_geracoes cfg. sorteios_da_geracao cfg g (s g)" using assms(3) by simp
  from laco_geracoes_ok [OF assms(1,2) v l i]
  show ?thesis by (auto simp: evolucao_def e)
qed

lemma evolucao_torneio_grande:
  assumes "tamanho_populacao cfg < tamanho_torneio cfg" and "2 \<le> tamanho_populacao cfg"
    and "1 \<le> num_geracoes cfg"
  shows "evolucao cfg m u s = Inl ValueError"
proof -
  obtain m0 p0 where e: "inicializar_populacao cfg m u = (m0, p0)" by (cases "inicializar_populacao cfg m u")
  with inicializar_populacao_ok [of cfg m u]
  have l: "length p0 = tamanho_populacao cfg"
    and i: "\<forall>r \<in> set p0. length (celulas m0 r) = 18"
    by simp_all
  from assms(3) have u: "[0..<num_geracoes cfg] = 0 # [1..<num_geracoes cfg]"
    by (simp add: upt_conv_Cons)
  have "geracao cfg 0 m0 p0 (s 0) = Inl ValueError"
    using assms(1,2) l i by (intro geracao_torneio_grande) simp_all
  then show ?thesis by (simp add: evolucao_def e u)
qed

lemma evolucao_impar_torneio_cheio:
  assumes "odd (tamanho_populacao cfg)" and "tamanho_torneio cfg = tamanho_populacao cfg"
    and "3 \<le> tamanho_populacao cfg" and "2 \<le> num_geracoes cfg"
    and "sorteios_da_geracao cfg 0 (s 0)"
  shows "\<exists>m0 p0 m1 p1. inicializar_populacao cfg m u = (m0, p0)
        \<and> geracao cfg 0 m0 p0 (s 0) = Inr (m1, p1)
        \<and> length p1 = tamanho_populacao cfg - 1
        \<and> geracao cfg 1 m1 p1 (s 1) = Inl ValueError
        \<and> evolucao cfg m u s = Inl ValueError"
proof -
  obtain m0 p0 where e: "inicializar_populacao cfg m u = (m0, p0)" by (cases "inicializar_populacao cfg m u")
  with inicializar_populacao_ok [of cfg m u]
  have l: "length p0 = tamanho_na_geracao cfg 0"
    and i: "\<forall>r \<in> set p0. length (celulas m0 r) = 18"
    by (simp_all add: tamanho_na_geracao_def)
  have t: "0 < tamanho_torneio cfg" and n2: "2 \<le> tamanho_populacao cfg"
    using assms(2,3) by simp_all
  from geracao_ok [OF assms(5) t l i n2]
  obtain m1 p1 where g0: "geracao cfg 0 m0 p0 (s 0) = Inr (m1, p1)"
    and l1: "length p1 = tamanho_na_geracao cfg (Suc 0)"
    and i1: "\<forall>r \<in> set p1. length (celulas m1 r) = 18"
    by blast
  from assms(1) have par: "2 * (tamanho_populacao cfg div 2) = tamanho_populacao cfg - 1"
    by (auto elim: oddE)
  with l1 have l1': "length p1 = tamanho_populacao cfg - 1" by (simp add: tamanho_na_geracao_def)
  then have "length p1 < tamanho_torneio cfg" using assms(2,3) by simp
  then have g1: "geracao cfg 1 m1 p1 (s 1) = Inl ValueError"
    using n2 i1 by (rule geracao_torneio_grande)
  from assms(4) have u: "[0..<num_geracoes cfg] = 0 # 1 # [Suc (Suc 0)..<num_geracoes cfg]"
    by (simp add: upt_conv_Cons)
  have "evolucao cfg m u s = Inl ValueError"
    using g1 by (simp add: evolucao_def e u g0)
  with e g0 l1' g1 show ?thesis by blast
qed

lemma laco_f64_sem_amostras:
  "\<forall>b \<in> set bobinas. \<not> bobina_invalida b \<Longrightarrow> laco_bobinas_f64 [] bobinas [] = Continua_f64 []"
proof (induction bobinas)
  case Nil
  then show ?case by simp
next
  case (Cons b bs)
  obtain raio z_pos corrente where b: "b = (raio, z_pos, corrente)" by (cases b)
  from Cons.prems have v: "\<not> (raio < RAIO_MINIMO \<or> corrente \<le> 0)"
    by (simp add: b bobina_invalida_def)
  have s: "soma_vetores_f64 [] [] = []" by (simp add: soma_vetores_f64_def)
  from Cons have "laco_bobinas_f64 [] bs [] = Continua_f64 []" by simp
  then show ?case using v unfolding b by (simp add: s)
qed

lemma aptidao_sem_amostras:
  assumes "estruturalmente_valido c"
  shows "calcular_aptidao_f64_em (np_linspace (- 1) 1 0) c = Inr NaN"
proof -
  have len: "length c = NUM_BOBINAS * 3"
    using assms by (simp add: estruturalmente_valido_def NUM_BOBINAS_def)
  have r: "reshape c = Inr (linhas c)" by (simp add: reshape_def len)
  have "\<forall>b \<in> set (linhas c). \<not> bobina_invalida b" using assms by (rule valido_linhas)
  then have l: "laco_bobinas_f64 [] (linhas c) [] = Continua_f64 []"
    by (rule laco_f64_sem_amostras)
  have m: "np_mean_f64 [] = NaN" by (simp add: np_mean_f64_def)
  have d: "np_std_f64 [] = NaN" by (simp add: np_std_f64_def m)
  show ?thesis
    by (simp add: calcular_aptidao_f64_em_def np_linspace_def r l m d f_sub_def)
qed

lemma tres_validos: "sorteios_da_geracao config_impar 0 (\<lambda>k. sorteios_tres)"
  by (simp add: sorteios_da_geracao_def sorteios_validos_def tamanho_na_geracao_def
      config_impar_def config_padrao_def sorteios_tres_def sorteio_choice_def sorteio_rand_def)

lemma dois_validos: "sorteios_da_execucao config_impar_torneio_2 (\<lambda>g k. sorteios_dois)"
  by (simp add: sorteios_da_execucao_def sorteios_da_geracao_def sorteios_validos_def
      tamanho_na_geracao_def config_impar_torneio_2_def config_padrao_def sorteios_dois_def
      sorteio_choice_def sorteio_rand_def)

lemma avaliar_fraca: "avaliar memoria_fraca [10, 20, 30] = Inr [1 / 10, 1 / 10, 1 / 10]"
  by (simp add: memoria_fraca_def aptidao_fraco)

lemma mutacao_sem_sorteio:
  assumes "\<forall>i. \<not> fst (s i) < taxa_mutacao cfg"
  shows "mutacao cfg m r s = (r, m)"
proof -
  have "mutacao_laco cfg s (celulas m r) = celulas m r"
  proof (rule nth_equalityI)
    show "length (mutacao_laco cfg s (celulas m r)) = length (celulas m r)"
      by (rule length_mutacao_laco)
  next
    fix i assume "i < length (mutacao_laco cfg s (celulas m r))"
    then have "i < length (celulas m r)" by (simp add: length_mutacao_laco)
    then show "mutacao_laco cfg s (celulas m r) ! i = celulas m r ! i"
      using assms by (simp add: mutacao_laco_nth gene_mutado_def)
  qed
  then show ?thesis by (simp add: mutacao_def)
qed


subsection \<open>The fitness in float64: overflow and the bounded chromosomes\<close>

lemma LIMIAR_grande: "10 ^ 60 < LIMIAR"
proof -
  have "(10::real) ^ 60 < 16 ^ 60" by (rule power_strict_mono) simp_all
  also have "(16::real) ^ 60 = 2 ^ 240" by simp
  also have "(2::real) ^ 240 \<le> 2 ^ 1023" by (rule power_increasing) simp_all
  also have "(2::real) ^ 1023 \<le> LIMIAR"
  proof -
    have "(2::real) ^ 970 \<le> 2 ^ 1023" by (rule power_increasing) simp_all
    moreover have "(2::real) ^ 1024 = 2 * 2 ^ 1023" by simp
    ultimately show ?thesis unfolding LIMIAR_def by linarith
  qed
  finally show ?thesis .
qed

lemma LIMIAR_pequeno: "LIMIAR \<le> 10 ^ 400"
proof -
  have "(2::real) ^ 1024 = 16 ^ 256" by simp
  also have "\<dots> \<le> 10 ^ 400"
  proof -
    have "(16::real) ^ 256 = (16 ^ 16) ^ 16" by simp
    also have "\<dots> \<le> (10 ^ 25) ^ 16" by (rule power_mono) simp_all
    also have "\<dots> = 10 ^ 400" by simp
    finally show ?thesis .
  qed
  finally have "(2::real) ^ 1024 \<le> 10 ^ 400" .
  moreover have "0 \<le> (2::real) ^ 970" by simp
  ultimately show ?thesis unfolding LIMIAR_def by linarith
qed

lemma arredondar_Fin: "\<bar>x\<bar> \<le> 10 ^ 60 \<Longrightarrow> arredondar x = Fin x"
  using LIMIAR_grande by (simp add: arredondar_def abs_le_iff)

lemma arredondar_PInf: "10 ^ 400 \<le> x \<Longrightarrow> arredondar x = PInf"
  using LIMIAR_pequeno by (simp add: arredondar_def)

lemma foldl_f_add_NaN: "foldl f_add NaN xs = NaN"
  by (induction xs) simp_all

lemma f_add_NaN_direita: "f_add x NaN = NaN"
  by (cases x) simp_all

lemma f_mul_NaN_direita: "f_mul x NaN = NaN"
  by (cases x) simp_all

lemma f_div_NaN_direita: "f_div x NaN = NaN"
  by (cases x) simp_all

lemma f_sub_NaN_direita: "f_sub x NaN = NaN"
  by (simp add: f_sub_def f_add_NaN_direita)

lemma np_mean_f64_NaN:
  assumes "xs \<noteq> []" and "\<forall>x \<in> set xs. x = NaN"
  shows "np_mean_f64 xs = NaN"
proof -
  from assms obtain ys where "xs = NaN # ys" by (cases xs) auto
  then show ?thesis by (simp add: np_mean_f64_def foldl_f_add_NaN)
qed

lemma np_std_f64_NaN:
  assumes "xs \<noteq> []" and "\<forall>x \<in> set xs. x = NaN"
  shows "np_std_f64 xs = NaN"
proof -
  have m: "np_mean_f64 xs = NaN" using assms by (rule np_mean_f64_NaN)
  have "np_mean_f64 (map (\<lambda>x. f_mul (f_abs (f_sub x NaN)) (f_abs (f_sub x NaN))) xs) = NaN"
    using assms(1) by (intro np_mean_f64_NaN) (simp_all add: f_sub_NaN_direita)
  then show ?thesis by (simp add: np_std_f64_def m)
qed

lemma raio_enorme_quadrado: "10 ^ 400 \<le> raio_enorme * raio_enorme"
  by (simp add: raio_enorme_def flip: power_add)

lemma raio_enorme_valido: "\<not> (raio_enorme < RAIO_MINIMO \<or> (1::real) \<le> 0)"
proof -
  have "(1::real) \<le> 10 ^ 200" by simp
  then show ?thesis by (simp add: RAIO_MINIMO_def raio_enorme_def)
qed

lemma campo_enorme:
  assumes "\<bar>z\<bar> \<le> 1"
  shows "calcular_campo_eixo_z_f64 (Fin z) (Fin raio_enorme) (Fin 0) (Fin 1) = NaN"
proof -
  have q: "arredondar (raio_enorme * raio_enorme) = PInf"
    using raio_enorme_quadrado by (rule arredondar_PInf)
  have "\<bar>z\<bar> \<le> 10 ^ 60" using assms by simp
  then have s: "arredondar z = Fin z" by (rule arredondar_Fin)
  have "\<bar>z\<bar> * \<bar>z\<bar> \<le> 1 * 1" using assms by (intro mult_mono) simp_all
  then have "\<bar>z * z\<bar> \<le> 1" by (simp add: abs_mult)
  then have "\<bar>z * z\<bar> \<le> 10 ^ 60" by simp
  then have d: "arredondar (z * z) = Fin (z * z)" by (rule arredondar_Fin)
  have mu: "0 < MU_0" using MU_0_limites by simp
  have "\<bar>MU_0\<bar> \<le> 10 ^ 60" using MU_0_limites by (simp add: abs_le_iff)
  then have n: "arredondar MU_0 = Fin MU_0" by (rule arredondar_Fin)
  show ?thesis
    using mu by (simp add: calcular_campo_eixo_z_f64_def f_sub_def q s d n inf_de_def)
qed

lemma soma_vetores_f64_NaN:
  "length xs = length zs \<Longrightarrow> soma_vetores_f64 xs (map (\<lambda>z. NaN) zs) = map (\<lambda>z. NaN) zs"
  by (rule nth_equalityI) (simp_all add: soma_vetores_f64_def f_add_NaN_direita)

lemma laco_enorme_NaN:
  assumes "\<forall>b \<in> set bobinas. b = (raio_enorme, 0, 1)" and "\<forall>z \<in> set zs. \<bar>z\<bar> \<le> 1"
    and "bobinas \<noteq> [] \<or> (\<forall>x \<in> set ct. x = NaN)" and "length ct = length zs"
  shows "\<exists>r. laco_bobinas_f64 zs bobinas ct = Continua_f64 r \<and> length r = length zs
            \<and> (\<forall>x \<in> set r. x = NaN)"
  using assms
proof (induction bobinas arbitrary: ct)
  case Nil
  then show ?case by simp
next
  case (Cons b bs)
  then have b: "b = (raio_enorme, 0, 1)" by simp
  note v = raio_enorme_valido
  have c: "map (\<lambda>z. calcular_campo_eixo_z_f64 (Fin z) (Fin raio_enorme) (Fin 0) (Fin 1)) zs
      = map (\<lambda>z. NaN) zs"
    using Cons.prems(2) by (simp add: campo_enorme)
  let ?ct = "map (\<lambda>z. NaN :: f64) zs"
  have step: "laco_bobinas_f64 zs (b # bs) ct = laco_bobinas_f64 zs bs ?ct"
    using v Cons.prems(4) unfolding b by (simp add: c soma_vetores_f64_NaN)
  have "\<exists>r. laco_bobinas_f64 zs bs ?ct = Continua_f64 r \<and> length r = length zs
            \<and> (\<forall>x \<in> set r. x = NaN)"
    using Cons.prems(1,2) by (intro Cons.IH) simp_all
  then show ?case by (simp only: step)
qed

lemma aptidao_enorme: "calcular_aptidao_f64 cromossomo_enorme = Inr NaN"
proof -
  have r: "reshape cromossomo_enorme = Inr (replicate 6 (raio_enorme, 0, 1))"
    by (simp add: reshape_def cromossomo_enorme_def NUM_BOBINAS_def eval_nat_numeral(1)
        numeral_eq_Suc)
  have z: "\<forall>z \<in> set Z_AVALIACAO. \<bar>z\<bar> \<le> 1"
    using Z_AVALIACAO_intervalo by (auto simp: abs_le_iff)
  have "\<exists>r. laco_bobinas_f64 Z_AVALIACAO (replicate 6 (raio_enorme, 0, 1)) (map (\<lambda>_. Fin 0) Z_AVALIACAO)
         = Continua_f64 r \<and> length r = length Z_AVALIACAO \<and> (\<forall>x \<in> set r. x = NaN)"
    using z by (intro laco_enorme_NaN) simp_all
  then obtain ct where l: "laco_bobinas_f64 Z_AVALIACAO (replicate 6 (raio_enorme, 0, 1))
         (map (\<lambda>_. Fin 0) Z_AVALIACAO) = Continua_f64 ct"
    and n: "length ct = length Z_AVALIACAO" and a: "\<forall>x \<in> set ct. x = NaN"
    by blast
  from n have ne: "ct \<noteq> []" by (auto simp: length_Z_AVALIACAO)
  have m: "np_mean_f64 ct = NaN" using ne a by (rule np_mean_f64_NaN)
  have d: "np_std_f64 ct = NaN" using ne a by (rule np_std_f64_NaN)
  show ?thesis
    by (simp add: calcular_aptidao_f64_def calcular_aptidao_f64_em_def r l m d Let_def
        f_sub_def)
qed

lemma f_add_Fin: "\<bar>a + b\<bar> \<le> 10 ^ 60 \<Longrightarrow> f_add (Fin a) (Fin b) = Fin (a + b)"
  by (simp only: f_add.simps arredondar_Fin)

lemma f_sub_Fin: "\<bar>a - b\<bar> \<le> 10 ^ 60 \<Longrightarrow> f_sub (Fin a) (Fin b) = Fin (a - b)"
  using arredondar_Fin [of "a + - b"] by (simp add: f_sub_def)

lemma f_mul_Fin: "\<bar>a * b\<bar> \<le> 10 ^ 60 \<Longrightarrow> f_mul (Fin a) (Fin b) = Fin (a * b)"
  by (simp only: f_mul.simps arredondar_Fin)

lemma f_div_Fin: "b \<noteq> 0 \<Longrightarrow> \<bar>a / b\<bar> \<le> 10 ^ 60 \<Longrightarrow> f_div (Fin a) (Fin b) = Fin (a / b)"
  using arredondar_Fin [of "a / b"] by simp

lemma f_pot_Fin:
  "0 \<le> a \<Longrightarrow> a powr (3 / 2) \<le> 10 ^ 60 \<Longrightarrow> f_pot (Fin a) = Fin (a powr (3 / 2))"
  using arredondar_Fin [of "a powr (3 / 2)"] by simp

text \<open>The field of one valid coil with limited genes, at a position of the axis.\<close>

lemma potencia_limites:
  assumes "1 / 4 \<le> (s::real)" and "s \<le> 10 ^ 10"
  shows "1 / 16 \<le> s powr (3 / 2) \<and> s powr (3 / 2) \<le> 10 ^ 20"
proof
  have "(1 / 4 :: real) powr 2 \<le> (1 / 4) powr (3 / 2)"
    by (rule powr_mono') simp_all
  moreover have "(1 / 4 :: real) powr 2 = 1 / 16" by (simp add: power2_eq_square)
  moreover have "(1 / 4 :: real) powr (3 / 2) \<le> s powr (3 / 2)"
    using assms(1) by (intro powr_mono2) simp_all
  ultimately show "1 / 16 \<le> s powr (3 / 2)" by linarith
next
  have s0: "0 \<le> s" using assms(1) by simp
  have "s powr (3 / 2) \<le> (10 ^ 10) powr (3 / 2)"
    using assms(2) s0 by (intro powr_mono2) simp_all
  also have "\<dots> \<le> (10 ^ 10 :: real) powr 2" by (rule powr_mono) simp_all
  also have "\<dots> = 10 ^ 20" by simp
  finally show "s powr (3 / 2) \<le> 10 ^ 20" .
qed

lemma campo_f64_ok:
  assumes r: "1 / 2 \<le> raio" "raio \<le> 10000"
    and p: "\<bar>z_bobina\<bar> \<le> 10000"
    and i: "0 < corrente" "corrente \<le> 10000000000"
    and z: "\<bar>z\<bar> \<le> 1"
  shows "calcular_campo_eixo_z_f64 (Fin z) (Fin raio) (Fin z_bobina) (Fin corrente)
           = Fin (campo z (raio, z_bobina, corrente))
       \<and> 0 \<le> campo z (raio, z_bobina, corrente)
       \<and> campo z (raio, z_bobina, corrente) \<le> 10 ^ 14"
proof -
  have mu: "0 < MU_0" "MU_0 < 16 / 10000000" using MU_0_limites by simp_all
  define a where "a = MU_0 * corrente"
  define q where "q = raio * raio"
  define n where "n = a * q"
  define d where "d = z - z_bobina"
  define e where "e = d * d"
  define s where "s = q + e"
  define w where "w = s powr (3 / 2)"
  define t where "t = 2 * w"
  define c where "c = n / t"
  have a: "0 < a" "a \<le> 16000"
  proof -
    show "0 < a" using mu(1) i(1) by (simp add: a_def)
    have "MU_0 * corrente \<le> (16 / 10000000) * 10000000000"
      using mu i by (intro mult_mono) simp_all
    then show "a \<le> 16000" by (simp add: a_def)
  qed
  have q: "1 / 4 \<le> q" "q \<le> 10 ^ 8"
  proof -
    have "(1 / 2) * (1 / 2) \<le> raio * raio" using r(1) by (intro mult_mono) simp_all
    then show "1 / 4 \<le> q" by (simp add: q_def)
    have "raio * raio \<le> 10000 * 10000" using r by (intro mult_mono) simp_all
    then show "q \<le> 10 ^ 8" by (simp add: q_def)
  qed
  have n: "0 < n" "n \<le> 16 * 10 ^ 11"
  proof -
    have "0 < q" using q(1) by linarith
    then show "0 < n" using a(1) by (simp add: n_def)
    have "a * q \<le> 16000 * 10 ^ 8" using a q by (intro mult_mono) simp_all
    then show "n \<le> 16 * 10 ^ 11" by (simp add: n_def)
  qed
  have d: "\<bar>d\<bar> \<le> 10001" using p z unfolding d_def by linarith
  have e: "0 \<le> e" "e \<le> 10 ^ 9"
  proof -
    show "0 \<le> e" by (simp add: e_def)
    have "\<bar>d\<bar> * \<bar>d\<bar> \<le> 10001 * 10001" using d by (intro mult_mono) simp_all
    then show "e \<le> 10 ^ 9" by (simp add: e_def)
  qed
  have s: "1 / 4 \<le> s" "s \<le> 10 ^ 10"
  proof -
    show "1 / 4 \<le> s" using q(1) e(1) unfolding s_def by linarith
    have "s \<le> 10 ^ 8 + 10 ^ 9" using q(2) e(2) unfolding s_def by linarith
    then show "s \<le> 10 ^ 10" by simp
  qed
  have w: "1 / 16 \<le> w" "w \<le> 10 ^ 20"
    using potencia_limites [OF s] by (simp_all add: w_def)
  have t: "1 / 8 \<le> t" "t \<le> 2 * 10 ^ 20" using w unfolding t_def by linarith+
  have t0: "t \<noteq> 0" "0 < t" using t(1) by linarith+
  have c: "0 \<le> c" "c \<le> 10 ^ 14"
  proof -
    show "0 \<le> c" using n(1) t0(2) by (simp add: c_def)
    have "n / t \<le> n / (1 / 8)"
    proof (rule divide_left_mono)
      show "1 / 8 \<le> t" by (rule t(1))
      show "0 \<le> n" using n(1) by simp
      show "0 < t * (1 / 8)" using t0(2) by simp
    qed
    also have "\<dots> = 8 * n" by simp
    also have "\<dots> \<le> 10 ^ 14" using n(2) by simp
    finally show "c \<le> 10 ^ 14" by (simp add: c_def)
  qed
  have "\<bar>a\<bar> \<le> 10 ^ 60" using a by simp
  then have f1: "f_mul (Fin MU_0) (Fin corrente) = Fin a"
    unfolding a_def by (rule f_mul_Fin)
  have "\<bar>q\<bar> \<le> 10 ^ 60" using q by simp
  then have f2: "f_mul (Fin raio) (Fin raio) = Fin q"
    unfolding q_def by (rule f_mul_Fin)
  have "\<bar>n\<bar> \<le> 10 ^ 60" using n by simp
  then have f3: "f_mul (Fin a) (Fin q) = Fin n"
    unfolding n_def by (rule f_mul_Fin)
  have "\<bar>d\<bar> \<le> 10 ^ 60" using d by simp
  then have f4: "f_sub (Fin z) (Fin z_bobina) = Fin d"
    unfolding d_def by (rule f_sub_Fin)
  have "\<bar>e\<bar> \<le> 10 ^ 60" using e by simp
  then have f5: "f_mul (Fin d) (Fin d) = Fin e"
    unfolding e_def by (rule f_mul_Fin)
  have "\<bar>s\<bar> \<le> 10 ^ 60" using s by simp
  then have f6: "f_add (Fin q) (Fin e) = Fin s"
    unfolding s_def by (rule f_add_Fin)
  have "0 \<le> s" "w \<le> 10 ^ 60" using s(1) w(2) by simp_all
  then have f7: "f_pot (Fin s) = Fin w"
    unfolding w_def by (rule f_pot_Fin)
  have "\<bar>t\<bar> \<le> 10 ^ 60" using t by simp
  then have f8: "f_mul (Fin 2) (Fin w) = Fin t"
    unfolding t_def by (rule f_mul_Fin)
  have "\<bar>c\<bar> \<le> 10 ^ 60" using c by simp
  with t0(1) have f9: "f_div (Fin n) (Fin t) = Fin c"
    unfolding c_def by (rule f_div_Fin)
  have "calcular_campo_eixo_z_f64 (Fin z) (Fin raio) (Fin z_bobina) (Fin corrente) = Fin c"
    by (simp only: calcular_campo_eixo_z_f64_def f1 f2 f3 f4 f5 f6 f7 f8 f9)
  moreover have "campo z (raio, z_bobina, corrente) = c"
    by (simp add: campo_def power2_eq_square c_def n_def a_def q_def t_def w_def s_def e_def d_def)
  ultimately show ?thesis using c by simp
qed

lemma soma_f64_passo:
  assumes "length acc = length zs"
    and "\<forall>x \<in> set acc. 0 \<le> x \<and> x \<le> A"
    and "A + 10 ^ 14 \<le> 10 ^ 60"
    and "bobina_limitada (raio, z_pos, corrente)"
    and "\<forall>z \<in> set zs. \<bar>z\<bar> \<le> 1"
  shows "soma_vetores_f64 (map Fin acc)
           (map (\<lambda>z. calcular_campo_eixo_z_f64 (Fin z) (Fin raio) (Fin z_pos) (Fin corrente)) zs)
         = map Fin (soma_vetores acc (map (\<lambda>z. campo z (raio, z_pos, corrente)) zs))
       \<and> (\<forall>x \<in> set (soma_vetores acc (map (\<lambda>z. campo z (raio, z_pos, corrente)) zs)).
             0 \<le> x \<and> x \<le> A + 10 ^ 14)"
proof -
  from assms(4) have b: "1 / 2 \<le> raio" "raio \<le> 10000" "\<bar>z_pos\<bar> \<le> 10000"
    "0 < corrente" "corrente \<le> 10000000000"
    by (simp_all add: bobina_limitada_def)
  have ponto: "f_add (Fin (acc ! k))
        (calcular_campo_eixo_z_f64 (Fin (zs ! k)) (Fin raio) (Fin z_pos) (Fin corrente))
        = Fin (acc ! k + campo (zs ! k) (raio, z_pos, corrente))
      \<and> 0 \<le> acc ! k + campo (zs ! k) (raio, z_pos, corrente)
      \<and> acc ! k + campo (zs ! k) (raio, z_pos, corrente) \<le> A + 10 ^ 14"
    if k: "k < length zs" for k
  proof -
    from k assms(1,2) have x: "0 \<le> acc ! k" "acc ! k \<le> A" by simp_all
    from k assms(5) have "\<bar>zs ! k\<bar> \<le> 1" by simp
    from campo_f64_ok [OF b this]
    have c: "calcular_campo_eixo_z_f64 (Fin (zs ! k)) (Fin raio) (Fin z_pos) (Fin corrente)
          = Fin (campo (zs ! k) (raio, z_pos, corrente))"
      "0 \<le> campo (zs ! k) (raio, z_pos, corrente)"
      "campo (zs ! k) (raio, z_pos, corrente) \<le> 10 ^ 14"
      by simp_all
    have lim: "0 \<le> acc ! k + campo (zs ! k) (raio, z_pos, corrente)"
      "acc ! k + campo (zs ! k) (raio, z_pos, corrente) \<le> A + 10 ^ 14"
      using x c(2,3) by linarith+
    then have "\<bar>acc ! k + campo (zs ! k) (raio, z_pos, corrente)\<bar> \<le> 10 ^ 60"
      using assms(3) by linarith
    then have "f_add (Fin (acc ! k)) (Fin (campo (zs ! k) (raio, z_pos, corrente)))
        = Fin (acc ! k + campo (zs ! k) (raio, z_pos, corrente))"
      by (rule f_add_Fin)
    with c(1) lim show ?thesis by simp
  qed
  have "soma_vetores_f64 (map Fin acc)
           (map (\<lambda>z. calcular_campo_eixo_z_f64 (Fin z) (Fin raio) (Fin z_pos) (Fin corrente)) zs)
         = map Fin (soma_vetores acc (map (\<lambda>z. campo z (raio, z_pos, corrente)) zs))"
    using assms(1) ponto
    by (intro nth_equalityI) (simp_all add: soma_vetores_f64_def soma_vetores_def)
  moreover have "\<forall>x \<in> set (soma_vetores acc (map (\<lambda>z. campo z (raio, z_pos, corrente)) zs)).
             0 \<le> x \<and> x \<le> A + 10 ^ 14"
  proof
    fix x assume "x \<in> set (soma_vetores acc (map (\<lambda>z. campo z (raio, z_pos, corrente)) zs))"
    then obtain k where "k < length zs" "x = acc ! k + campo (zs ! k) (raio, z_pos, corrente)"
      using assms(1) by (auto simp: soma_vetores_def in_set_conv_nth)
    with ponto [of k] show "0 \<le> x \<and> x \<le> A + 10 ^ 14" by simp
  qed
  ultimately show ?thesis by blast
qed

lemma laco_f64_ok:
  assumes "\<forall>z \<in> set zs. \<bar>z\<bar> \<le> 1"
  shows "\<forall>b \<in> set bs. bobina_limitada b \<Longrightarrow> length acc = length zs \<Longrightarrow>
     \<forall>x \<in> set acc. 0 \<le> x \<and> x \<le> A \<Longrightarrow> A + real (length bs) * 10 ^ 14 \<le> 10 ^ 60 \<Longrightarrow>
     laco_bobinas_f64 zs bs (map Fin acc)
       = Continua_f64 (map Fin (soma_vetores acc (map (\<lambda>z. sum_list (map (campo z) bs)) zs)))
     \<and> (\<forall>x \<in> set (soma_vetores acc (map (\<lambda>z. sum_list (map (campo z) bs)) zs)).
           0 \<le> x \<and> x \<le> A + real (length bs) * 10 ^ 14)"
proof (induction bs arbitrary: acc A)
  case Nil
  then show ?case by (simp add: soma_vetores_zero)
next
  case (Cons b bs)
  obtain raio z_pos corrente where b: "b = (raio, z_pos, corrente)" by (cases b)
  from Cons.prems(1) have bl: "bobina_limitada (raio, z_pos, corrente)" by (simp add: b)
  then have v: "\<not> (raio < RAIO_MINIMO \<or> corrente \<le> 0)"
    by (simp add: bobina_limitada_def RAIO_MINIMO_def)
  let ?acc = "soma_vetores acc (map (\<lambda>z. campo z (raio, z_pos, corrente)) zs)"
  have a14: "A + 10 ^ 14 \<le> 10 ^ 60"
  proof -
    have "0 \<le> real (length bs) * 10 ^ 14" by simp
    then show ?thesis using Cons.prems(4) by (simp add: algebra_simps)
  qed
  from soma_f64_passo [OF Cons.prems(2,3) a14 bl assms]
  have p: "soma_vetores_f64 (map Fin acc)
           (map (\<lambda>z. calcular_campo_eixo_z_f64 (Fin z) (Fin raio) (Fin z_pos) (Fin corrente)) zs)
         = map Fin ?acc"
    and pl: "\<forall>x \<in> set ?acc. 0 \<le> x \<and> x \<le> A + 10 ^ 14"
    by simp_all
  have len: "length ?acc = length zs" using Cons.prems(2) by (rule length_soma_vetores)
  have lim: "(A + 10 ^ 14) + real (length bs) * 10 ^ 14 \<le> 10 ^ 60"
    using Cons.prems(4) by (simp add: algebra_simps)
  have bs: "\<forall>b \<in> set bs. bobina_limitada b" using Cons.prems(1) by simp
  from Cons.IH [OF bs len pl lim]
  have ih: "laco_bobinas_f64 zs bs (map Fin ?acc)
       = Continua_f64 (map Fin (soma_vetores ?acc (map (\<lambda>z. sum_list (map (campo z) bs)) zs)))"
    and ihl: "\<forall>x \<in> set (soma_vetores ?acc (map (\<lambda>z. sum_list (map (campo z) bs)) zs)).
           0 \<le> x \<and> x \<le> (A + 10 ^ 14) + real (length bs) * 10 ^ 14"
    by simp_all
  have junta: "soma_vetores ?acc (map (\<lambda>z. sum_list (map (campo z) bs)) zs)
      = soma_vetores acc (map (\<lambda>z. sum_list (map (campo z) (b # bs))) zs)"
    using Cons.prems(2) by (simp add: soma_vetores_map b)
  have "laco_bobinas_f64 zs (b # bs) (map Fin acc) = laco_bobinas_f64 zs bs (map Fin ?acc)"
    using v by (simp add: b p)
  then have "laco_bobinas_f64 zs (b # bs) (map Fin acc)
       = Continua_f64 (map Fin (soma_vetores acc (map (\<lambda>z. sum_list (map (campo z) (b # bs))) zs)))"
    by (simp only: ih junta)
  moreover have "\<forall>x \<in> set (soma_vetores acc (map (\<lambda>z. sum_list (map (campo z) (b # bs))) zs)).
           0 \<le> x \<and> x \<le> A + real (length (b # bs)) * 10 ^ 14"
    using ihl unfolding junta by (simp add: algebra_simps)
  ultimately show ?case by blast
qed

lemma foldl_f_add_Fin:
  "0 \<le> a \<Longrightarrow> \<forall>x \<in> set xs. 0 \<le> x \<and> x \<le> M \<Longrightarrow> a + real (length xs) * M \<le> 10 ^ 60 \<Longrightarrow>
   foldl f_add (Fin a) (map Fin xs) = Fin (a + sum_list xs)
   \<and> 0 \<le> a + sum_list xs \<and> a + sum_list xs \<le> a + real (length xs) * M"
proof (induction xs arbitrary: a)
  case Nil
  then show ?case by simp
next
  case (Cons x xs)
  from Cons.prems(2) have x: "0 \<le> x" "x \<le> M" by simp_all
  then have m0: "0 \<le> M" by linarith
  have "0 \<le> real (length xs) * M" using m0 by simp
  then have "a + x \<le> 10 ^ 60" using Cons.prems(3) x(2) by (simp add: algebra_simps)
  then have "\<bar>a + x\<bar> \<le> 10 ^ 60" using Cons.prems(1) x(1) by simp
  then have passo: "f_add (Fin a) (Fin x) = Fin (a + x)" by (rule f_add_Fin)
  have a': "0 \<le> a + x" using Cons.prems(1) x(1) by simp
  have xs: "\<forall>y \<in> set xs. 0 \<le> y \<and> y \<le> M" using Cons.prems(2) by simp
  have lim: "(a + x) + real (length xs) * M \<le> 10 ^ 60"
    using Cons.prems(3) x(2) by (simp add: algebra_simps)
  from Cons.IH [OF a' xs lim]
  have ih: "foldl f_add (Fin (a + x)) (map Fin xs) = Fin (a + x + sum_list xs)"
    "0 \<le> a + x + sum_list xs" "a + x + sum_list xs \<le> a + x + real (length xs) * M"
    by simp_all
  have "a + x + sum_list xs \<le> a + real (length (x # xs)) * M"
    using ih(3) x(2) by (simp add: algebra_simps)
  with ih(1,2) passo show ?case by (simp add: add.assoc)
qed

lemma np_mean_f64_ok:
  assumes "xs \<noteq> []" and "\<forall>x \<in> set xs. 0 \<le> x \<and> x \<le> M"
    and "real (length xs) * M \<le> 10 ^ 60"
  shows "np_mean_f64 (map Fin xs) = Fin (media xs) \<and> 0 \<le> media xs \<and> media xs \<le> M"
proof -
  define n where "n = real (length xs)"
  have n: "1 \<le> n" using assms(1) by (cases xs) (simp_all add: n_def)
  from foldl_f_add_Fin [of 0 xs M] assms(2,3)
  have s: "foldl f_add (Fin 0) (map Fin xs) = Fin (sum_list xs)"
    "0 \<le> sum_list xs" "sum_list xs \<le> n * M"
    by (simp_all add: n_def)
  have m: "0 \<le> media xs" "media xs \<le> M"
  proof -
    show "0 \<le> media xs" using s(2) n by (simp add: media_def n_def)
    have n0: "0 < n" using n by linarith
    have "sum_list xs / n \<le> (n * M) / n" using s(3) n0 by (intro divide_right_mono) simp_all
    also have "(n * M) / n = M" using n0 by simp
    finally show "media xs \<le> M" by (simp add: media_def n_def)
  qed
  have m0: "0 \<le> M" using m by linarith
  have "M \<le> n * M" using n m0 by (simp add: mult_le_cancel_right1)
  then have "\<bar>sum_list xs / n\<bar> \<le> 10 ^ 60"
    using m assms(3) by (simp add: media_def n_def)
  moreover have "n \<noteq> 0" using n by simp
  ultimately have "f_div (Fin (sum_list xs)) (Fin n) = Fin (sum_list xs / n)"
    by (intro f_div_Fin)
  then have "np_mean_f64 (map Fin xs) = Fin (media xs)"
    by (simp add: np_mean_f64_def s(1) media_def n_def)
  with m show ?thesis by simp
qed

lemma np_std_f64_ok:
  assumes "xs \<noteq> []" and "\<forall>x \<in> set xs. 0 \<le> x \<and> x \<le> M"
    and "real (length xs) * M \<le> 10 ^ 60" and "real (length xs) * (M * M) \<le> 10 ^ 60"
  shows "np_std_f64 (map Fin xs) = Fin (desvio xs) \<and> 0 \<le> desvio xs \<and> desvio xs \<le> M"
proof -
  from np_mean_f64_ok [OF assms(1-3)]
  have m: "np_mean_f64 (map Fin xs) = Fin (media xs)" "0 \<le> media xs" "media xs \<le> M"
    by simp_all
  have m0: "0 \<le> M" using m by linarith
  have n: "1 \<le> real (length xs)" using assms(1) by (cases xs) simp_all
  have "M \<le> real (length xs) * M" using n m0 by (simp add: mult_le_cancel_right1)
  then have M60: "M \<le> 10 ^ 60" using assms(3) by linarith
  define ds where "ds = map (\<lambda>x. (x - media xs)\<^sup>2) xs"
  have ponto: "f_mul (f_abs (f_sub (Fin x) (Fin (media xs)))) (f_abs (f_sub (Fin x) (Fin (media xs))))
        = Fin ((x - media xs)\<^sup>2) \<and> 0 \<le> (x - media xs)\<^sup>2 \<and> (x - media xs)\<^sup>2 \<le> M * M"
    if "x \<in> set xs" for x
  proof -
    from that assms(2) have x: "0 \<le> x" "x \<le> M" by simp_all
    have d: "\<bar>x - media xs\<bar> \<le> M" using x m(2,3) by linarith
    then have "\<bar>x - media xs\<bar> \<le> 10 ^ 60" using M60 by linarith
    then have s: "f_sub (Fin x) (Fin (media xs)) = Fin (x - media xs)" by (rule f_sub_Fin)
    have "\<bar>x - media xs\<bar> * \<bar>x - media xs\<bar> \<le> M * M"
      using d by (intro mult_mono) simp_all
    then have q: "(x - media xs)\<^sup>2 \<le> M * M" by (simp add: power2_eq_square)
    have "M * M \<le> real (length xs) * (M * M)"
      using n by (simp add: mult_le_cancel_right1)
    then have "\<bar>\<bar>x - media xs\<bar> * \<bar>x - media xs\<bar>\<bar> \<le> 10 ^ 60"
      using q assms(4) by (simp add: power2_eq_square)
    then have "f_mul (Fin \<bar>x - media xs\<bar>) (Fin \<bar>x - media xs\<bar>)
        = Fin (\<bar>x - media xs\<bar> * \<bar>x - media xs\<bar>)"
      by (rule f_mul_Fin)
    then show ?thesis using q by (simp add: s power2_eq_square)
  qed
  have mapa: "map (\<lambda>x. f_mul (f_abs (f_sub x (Fin (media xs)))) (f_abs (f_sub x (Fin (media xs)))))
        (map Fin xs) = map Fin ds"
    using ponto by (simp add: ds_def)
  have dl: "\<forall>d \<in> set ds. 0 \<le> d \<and> d \<le> M * M" using ponto by (auto simp: ds_def)
  have dne: "ds \<noteq> []" using assms(1) by (simp add: ds_def)
  have dlim: "real (length ds) * (M * M) \<le> 10 ^ 60" using assms(4) by (simp add: ds_def)
  from np_mean_f64_ok [OF dne dl dlim]
  have v: "np_mean_f64 (map Fin ds) = Fin (media ds)" "0 \<le> media ds" "media ds \<le> M * M"
    by simp_all
  have dv: "desvio xs = sqrt (media ds)" by (simp add: desvio_def ds_def)
  have "sqrt (media ds) \<le> sqrt (M * M)" using v(3) by (rule real_sqrt_le_mono)
  also have "sqrt (M * M) = M" using m0 by simp
  finally have d1: "desvio xs \<le> M" by (simp add: dv)
  have d0: "0 \<le> desvio xs" using v(2) by (simp add: dv)
  have "np_std_f64 (map Fin xs) = f_sqrt (Fin (media ds))"
    by (simp only: np_std_f64_def m(1) mapa v(1))
  then have "np_std_f64 (map Fin xs) = Fin (desvio xs)" using v(2) by (simp add: dv)
  with d0 d1 show ?thesis by simp
qed

lemma f_lt_distancia:
  "f_lt (f_abs (f_sub (Fin a) (Fin b))) (Fin DISTANCIA_MIN_BOBINAS)
     = (\<bar>a - b\<bar> < DISTANCIA_MIN_BOBINAS)"
proof -
  have L: "1 < LIMIAR" using LIMIAR_grande by (rule order_less_trans [rotated]) simp
  have D: "DISTANCIA_MIN_BOBINAS < 1" by (simp add: DISTANCIA_MIN_BOBINAS_def)
  consider "LIMIAR \<le> a - b" | "a - b \<le> - LIMIAR" | "\<not> LIMIAR \<le> a - b" "\<not> a - b \<le> - LIMIAR"
    by blast
  then show ?thesis
  proof cases
    case 1
    then have "f_sub (Fin a) (Fin b) = PInf" by (simp add: f_sub_def arredondar_def)
    moreover have "\<not> \<bar>a - b\<bar> < DISTANCIA_MIN_BOBINAS" using 1 L D by linarith
    ultimately show ?thesis by simp
  next
    case 2
    then have "\<not> LIMIAR \<le> a - b" using L by linarith
    with 2 have "f_sub (Fin a) (Fin b) = NInf" by (simp add: f_sub_def arredondar_def)
    moreover have "\<not> \<bar>a - b\<bar> < DISTANCIA_MIN_BOBINAS" using 2 L D by linarith
    ultimately show ?thesis by simp
  next
    case 3
    then have "f_sub (Fin a) (Fin b) = Fin (a - b)" by (simp add: f_sub_def arredondar_def)
    then show ?thesis by simp
  qed
qed

lemma laco_penalidade_f64_igual: "laco_penalidade_f64 p = laco_penalidade p"
  by (simp add: laco_penalidade_f64_def laco_penalidade_def laco_j_f64_def laco_j_def
      f_lt_distancia)

lemma limitado_linhas:
  assumes "estruturalmente_valido c" and "genes_limitados c"
  shows "\<forall>b \<in> set (linhas c). bobina_limitada b"
proof
  fix b assume "b \<in> set (linhas c)"
  then obtain k where k: "k < length (linhas c)" and b: "b = linhas c ! k"
    by (auto simp: in_set_conv_nth)
  from assms(1) have len: "length c = 18" by (simp add: estruturalmente_valido_def)
  with k have k6: "k < 6" by (simp add: length_linhas)
  then have "3 * k + 2 < length c" using len by simp
  then have "b = (c ! (3 * k), c ! (3 * k + 1), c ! (3 * k + 2))"
    unfolding b by (rule linhas_nth)
  moreover from assms(1) k6 have "RAIO_MINIMO \<le> c ! (3 * k) \<and> 0 < c ! (3 * k + 2)"
    by (simp add: estruturalmente_valido_def)
  moreover from assms(2) k6 have "c ! (3 * k) \<le> 10000 \<and> \<bar>c ! (3 * k + 1)\<bar> \<le> 10000
      \<and> c ! (3 * k + 2) \<le> 10000000000"
    by (simp add: genes_limitados_def)
  ultimately show "bobina_limitada b" by (simp add: bobina_limitada_def RAIO_MINIMO_def)
qed

lemma perfil_f64:
  assumes "\<forall>b \<in> set bs. bobina_limitada b" and "length bs = 6"
  shows "laco_bobinas_f64 Z_AVALIACAO bs (map (\<lambda>_. Fin 0) Z_AVALIACAO)
           = Continua_f64 (map Fin (perfil_campo bs))
       \<and> (\<forall>x \<in> set (perfil_campo bs). 0 \<le> x \<and> x \<le> 6 * 10 ^ 14)"
proof -
  have z: "\<forall>z \<in> set Z_AVALIACAO. \<bar>z\<bar> \<le> 1"
    using Z_AVALIACAO_intervalo by (auto simp: abs_le_iff)
  have l: "length (np_zeros_like Z_AVALIACAO) = length Z_AVALIACAO"
    by (simp add: np_zeros_like_def)
  have a: "\<forall>x \<in> set (np_zeros_like Z_AVALIACAO). 0 \<le> x \<and> x \<le> 0"
    by (simp add: np_zeros_like_def)
  have lim: "0 + real (length bs) * 10 ^ 14 \<le> 10 ^ 60" by (simp add: assms(2))
  have e: "map (\<lambda>_. Fin 0) Z_AVALIACAO = map Fin (np_zeros_like Z_AVALIACAO)"
    by (simp add: np_zeros_like_def)
  have p: "soma_vetores (np_zeros_like Z_AVALIACAO)
        (map (\<lambda>z. sum_list (map (campo z) bs)) Z_AVALIACAO) = perfil_campo bs"
    by (simp add: soma_vetores_zeros_like perfil_campo_def)
  from laco_f64_ok [OF z assms(1) l a lim] show ?thesis
    unfolding e p by (simp add: assms(2))
qed

lemma aptidao_f64_limitada:
  assumes "estruturalmente_valido c" and "genes_limitados c"
  shows "calcular_aptidao_f64 c =
     Inr (Fin (if media (perfil_campo (linhas c)) < 1 / 10 then 1 / 10
          else (1 * media (perfil_campo (linhas c))) * (5 * uniformidade (perfil_campo (linhas c)))
               - real_of_int (laco_penalidade (map (\<lambda>(raio, z_pos, corrente). z_pos) (linhas c)))))"
proof -
  let ?p = "perfil_campo (linhas c)"
  let ?pos = "map (\<lambda>(raio, z_pos, corrente). z_pos) (linhas c)"
  define M :: real where "M = 6 * 10 ^ 14"
  have len: "length c = NUM_BOBINAS * 3"
    using assms(1) by (simp add: estruturalmente_valido_def NUM_BOBINAS_def)
  have r: "reshape c = Inr (linhas c)" by (simp add: reshape_def len)
  have l6: "length (linhas c) = 6" using len by (simp add: length_linhas NUM_BOBINAS_def)
  from perfil_f64 [OF limitado_linhas [OF assms] l6]
  have laco: "laco_bobinas_f64 Z_AVALIACAO (linhas c) (map (\<lambda>_. Fin 0) Z_AVALIACAO)
           = Continua_f64 (map Fin ?p)"
    and lim: "\<forall>x \<in> set ?p. 0 \<le> x \<and> x \<le> M"
    by (simp_all add: M_def)
  have ne: "?p \<noteq> []" using length_perfil_campo [of "linhas c"] by auto
  have n100: "real (length ?p) = 100" by (simp add: length_perfil_campo)
  have l1: "real (length ?p) * M \<le> 10 ^ 60" by (simp add: n100 M_def)
  have l2: "real (length ?p) * (M * M) \<le> 10 ^ 60" by (simp add: n100 M_def)
  from np_mean_f64_ok [OF ne lim l1]
  have m: "np_mean_f64 (map Fin ?p) = Fin (media ?p)" "0 \<le> media ?p" "media ?p \<le> M"
    by simp_all
  from np_std_f64_ok [OF ne lim l1 l2]
  have d: "np_std_f64 (map Fin ?p) = Fin (desvio ?p)" "0 \<le> desvio ?p" "desvio ?p \<le> M"
    by simp_all
  show ?thesis
  proof (cases "media ?p < 1 / 10")
    case True
    then show ?thesis
      by (simp add: calcular_aptidao_f64_def calcular_aptidao_f64_em_def r laco m(1) d(1) Let_def)
  next
    case False
    define mm where "mm = media ?p"
    define dd where "dd = desvio ?p"
    define cv where "cv = dd / mm"
    define ce where "ce = cv + 1 / 1000000000"
    define u where "u = 1 / ce"
    define f where "f = 1 * mm"
    define g where "g = 5 * u"
    define h where "h = f * g"
    define pen where "pen = real_of_int (laco_penalidade ?pos)"
    have mm: "1 / 10 \<le> mm" "mm \<le> M" using False m(3) by (simp_all add: mm_def)
    have dd: "0 \<le> dd" "dd \<le> M" using d(2,3) by (simp_all add: dd_def)
    have mm0: "0 < mm" "mm \<noteq> 0" using mm(1) by linarith+
    have cv: "0 \<le> cv" "cv \<le> 10 * M"
    proof -
      show "0 \<le> cv" using dd(1) mm0(1) by (simp add: cv_def)
      have "dd / mm \<le> dd / (1 / 10)"
      proof (rule divide_left_mono)
        show "1 / 10 \<le> mm" by (rule mm(1))
        show "0 \<le> dd" by (rule dd(1))
        show "0 < mm * (1 / 10)" using mm0(1) by simp
      qed
      also have "\<dots> = 10 * dd" by simp
      also have "\<dots> \<le> 10 * M" using dd(2) by simp
      finally show "cv \<le> 10 * M" by (simp add: cv_def)
    qed
    have ce: "1 / 1000000000 \<le> ce" "ce \<le> 10 * M + 1" using cv unfolding ce_def by linarith+
    have ce0: "0 < ce" "ce \<noteq> 0" using ce(1) by linarith+
    have u: "0 < u" "u \<le> 1000000000"
    proof -
      show "0 < u" using ce0(1) by (simp add: u_def)
      have "1 / ce \<le> 1 / (1 / 1000000000)"
      proof (rule divide_left_mono)
        show "1 / 1000000000 \<le> ce" by (rule ce(1))
        show "(0::real) \<le> 1" by simp
        show "0 < ce * (1 / 1000000000)" using ce0(1) by simp
      qed
      then show "u \<le> 1000000000" by (simp add: u_def)
    qed
    have f: "0 < f" "f \<le> M" using mm mm0 by (simp_all add: f_def)
    have g: "0 < g" "g \<le> 5000000000" using u by (simp_all add: g_def)
    have h: "0 < h" "h \<le> M * 5000000000"
    proof -
      show "0 < h" using f(1) g(1) by (simp add: h_def)
      show "h \<le> M * 5000000000" unfolding h_def using f g by (intro mult_mono) simp_all
    qed
    have pen: "0 \<le> pen" "pen \<le> 75000"
      using laco_penalidade_nonneg [of ?pos] laco_penalidade_limite [of ?pos]
      by (simp_all add: pen_def)
    have "\<bar>cv\<bar> \<le> 10 ^ 60" using cv by (simp add: M_def)
    with mm0(2) have e1: "f_div (Fin dd) (Fin mm) = Fin cv"
      unfolding cv_def by (rule f_div_Fin)
    have "\<bar>ce\<bar> \<le> 10 ^ 60" using ce by (simp add: M_def)
    then have e2: "f_add (Fin cv) (Fin (1 / 1000000000)) = Fin ce"
      unfolding ce_def by (rule f_add_Fin)
    have "\<bar>u\<bar> \<le> 10 ^ 60" using u by simp
    with ce0(2) have e3: "f_div (Fin 1) (Fin ce) = Fin u"
      unfolding u_def by (rule f_div_Fin)
    have "\<bar>f\<bar> \<le> 10 ^ 60" using f by (simp add: M_def)
    then have e4: "f_mul (Fin 1) (Fin mm) = Fin f"
      unfolding f_def by (rule f_mul_Fin)
    have "\<bar>g\<bar> \<le> 10 ^ 60" using g by simp
    then have e5: "f_mul (Fin 5) (Fin u) = Fin g"
      unfolding g_def by (rule f_mul_Fin)
    have "\<bar>h\<bar> \<le> 10 ^ 60" using h by (simp add: M_def)
    then have e6: "f_mul (Fin f) (Fin g) = Fin h"
      unfolding h_def by (rule f_mul_Fin)
    have "\<bar>h - pen\<bar> \<le> 10 ^ 60" using h pen by (simp add: M_def abs_le_iff)
    then have e7: "f_sub (Fin h) (Fin pen) = Fin (h - pen)" by (rule f_sub_Fin)
    have nlt: "\<not> f_lt (Fin mm) (Fin (1 / 10))" using mm(1) by simp
    have "calcular_aptidao_f64 c = Inr (Fin (h - pen))"
      using nlt
      by (simp only: calcular_aptidao_f64_def calcular_aptidao_f64_em_def r laco m(1) d(1) Let_def
          entao_Inr laco_f64.case if_False laco_penalidade_f64_igual
          mm_def [symmetric] dd_def [symmetric] pen_def [symmetric] e1 e2 e3 e4 e5 e6 e7)
    moreover have "h - pen = (1 * media ?p) * (5 * uniformidade ?p) - real_of_int (laco_penalidade ?pos)"
      by (simp add: h_def f_def g_def u_def ce_def cv_def mm_def dd_def pen_def uniformidade_def)
    ultimately show ?thesis using False by simp
  qed
qed

lemma enorme_valido: "estruturalmente_valido cromossomo_enorme"
proof -
  have "(1 / 2 :: real) \<le> 10 ^ 200" by simp
  then show ?thesis
    by (simp add: estruturalmente_valido_def todos_menor_6 cromossomo_enorme_def RAIO_MINIMO_def
        raio_enorme_def)
qed

lemma forte_limitado: "genes_limitados cromossomo_forte"
  by (simp add: genes_limitados_def todos_menor_6 cromossomo_forte_def)

lemma valor_valido_limite:
  "- 75000 < (if media p < 1 / 10 then 1 / 10
       else (1 * media p) * (5 * uniformidade p) - real_of_int (laco_penalidade pos))"
proof (cases "media p < 1 / 10")
  case True
  then show ?thesis by simp
next
  case False
  then have m: "0 < media p" by simp
  from False have "0 < uniformidade p" by (intro uniformidade_pos) simp
  with m have "0 < (1 * media p) * (5 * uniformidade p)" by simp
  moreover have "real_of_int (laco_penalidade pos) \<le> 75000"
    using laco_penalidade_limite [of pos] by linarith
  ultimately show ?thesis using False by simp
qed


subsection \<open>C1: an invalid coil gives the sentinel\<close>

text \<open>
  C1. For every chromosome of 6 coils, if some coil \<open>k\<close> has a radius below the minimum
  radius or a current that is not positive, \<open>calcular_aptidao\<close> returns exactly the
  sentinel, whatever the other coils are.
\<close>

theorem C1_invalida_retorna_sentinela:
  assumes "length c = 18" and "k < 6"
    and "c ! (3 * k) < RAIO_MINIMO \<or> c ! (3 * k + 2) \<le> 0"
  shows "calcular_aptidao c = Inr SENTINELA"
proof -
  have len: "3 * k + 2 < length c" using assms by simp
  have "k < length (linhas c)" using assms by (simp add: length_linhas)
  then have "linhas c ! k \<in> set (linhas c)" by simp
  moreover have "bobina_invalida (linhas c ! k)"
    using assms(3) by (simp add: linhas_nth [OF len] bobina_invalida_def)
  ultimately have "\<exists>b \<in> set (linhas c). bobina_invalida b" by blast
  then have "laco_bobinas (linhas c) (np_zeros_like Z_AVALIACAO) = Inr (Retorna SENTINELA)"
    by (rule laco_bobinas_sentinela)
  then show ?thesis using assms(1) by (simp add: calcular_aptidao_def reshape_def NUM_BOBINAS_def)
qed

theorem C1_invalida_retorna_sentinela_witness:
  "length [1, 0, 1, 1, 0, 0, 1, 0, 1, 1, 0, 1, 1, 0, 1, 1, 0, 1 :: real] = 18 \<and> (1::nat) < 6
   \<and> calcular_aptidao [1, 0, 1, 1, 0, 0, 1, 0, 1, 1, 0, 1, 1, 0, 1, 1, 0, 1] = Inr SENTINELA"
  using C1_invalida_retorna_sentinela
    [of "[1, 0, 1, 1, 0, 0, 1, 0, 1, 1, 0, 1, 1, 0, 1, 1, 0, 1]" 1]
  by simp

subsection \<open>C2: a valid chromosome outranks the sentinel\<close>

text \<open>
  C2, as stated, for every structurally valid chromosome: refuted. Six coils of radius
  \<open>10^200\<close>, position 0 and current 1 are structurally valid; the square of the radius
  overflows, the field of each coil is infinity divided by infinity, and the fitness
  returned is nan, which compares greater than nothing, the sentinel included.
\<close>

theorem C2_raio_enorme_counterexample:
  "estruturalmente_valido cromossomo_enorme
   \<and> calcular_aptidao_f64 cromossomo_enorme = Inr NaN
   \<and> \<not> f_lt (Fin SENTINELA) NaN"
  by (simp add: enorme_valido aptidao_enorme)

text \<open>
  C2, amended. For every structurally valid chromosome (every coil has radius at least
  0.5 and a positive current) whose genes stay far below the overflow (radii up to
  \<open>10^4\<close>, positions within \<open>10^4\<close> of the origin, currents up to \<open>10^10\<close>)
  \<open>calcular_aptidao\<close> returns a finite fitness strictly greater than the sentinel
  \<open>-1e9\<close>; the spacing penalty is at most \<open>15 * 5000 = 75000\<close> and the product of
  strength and uniformity is positive, so the fitness exceeds \<open>-75000\<close>.
\<close>

theorem C2_valida_limitada_supera_sentinela:
  assumes "estruturalmente_valido c" and "genes_limitados c"
  shows "\<exists>v. calcular_aptidao_f64 c = Inr (Fin v) \<and> SENTINELA < v \<and> - 75000 < v"
proof -
  let ?p = "perfil_campo (linhas c)"
  let ?pos = "map (\<lambda>(raio, z_pos, corrente). z_pos) (linhas c)"
  let ?v = "if media ?p < 1 / 10 then 1 / 10
       else (1 * media ?p) * (5 * uniformidade ?p) - real_of_int (laco_penalidade ?pos)"
  have "calcular_aptidao_f64 c = Inr (Fin ?v)" using assms by (rule aptidao_f64_limitada)
  moreover have l: "- 75000 < ?v" by (rule valor_valido_limite)
  moreover from l have "SENTINELA < ?v" unfolding SENTINELA_def by linarith
  ultimately show ?thesis by blast
qed

theorem C2_valida_limitada_supera_sentinela_witness:
  "estruturalmente_valido cromossomo_forte \<and> genes_limitados cromossomo_forte
   \<and> (\<exists>v. calcular_aptidao_f64 cromossomo_forte = Inr (Fin v) \<and> SENTINELA < v \<and> - 75000 < v)"
  using C2_valida_limitada_supera_sentinela [OF forte_valido forte_limitado]
    forte_valido forte_limitado by simp

subsection \<open>C3: the strength floor\<close>



subsection \<open>C4: penalty and final fitness\<close>



subsection \<open>C5: the fitness is total on valid chromosomes\<close>

text \<open>
  C5, as stated, for every structurally valid chromosome: refuted. On six coils of
  radius \<open>10^200\<close>, position 0 and current 1 (structurally valid) the fitness returned
  is nan, not a finite number: the square of the radius overflows and the field of each
  coil is infinity divided by infinity, a division that neither the strength floor nor
  the epsilon guards.
\<close>

theorem C5_raio_enorme_nan_counterexample:
  "estruturalmente_valido cromossomo_enorme
   \<and> (\<forall>v. calcular_aptidao_f64 cromossomo_enorme \<noteq> Inr (Fin v))"
  by (simp add: enorme_valido aptidao_enorme)

text \<open>
  C5, amended. For every structurally valid chromosome whose genes stay far below the
  overflow (radii up to \<open>10^4\<close>, positions within \<open>10^4\<close> of the origin, currents up
  to \<open>10^10\<close>) \<open>calcular_aptidao\<close> returns a finite number that is not the sentinel,
  raises no exception and divides by no zero: the reshape succeeds, the field of a coil
  with radius at least 0.5 has a non-zero divisor, the mean is over 100 positions, the
  coefficient of variation is behind the strength floor, and the inverse has its
  epsilon. The witness is a chromosome with mean field above the floor, so that every
  one of these divisions is taken.
\<close>

theorem C5_aptidao_limitada_total:
  assumes "estruturalmente_valido c" and "genes_limitados c"
  shows "\<exists>v. calcular_aptidao_f64 c = Inr (Fin v) \<and> v \<noteq> SENTINELA"
proof -
  let ?p = "perfil_campo (linhas c)"
  let ?pos = "map (\<lambda>(raio, z_pos, corrente). z_pos) (linhas c)"
  let ?v = "if media ?p < 1 / 10 then 1 / 10
       else (1 * media ?p) * (5 * uniformidade ?p) - real_of_int (laco_penalidade ?pos)"
  have "calcular_aptidao_f64 c = Inr (Fin ?v)" using assms by (rule aptidao_f64_limitada)
  moreover have "- 75000 < ?v" by (rule valor_valido_limite)
  then have "?v \<noteq> SENTINELA" unfolding SENTINELA_def by linarith
  ultimately show ?thesis by blast
qed

theorem C5_aptidao_limitada_total_witness:
  "estruturalmente_valido cromossomo_forte \<and> genes_limitados cromossomo_forte
   \<and> 1 / 10 \<le> media (perfil_campo (linhas cromossomo_forte))
   \<and> (\<exists>v. calcular_aptidao_f64 cromossomo_forte = Inr (Fin v) \<and> v \<noteq> SENTINELA)"
  using C5_aptidao_limitada_total [OF forte_valido forte_limitado]
    forte_valido forte_limitado forte_media by simp

subsection \<open>C6: single-point crossover\<close>

text \<open>
  C6, as stated, lets the cut index range over \<open>[1, L - 1]\<close>. The cut is drawn by
  \<^verbatim>\<open>np.random.randint(1, len(pai1) - 1)\<close>, whose upper bound is exclusive: for two
  different parents of length 18, no draw of the generator makes \<open>cruzamento\<close> return the
  child cut at 17.
\<close>

theorem C6_corte_L_menos_1_counterexample:
  "length (celulas memoria_exemplo 0) = 18 \<and> length (celulas memoria_exemplo 2) = 18
   \<and> \<not> (\<exists>bruto filho1 filho2 m'.
            cruzamento config_padrao memoria_exemplo 0 2 (1 / 2) bruto = Inr (filho1, filho2, m')
          \<and> celulas m' filho1
              = take 17 (celulas memoria_exemplo 0) @ drop 17 (celulas memoria_exemplo 2))"
proof -
  have c: "celulas memoria_exemplo 0 = cromossomo_fraco" "celulas memoria_exemplo 2 = cromossomo_forte"
    by (simp_all add: memoria_exemplo_def)
  have l: "length cromossomo_fraco = 18" "length cromossomo_forte = 18"
    by (simp_all add: cromossomo_fraco_def cromossomo_forte_def)
  have alvo: "(take 17 cromossomo_fraco @ drop 17 cromossomo_forte) ! 16 = 0"
    by (simp add: cromossomo_fraco_def cromossomo_forte_def)
  have "False"
    if r: "cruzamento config_padrao memoria_exemplo 0 2 (1 / 2) bruto = Inr (filho1, filho2, m')"
      and f: "celulas m' filho1 = take 17 (celulas memoria_exemplo 0) @ drop 17 (celulas memoria_exemplo 2)"
    for bruto filho1 filho2 m'
  proof -
    have u: "(1 / 2 :: real) < taxa_cruzamento config_padrao" by (simp add: config_padrao_def)
    have l3: "3 \<le> length (celulas memoria_exemplo 0)" by (simp add: c l)
    have "corte_sorteado 18 bruto \<le> 18 - 2" using corte_sorteado_limites [of 18 bruto] by simp
    then have k16: "corte_sorteado 18 bruto \<le> 16" by simp
    have "celulas m' filho1 = fst (cortar cromossomo_fraco cromossomo_forte (corte_sorteado 18 bruto))"
      using r unfolding cruzamento_corta [OF u l3] by (auto simp: c l)
    then have "celulas m' filho1 ! 16 = cromossomo_forte ! 16"
      using k16 by (simp add: cortar_def nth_corte l)
    also have "\<dots> = 2" by (simp add: cromossomo_forte_def)
    finally show False using f alvo by (simp add: c)
  qed
  then show ?thesis by (auto simp: c l)
qed

text \<open>
  C6, amended. For every pair of parent chromosomes of equal length \<open>L\<close> (= 18; any
  \<open>L\<close> of at least 3), crossover (\<open>cruzamento\<close>), when the draw of \<^verbatim>\<open>rand()\<close> is below the
  crossover rate 0.8, chooses a single cut index in \<open>[1, L - 2]\<close>, every index of that
  range being the image of exactly one of \<open>L - 2\<close> raw draws of the generator, and
  produces two children by swapping the parents' tail segments at that cut; with the
  complementary draw the two children are exact copies of the parents; in both cases the
  output is exactly two chromosomes of length \<open>L\<close>.
\<close>

theorem C6_cruzamento_corte_ate_L_menos_2:
  assumes "length (celulas m pai1) = L" and "length (celulas m pai2) = L" and "3 \<le> L"
  shows "(u < 8 / 10 \<longrightarrow>
           (\<exists>filho1 filho2 m'.
              cruzamento config_padrao m pai1 pai2 u bruto = Inr (filho1, filho2, m')
            \<and> 1 \<le> corte_sorteado L bruto \<and> corte_sorteado L bruto \<le> L - 2
            \<and> celulas m' filho1 = take (corte_sorteado L bruto) (celulas m pai1)
                                   @ drop (corte_sorteado L bruto) (celulas m pai2)
            \<and> celulas m' filho2 = take (corte_sorteado L bruto) (celulas m pai2)
                                   @ drop (corte_sorteado L bruto) (celulas m pai1)
            \<and> length (celulas m' filho1) = L \<and> length (celulas m' filho2) = L))
       \<and> (\<not> u < 8 / 10 \<longrightarrow>
           (\<exists>filho1 filho2 m'.
              cruzamento config_padrao m pai1 pai2 u bruto = Inr (filho1, filho2, m')
            \<and> celulas m' filho1 = celulas m pai1 \<and> celulas m' filho2 = celulas m pai2
            \<and> length (celulas m' filho1) = L \<and> length (celulas m' filho2) = L))
       \<and> bij_betw (corte_sorteado L) {0..<int L - 2} {1..L - 2}"
proof (intro conjI impI)
  assume "u < 8 / 10"
  then have u: "u < taxa_cruzamento config_padrao" by (simp add: config_padrao_def)
  have l3: "3 \<le> length (celulas m pai1)" using assms(1,3) by simp
  let ?k = "corte_sorteado L bruto"
  let ?m' = "m\<lparr>celulas := (celulas m)
                (proxima m := fst (cortar (celulas m pai1) (celulas m pai2) ?k),
                 Suc (proxima m) := snd (cortar (celulas m pai1) (celulas m pai2) ?k)),
            proxima := Suc (Suc (proxima m))\<rparr>"
  have c: "cruzamento config_padrao m pai1 pai2 u bruto = Inr (proxima m, Suc (proxima m), ?m')"
    using cruzamento_corta [OF u l3, of pai2 bruto] by (simp add: assms(1))
  have k: "1 \<le> ?k \<and> ?k \<le> L - 2" using assms(3) by (rule corte_sorteado_limites)
  have f1: "celulas ?m' (proxima m) = take ?k (celulas m pai1) @ drop ?k (celulas m pai2)"
    by (simp add: cortar_def)
  have f2: "celulas ?m' (Suc (proxima m)) = take ?k (celulas m pai2) @ drop ?k (celulas m pai1)"
    by (simp add: cortar_def)
  have l1: "length (celulas ?m' (proxima m)) = L"
    unfolding f1 using assms(1,2) by simp
  have l2: "length (celulas ?m' (Suc (proxima m))) = L"
    unfolding f2 using assms(1,2) by simp
  from c k f1 f2 l1 l2
  show "\<exists>filho1 filho2 m'.
              cruzamento config_padrao m pai1 pai2 u bruto = Inr (filho1, filho2, m')
            \<and> 1 \<le> corte_sorteado L bruto \<and> corte_sorteado L bruto \<le> L - 2
            \<and> celulas m' filho1 = take (corte_sorteado L bruto) (celulas m pai1)
                                   @ drop (corte_sorteado L bruto) (celulas m pai2)
            \<and> celulas m' filho2 = take (corte_sorteado L bruto) (celulas m pai2)
                                   @ drop (corte_sorteado L bruto) (celulas m pai1)
            \<and> length (celulas m' filho1) = L \<and> length (celulas m' filho2) = L"
    by blast
next
  assume "\<not> u < 8 / 10"
  then have "\<not> u < taxa_cruzamento config_padrao" by (simp add: config_padrao_def)
  then have "cruzamento config_padrao m pai1 pai2 u bruto = Inr (pai1, pai2, m)"
    by (rule cruzamento_copia)
  with assms(1,2)
  show "\<exists>filho1 filho2 m'.
              cruzamento config_padrao m pai1 pai2 u bruto = Inr (filho1, filho2, m')
            \<and> celulas m' filho1 = celulas m pai1 \<and> celulas m' filho2 = celulas m pai2
            \<and> length (celulas m' filho1) = L \<and> length (celulas m' filho2) = L"
    by blast
next
  show "bij_betw (corte_sorteado L) {0..<int L - 2} {1..L - 2}"
    using assms(3) by (rule corte_sorteado_bijecao)
qed

theorem C6_cruzamento_corte_ate_L_menos_2_witness:
  "length (celulas memoria_exemplo 0) = 18 \<and> length (celulas memoria_exemplo 2) = 18
   \<and> corte_sorteado 18 15 = 16
   \<and> (\<exists>filho1 filho2 m'.
         cruzamento config_padrao memoria_exemplo 0 2 (1 / 2) 15 = Inr (filho1, filho2, m')
       \<and> celulas m' filho1 = take 16 cromossomo_fraco @ drop 16 cromossomo_forte
       \<and> celulas m' filho2 = take 16 cromossomo_forte @ drop 16 cromossomo_fraco
       \<and> length (celulas m' filho1) = 18 \<and> length (celulas m' filho2) = 18)
   \<and> (\<exists>filho1 filho2 m'.
         cruzamento config_padrao memoria_exemplo 0 2 (9 / 10) 15 = Inr (filho1, filho2, m')
       \<and> celulas m' filho1 = cromossomo_fraco \<and> celulas m' filho2 = cromossomo_forte)
   \<and> bij_betw (corte_sorteado 18) {0..<16} {1..16}"
proof -
  have l: "length (celulas memoria_exemplo 0) = 18" "length (celulas memoria_exemplo 2) = 18"
    by (rule exemplo_comprimentos)+
  have c: "celulas memoria_exemplo 0 = cromossomo_fraco" "celulas memoria_exemplo 2 = cromossomo_forte"
    by (simp_all add: memoria_exemplo_def)
  have k: "corte_sorteado 18 15 = 16" by (simp add: corte_sorteado_def)
  have t: "(3::nat) \<le> 18" by simp
  note th = C6_cruzamento_corte_ate_L_menos_2 [OF l t]
  have "(1 / 2 :: real) < 8 / 10" by simp
  with th [of "1 / 2" 15]
  obtain filho1 filho2 m' where
    "cruzamento config_padrao memoria_exemplo 0 2 (1 / 2) 15 = Inr (filho1, filho2, m')"
    "celulas m' filho1 = take (corte_sorteado 18 15) (celulas memoria_exemplo 0)
        @ drop (corte_sorteado 18 15) (celulas memoria_exemplo 2)"
    "celulas m' filho2 = take (corte_sorteado 18 15) (celulas memoria_exemplo 2)
        @ drop (corte_sorteado 18 15) (celulas memoria_exemplo 0)"
    "length (celulas m' filho1) = 18" "length (celulas m' filho2) = 18"
    by blast
  then have a: "\<exists>filho1 filho2 m'.
         cruzamento config_padrao memoria_exemplo 0 2 (1 / 2) 15 = Inr (filho1, filho2, m')
       \<and> celulas m' filho1 = take 16 cromossomo_fraco @ drop 16 cromossomo_forte
       \<and> celulas m' filho2 = take 16 cromossomo_forte @ drop 16 cromossomo_fraco
       \<and> length (celulas m' filho1) = 18 \<and> length (celulas m' filho2) = 18"
    unfolding k c by blast
  have "\<not> (9 / 10 :: real) < 8 / 10" by simp
  with th [of "9 / 10" 15]
  obtain g1 g2 m'' where
    "cruzamento config_padrao memoria_exemplo 0 2 (9 / 10) 15 = Inr (g1, g2, m'')"
    "celulas m'' g1 = celulas memoria_exemplo 0" "celulas m'' g2 = celulas memoria_exemplo 2"
    by blast
  then have b: "\<exists>filho1 filho2 m'.
         cruzamento config_padrao memoria_exemplo 0 2 (9 / 10) 15 = Inr (filho1, filho2, m')
       \<and> celulas m' filho1 = cromossomo_fraco \<and> celulas m' filho2 = cromossomo_forte"
    unfolding c by blast
  have j: "bij_betw (corte_sorteado 18) {0..<16} {1..16}"
    using th [of 0 0] by simp
  from l k a b j show ?thesis by blast
qed

subsection \<open>C7: the reproduction phase and the current population\<close>

text \<open>
  C7 says that no chromosome of the current population is modified during
  reproduction. The code departs from it: \<open>selecao\<close> returns a member of the population
  itself, and when the crossover is skipped \<open>cruzamento\<close> returns the parents themselves,
  which \<open>mutacao\<close> then updates in place. Whenever the two selected parents are different
  arrays, the crossover is skipped and the mutation changes some gene of the first
  child, one turn of the reproduction loop changes the contents of a member of the
  current population.
\<close>

theorem C7_mutacao_altera_populacao:
  assumes "selecao cfg populacao aptidoes (torneio1 s) = Inr pai1"
    and "selecao cfg populacao aptidoes (torneio2 s) = Inr pai2"
    and "\<not> u_cruzamento s < taxa_cruzamento cfg"
    and "pai1 \<noteq> pai2"
    and "i < length (celulas m pai1)"
    and "gene_mutado cfg i (genes1 s i) (celulas m pai1 ! i) \<noteq> celulas m pai1 ! i"
  shows "\<exists>m'. iteracao cfg populacao aptidoes s (m, nova) = Inr (m', nova @ [pai1, pai2])
            \<and> pai1 \<in> set populacao
            \<and> celulas m' pai1 \<noteq> celulas m pai1"
proof -
  let ?m' = "snd (mutacao cfg (snd (mutacao cfg m pai1 (genes1 s))) pai2 (genes2 s))"
  have it: "iteracao cfg populacao aptidoes s (m, nova) = Inr (?m', nova @ [pai1, pai2])"
    using assms(1-3) by (rule iteracao_sem_cruzamento)
  have "celulas ?m' pai1 = mutacao_laco cfg (genes1 s) (celulas m pai1)"
    using assms(4) by (simp add: mutacao_def)
  then have "celulas ?m' pai1 ! i = gene_mutado cfg i (genes1 s i) (celulas m pai1 ! i)"
    using assms(5) by (simp add: mutacao_laco_nth)
  with assms(6) have "celulas ?m' pai1 \<noteq> celulas m pai1" by auto
  moreover have "pai1 \<in> set populacao" using assms(1) by (rule selecao_membro)
  ultimately show ?thesis using it by blast
qed

theorem C7_mutacao_altera_populacao_witness:
  "avaliar memoria_fraca [10, 20, 30, 40] = Inr [1 / 10, 1 / 10, 1 / 10, 1 / 10]
   \<and> selecao config_padrao [10, 20, 30, 40] [1 / 10, 1 / 10, 1 / 10, 1 / 10]
        (torneio1 sorteios_sem_cruzamento) = Inr 10
   \<and> selecao config_padrao [10, 20, 30, 40] [1 / 10, 1 / 10, 1 / 10, 1 / 10]
        (torneio2 sorteios_sem_cruzamento) = Inr 30
   \<and> \<not> u_cruzamento sorteios_sem_cruzamento < taxa_cruzamento config_padrao
   \<and> celulas memoria_fraca 10 ! 1 = 0
   \<and> gene_mutado config_padrao 1 (genes1 sorteios_sem_cruzamento 1) (celulas memoria_fraca 10 ! 1)
        = 2 / 10
   \<and> (\<exists>m'. iteracao config_padrao [10, 20, 30, 40] [1 / 10, 1 / 10, 1 / 10, 1 / 10]
               sorteios_sem_cruzamento (memoria_fraca, []) = Inr (m', [10, 30])
          \<and> 10 \<in> set [10, 20, 30, 40 :: nat]
          \<and> celulas m' 10 \<noteq> celulas memoria_fraca 10)"
proof -
  let ?pop = "[10, 20, 30, 40 :: nat]"
  let ?apt = "[1 / 10, 1 / 10, 1 / 10, 1 / 10 :: real]"
  have av: "avaliar memoria_fraca ?pop = Inr ?apt"
    by (simp add: memoria_fraca_def aptidao_fraco)
  have s1: "selecao config_padrao ?pop ?apt (torneio1 sorteios_sem_cruzamento) = Inr 10"
    by (simp add: selecao_def np_random_choice_def config_padrao_def py_max_def indexar_def
        sorteios_sem_cruzamento_def)
  have s2: "selecao config_padrao ?pop ?apt (torneio2 sorteios_sem_cruzamento) = Inr 30"
    by (simp add: selecao_def np_random_choice_def config_padrao_def py_max_def indexar_def
        sorteios_sem_cruzamento_def)
  have u: "\<not> u_cruzamento sorteios_sem_cruzamento < taxa_cruzamento config_padrao"
    by (simp add: sorteios_sem_cruzamento_def config_padrao_def)
  have d: "(10::nat) \<noteq> 30" by simp
  have l: "1 < length (celulas memoria_fraca 10)"
    by (simp add: memoria_fraca_def cromossomo_fraco_def)
  have c: "celulas memoria_fraca 10 ! 1 = 0"
    by (simp add: memoria_fraca_def cromossomo_fraco_def)
  have g: "gene_mutado config_padrao 1 (genes1 sorteios_sem_cruzamento 1) (celulas memoria_fraca 10 ! 1)
      = 2 / 10"
    unfolding c by (simp add: gene_mutado_def sorteios_sem_cruzamento_def config_padrao_def)
  then have g': "gene_mutado config_padrao 1 (genes1 sorteios_sem_cruzamento 1)
      (celulas memoria_fraca 10 ! 1) \<noteq> celulas memoria_fraca 10 ! 1"
    unfolding c by simp
  from C7_mutacao_altera_populacao [OF s1 s2 u d l g', of "[]"] av s1 s2 u c g
  show ?thesis by simp
qed

subsection \<open>C8: mutation at the rates 0 and 1\<close>

text \<open>
  C8. With mutation rate 0.0 \<open>mutacao\<close> returns the chromosome unchanged. With
  mutation rate 1.0 every gene receives Gaussian noise \<open>normal(0, 0.2)\<close>, that is
  \<open>0 + 0.2 * z\<close> for the standard normal draw \<open>z\<close> of that gene; afterwards every
  radius gene (index divisible by 3) is at least the minimum radius, raised to it when
  the sum is below, and position and current genes keep the sum as it is. The draws of
  \<^verbatim>\<open>rand()\<close> lie in \<open>[0, 1)\<close>.
\<close>

theorem C8_mutacao_taxas_extremas:
  assumes "\<forall>i. sorteio_rand (fst (s i))"
  shows "(taxa_mutacao cfg = 0 \<longrightarrow> mutacao cfg m r s = (r, m))
       \<and> (taxa_mutacao cfg = 1 \<longrightarrow>
            fst (mutacao cfg m r s) = r
          \<and> length (celulas (snd (mutacao cfg m r s)) r) = length (celulas m r)
          \<and> (\<forall>i < length (celulas m r).
                celulas (snd (mutacao cfg m r s)) r ! i =
                  (if i mod 3 = 0 then max RAIO_MINIMO (celulas m r ! i + 2 / 10 * snd (s i))
                   else celulas m r ! i + 2 / 10 * snd (s i))))"
proof (intro conjI impI allI)
  assume "taxa_mutacao cfg = 0"
  with assms have "mutacao_laco cfg s (celulas m r) = celulas m r"
    by (rule mutacao_laco_taxa_0)
  then show "mutacao cfg m r s = (r, m)" by (simp add: mutacao_def)
next
  show "fst (mutacao cfg m r s) = r" by (simp add: mutacao_def)
next
  show "length (celulas (snd (mutacao cfg m r s)) r) = length (celulas m r)"
    by (simp add: mutacao_def length_mutacao_laco)
next
  fix i assume "taxa_mutacao cfg = 1" and "i < length (celulas m r)"
  with assms show "celulas (snd (mutacao cfg m r s)) r ! i =
      (if i mod 3 = 0 then max RAIO_MINIMO (celulas m r ! i + 2 / 10 * snd (s i))
       else celulas m r ! i + 2 / 10 * snd (s i))"
    by (simp add: mutacao_def mutacao_laco_taxa_1)
qed

theorem C8_mutacao_taxas_extremas_witness:
  "sorteio_rand (1 / 2)
   \<and> mutacao (config_padrao\<lparr>taxa_mutacao := 0\<rparr>) memoria_exemplo 0 (\<lambda>i. (1 / 2, - 5))
       = (0, memoria_exemplo)
   \<and> fst (mutacao (config_padrao\<lparr>taxa_mutacao := 1\<rparr>) memoria_exemplo 0 (\<lambda>i. (1 / 2, - 5))) = 0
   \<and> celulas (snd (mutacao (config_padrao\<lparr>taxa_mutacao := 1\<rparr>) memoria_exemplo 0
                (\<lambda>i. (1 / 2, - 5)))) 0 ! 0 = 1 / 2
   \<and> celulas (snd (mutacao (config_padrao\<lparr>taxa_mutacao := 1\<rparr>) memoria_exemplo 0
                (\<lambda>i. (1 / 2, - 5)))) 0 ! 1 = - 1
   \<and> celulas (snd (mutacao (config_padrao\<lparr>taxa_mutacao := 1\<rparr>) memoria_exemplo 0
                (\<lambda>i. (1 / 2, - 5)))) 0 ! 2 = 0"
proof -
  let ?s = "\<lambda>i::nat. (1 / 2 :: real, - 5 :: real)"
  let ?c0 = "config_padrao\<lparr>taxa_mutacao := 0\<rparr>"
  let ?c1 = "config_padrao\<lparr>taxa_mutacao := 1\<rparr>"
  have s: "\<forall>i. sorteio_rand (fst (?s i))"
    by (simp add: sorteio_rand_def)
  have l: "length (celulas memoria_exemplo 0) = 18"
    by (simp add: memoria_exemplo_def cromossomo_fraco_def)
  have c: "celulas memoria_exemplo 0 ! 0 = 1" "celulas memoria_exemplo 0 ! 1 = 0"
    "celulas memoria_exemplo 0 ! 2 = 1"
    by (simp_all add: memoria_exemplo_def cromossomo_fraco_def)
  have t0: "mutacao ?c0 memoria_exemplo 0 ?s = (0, memoria_exemplo)"
    using C8_mutacao_taxas_extremas [OF s, of ?c0 memoria_exemplo 0] by simp
  have t1: "fst (mutacao ?c1 memoria_exemplo 0 ?s) = 0
      \<and> (\<forall>i < 18. celulas (snd (mutacao ?c1 memoria_exemplo 0 ?s)) 0 ! i =
            (if i mod 3 = 0 then max RAIO_MINIMO (celulas memoria_exemplo 0 ! i + 2 / 10 * snd (?s i))
             else celulas memoria_exemplo 0 ! i + 2 / 10 * snd (?s i)))"
    using C8_mutacao_taxas_extremas [OF s, of ?c1 memoria_exemplo 0] by (simp add: l)
  from t1 have g0: "celulas (snd (mutacao ?c1 memoria_exemplo 0 ?s)) 0 ! 0 = 1 / 2"
    by (simp add: c RAIO_MINIMO_def)
  from t1 have "celulas (snd (mutacao ?c1 memoria_exemplo 0 ?s)) 0 ! 1 =
      (if (1::nat) mod 3 = 0 then max RAIO_MINIMO (celulas memoria_exemplo 0 ! 1 + 2 / 10 * snd (?s 1))
       else celulas memoria_exemplo 0 ! 1 + 2 / 10 * snd (?s 1))"
    by (elim conjE allE [of _ 1] impE) simp_all
  then have g1: "celulas (snd (mutacao ?c1 memoria_exemplo 0 ?s)) 0 ! 1 = - 1"
    using c by simp
  from t1 have "celulas (snd (mutacao ?c1 memoria_exemplo 0 ?s)) 0 ! 2 =
      (if (2::nat) mod 3 = 0 then max RAIO_MINIMO (celulas memoria_exemplo 0 ! 2 + 2 / 10 * snd (?s 2))
       else celulas memoria_exemplo 0 ! 2 + 2 / 10 * snd (?s 2))"
    by (elim conjE allE [of _ 2] impE) simp_all
  then have g2: "celulas (snd (mutacao ?c1 memoria_exemplo 0 ?s)) 0 ! 2 = 0"
    using c by simp
  have "sorteio_rand (1 / 2)" by (simp add: sorteio_rand_def)
  with t0 t1 g0 g1 g2 show ?thesis by blast
qed

subsection \<open>C9: degenerate configurations\<close>

text \<open>
  C9, as stated, promises an error at construction time, before any generation runs,
  for a degenerate configuration. Nothing validates the configuration: with the odd
  population size 3 the initial population of three chromosomes is built, and a whole
  first generation (evaluation and reproduction) on three chromosomes completes without
  an error and yields a next population of two chromosomes.
\<close>

theorem C9_populacao_impar_counterexample:
  "odd (tamanho_populacao config_impar)
   \<and> length (snd (inicializar_populacao config_impar memoria_fraca (\<lambda>k j. 1 / 2)))
       = tamanho_populacao config_impar
   \<and> length [10, 20, 30 :: nat] = tamanho_populacao config_impar
   \<and> geracao config_impar 0 memoria_fraca [10, 20, 30] (\<lambda>k. sorteios_tres)
       = Inr (memoria_fraca, [10, 30])"
proof -
  let ?pop = "[10, 20, 30 :: nat]"
  let ?apt = "[1 / 10, 1 / 10, 1 / 10 :: real]"
  have n: "tamanho_populacao config_impar = 3" by (simp add: config_impar_def)
  have s1: "selecao config_impar ?pop ?apt (torneio1 sorteios_tres) = Inr 10"
    by (simp add: selecao_def np_random_choice_def config_impar_def config_padrao_def py_max_def
        indexar_def sorteios_tres_def)
  have s2: "selecao config_impar ?pop ?apt (torneio2 sorteios_tres) = Inr 30"
    by (simp add: selecao_def np_random_choice_def config_impar_def config_padrao_def py_max_def
        indexar_def sorteios_tres_def)
  have u: "\<not> u_cruzamento sorteios_tres < taxa_cruzamento config_impar"
    by (simp add: sorteios_tres_def config_impar_def config_padrao_def)
  have g: "\<forall>i. \<not> fst (genes1 sorteios_tres i) < taxa_mutacao config_impar"
    "\<forall>i. \<not> fst (genes2 sorteios_tres i) < taxa_mutacao config_impar"
    by (simp_all add: sorteios_tres_def config_impar_def config_padrao_def)
  have "iteracao config_impar ?pop ?apt sorteios_tres (memoria_fraca, []) = Inr (memoria_fraca, [10, 30])"
    by (simp add: iteracao_sem_cruzamento [OF s1 s2 u] mutacao_sem_sorteio g)
  then have r: "reproducao config_impar memoria_fraca ?pop ?apt (\<lambda>k. sorteios_tres)
      = Inr (memoria_fraca, [10, 30])"
    by (simp add: reproducao_def n)
  have "geracao config_impar 0 memoria_fraca ?pop (\<lambda>k. sorteios_tres) = Inr (memoria_fraca, [10, 30])"
    unfolding geracao_def avaliar_fraca entao_Inr r by simp
  then show ?thesis using inicializar_populacao_ok [of config_impar memoria_fraca "\<lambda>k j. 1 / 2"]
    by (simp add: n)
qed

text \<open>
  C9, amended. The configuration is never validated and no error is raised at
  construction time: the initial population of \<open>N\<close> chromosomes is built for every
  configuration. With a tournament size between 1 and \<open>2 * (N div 2)\<close> the whole run
  completes without an error, and from the first reproduction phase on the population
  has \<open>2 * (N div 2)\<close> chromosomes: an odd \<open>N\<close> is accepted silently and the run goes
  on with \<open>N - 1\<close> chromosomes. With an odd \<open>N\<close> of at least 3, a tournament size equal
  to \<open>N\<close> and at least two generations, the first generation completes, yields \<open>N - 1\<close>
  chromosomes, and the second generation ends with the ValueError of
  \<^verbatim>\<open>np.random.choice\<close>: a fault in the middle of the run. With a tournament size above
  \<open>N\<close> (\<open>N\<close> at least 2, at least one generation) the run ends with that ValueError in
  the first selection of the first generation, after the population was initialised and
  evaluated. With an evaluation axis of zero samples nothing is raised: the fitness of
  every structurally valid chromosome is nan.
\<close>

theorem C9_sem_validacao_de_configuracao:
  "length (snd (inicializar_populacao cfg m u)) = tamanho_populacao cfg
   \<and> (0 < tamanho_torneio cfg \<and> tamanho_torneio cfg \<le> 2 * (tamanho_populacao cfg div 2)
        \<and> sorteios_da_execucao cfg s \<longrightarrow>
      (\<exists>m' final. evolucao cfg m u s = Inr (m', final)
          \<and> length final = tamanho_na_geracao cfg (num_geracoes cfg)))
   \<and> (odd (tamanho_populacao cfg) \<and> tamanho_torneio cfg = tamanho_populacao cfg
        \<and> 3 \<le> tamanho_populacao cfg \<and> 2 \<le> num_geracoes cfg
        \<and> sorteios_da_geracao cfg 0 (s 0) \<longrightarrow>
      (\<exists>m0 p0 m1 p1. inicializar_populacao cfg m u = (m0, p0)
          \<and> geracao cfg 0 m0 p0 (s 0) = Inr (m1, p1)
          \<and> length p1 = tamanho_populacao cfg - 1
          \<and> geracao cfg 1 m1 p1 (s 1) = Inl ValueError
          \<and> evolucao cfg m u s = Inl ValueError))
   \<and> (tamanho_populacao cfg < tamanho_torneio cfg \<and> 2 \<le> tamanho_populacao cfg
        \<and> 1 \<le> num_geracoes cfg \<longrightarrow>
      (\<exists>aptidoes. avaliar (fst (inicializar_populacao cfg m u))
                              (snd (inicializar_populacao cfg m u)) = Inr aptidoes
          \<and> length aptidoes = tamanho_populacao cfg)
      \<and> evolucao cfg m u s = Inl ValueError)
   \<and> (estruturalmente_valido c \<longrightarrow>
        calcular_aptidao_f64_em (np_linspace (- 1) 1 0) c = Inr NaN)"
proof (intro conjI impI)
  show "length (snd (inicializar_populacao cfg m u)) = tamanho_populacao cfg"
    using inicializar_populacao_ok [of cfg m u] by simp
next
  assume h: "0 < tamanho_torneio cfg \<and> tamanho_torneio cfg \<le> 2 * (tamanho_populacao cfg div 2)
        \<and> sorteios_da_execucao cfg s"
  then have t: "0 < tamanho_torneio cfg"
    and v: "\<forall>g < num_geracoes cfg. sorteios_da_geracao cfg g (s g)"
    by (simp_all add: sorteios_da_execucao_def)
  from h have "0 < 2 * (tamanho_populacao cfg div 2)" by linarith
  then have n: "2 \<le> tamanho_populacao cfg" by (cases "tamanho_populacao cfg < 2") simp_all
  from t n v show "\<exists>m' final. evolucao cfg m u s = Inr (m', final)
          \<and> length final = tamanho_na_geracao cfg (num_geracoes cfg)"
    by (rule evolucao_ok)
next
  assume h: "odd (tamanho_populacao cfg) \<and> tamanho_torneio cfg = tamanho_populacao cfg
        \<and> 3 \<le> tamanho_populacao cfg \<and> 2 \<le> num_geracoes cfg
        \<and> sorteios_da_geracao cfg 0 (s 0)"
  then show "\<exists>m0 p0 m1 p1. inicializar_populacao cfg m u = (m0, p0)
          \<and> geracao cfg 0 m0 p0 (s 0) = Inr (m1, p1)
          \<and> length p1 = tamanho_populacao cfg - 1
          \<and> geracao cfg 1 m1 p1 (s 1) = Inl ValueError
          \<and> evolucao cfg m u s = Inl ValueError"
    by (intro evolucao_impar_torneio_cheio) simp_all
next
  assume h: "tamanho_populacao cfg < tamanho_torneio cfg \<and> 2 \<le> tamanho_populacao cfg
        \<and> 1 \<le> num_geracoes cfg"
  have "\<forall>r \<in> set (snd (inicializar_populacao cfg m u)).
         length (celulas (fst (inicializar_populacao cfg m u)) r) = 18"
    using inicializar_populacao_ok [of cfg m u] by simp
  from avaliar_ok [OF this]
  show "\<exists>aptidoes. avaliar (fst (inicializar_populacao cfg m u))
                              (snd (inicializar_populacao cfg m u)) = Inr aptidoes
          \<and> length aptidoes = tamanho_populacao cfg"
    using inicializar_populacao_ok [of cfg m u] by simp
  from h show "evolucao cfg m u s = Inl ValueError"
    by (intro evolucao_torneio_grande) simp_all
next
  assume "estruturalmente_valido c"
  then show "calcular_aptidao_f64_em (np_linspace (- 1) 1 0) c = Inr NaN"
    by (rule aptidao_sem_amostras)
qed

theorem C9_sem_validacao_de_configuracao_witness:
  "odd (tamanho_populacao config_impar_torneio_2)
   \<and> 0 < tamanho_torneio config_impar_torneio_2
   \<and> tamanho_torneio config_impar_torneio_2 \<le> 2 * (tamanho_populacao config_impar_torneio_2 div 2)
   \<and> sorteios_da_execucao config_impar_torneio_2 (\<lambda>g k. sorteios_dois)
   \<and> (\<exists>m' final. evolucao config_impar_torneio_2 memoria_fraca (\<lambda>k j. 1 / 2) (\<lambda>g k. sorteios_dois)
                    = Inr (m', final) \<and> length final = 2)
   \<and> odd (tamanho_populacao config_impar)
   \<and> tamanho_torneio config_impar = tamanho_populacao config_impar
   \<and> 3 \<le> tamanho_populacao config_impar \<and> 2 \<le> num_geracoes config_impar
   \<and> sorteios_da_geracao config_impar 0 (\<lambda>k. sorteios_tres)
   \<and> evolucao config_impar memoria_fraca (\<lambda>k j. 1 / 2) (\<lambda>g k. sorteios_tres) = Inl ValueError
   \<and> tamanho_populacao config_torneio_grande < tamanho_torneio config_torneio_grande
   \<and> 2 \<le> tamanho_populacao config_torneio_grande \<and> 1 \<le> num_geracoes config_torneio_grande
   \<and> evolucao config_torneio_grande memoria_fraca (\<lambda>k j. 1 / 2) (\<lambda>g k. sorteios_tres)
       = Inl ValueError
   \<and> estruturalmente_valido cromossomo_fraco
   \<and> calcular_aptidao_f64_em (np_linspace (- 1) 1 0) cromossomo_fraco = Inr NaN"
proof -
  have n1: "tamanho_populacao config_impar_torneio_2 = 3" "tamanho_torneio config_impar_torneio_2 = 2"
    "num_geracoes config_impar_torneio_2 = 250"
    by (simp_all add: config_impar_torneio_2_def config_padrao_def)
  have n3: "tamanho_populacao config_impar = 3" "tamanho_torneio config_impar = 3"
    "num_geracoes config_impar = 250"
    by (simp_all add: config_impar_def config_padrao_def)
  have n2: "tamanho_populacao config_torneio_grande = 2" "tamanho_torneio config_torneio_grande = 3"
    "num_geracoes config_torneio_grande = 250"
    by (simp_all add: config_torneio_grande_def config_padrao_def)
  have a: "\<exists>m' final. evolucao config_impar_torneio_2 memoria_fraca (\<lambda>k j. 1 / 2) (\<lambda>g k. sorteios_dois)
                    = Inr (m', final) \<and> length final = 2"
    using C9_sem_validacao_de_configuracao
      [of config_impar_torneio_2 memoria_fraca "\<lambda>k j. 1 / 2" "\<lambda>g k. sorteios_dois"] dois_validos
    by (simp add: n1 tamanho_na_geracao_def)
  have b: "evolucao config_impar memoria_fraca (\<lambda>k j. 1 / 2) (\<lambda>g k. sorteios_tres) = Inl ValueError"
    using C9_sem_validacao_de_configuracao
      [of config_impar memoria_fraca "\<lambda>k j. 1 / 2" "\<lambda>g k. sorteios_tres"] tres_validos
    by (auto simp: n3)
  have c: "evolucao config_torneio_grande memoria_fraca (\<lambda>k j. 1 / 2) (\<lambda>g k. sorteios_tres)
       = Inl ValueError"
    using C9_sem_validacao_de_configuracao
      [of config_torneio_grande memoria_fraca "\<lambda>k j. 1 / 2" "\<lambda>g k. sorteios_tres"]
    by (simp add: n2)
  have d: "calcular_aptidao_f64_em (np_linspace (- 1) 1 0) cromossomo_fraco = Inr NaN"
    using C9_sem_validacao_de_configuracao [of _ _ _ _ cromossomo_fraco] fraco_valido
    by simp
  from a b c d dois_validos tres_validos fraco_valido show ?thesis by (simp add: n1 n2 n3)
qed


subsection \<open>C10: ties go to the first maximum\<close>

text \<open>
  C10. The best individual reported at the end is the chromosome at the smallest index
  of the final population among those of maximal fitness (\<^verbatim>\<open>np.argmax\<close> returns the
  first occurrence); likewise tournament selection returns the chromosome of the first
  drawn index whose fitness is maximal among the drawn ones.
\<close>

theorem C10_primeiro_maximo:
  assumes "aptidoes \<noteq> []" and "length populacao = length aptidoes"
  shows "(\<exists>i < length aptidoes.
            np_argmax aptidoes = Inr i
          \<and> melhor_individuo populacao aptidoes = Inr (populacao ! i)
          \<and> (\<forall>j < length aptidoes. aptidoes ! j \<le> aptidoes ! i)
          \<and> (\<forall>j < i. aptidoes ! j < aptidoes ! i))
       \<and> (sorteio_choice (length populacao) (tamanho_torneio cfg) sel \<and> 0 < tamanho_torneio cfg \<longrightarrow>
            (\<exists>p < length sel.
               selecao cfg populacao aptidoes sel = Inr (populacao ! (sel ! p))
             \<and> (\<forall>q < length sel. aptidoes ! (sel ! q) \<le> aptidoes ! (sel ! p))
             \<and> (\<forall>q < p. aptidoes ! (sel ! q) < aptidoes ! (sel ! p))))"
proof (intro conjI impI)
  from np_argmax_primeiro [OF assms(1)]
  obtain i where i: "i < length aptidoes" "np_argmax aptidoes = Inr i"
    "\<forall>j < length aptidoes. aptidoes ! j \<le> aptidoes ! i" "\<forall>j < i. aptidoes ! j < aptidoes ! i"
    by blast
  have "melhor_individuo populacao aptidoes = Inr (populacao ! i)"
    using i(1) assms(2) by (simp add: melhor_individuo_def i(2) indexar_def)
  with i show "\<exists>i < length aptidoes.
            np_argmax aptidoes = Inr i
          \<and> melhor_individuo populacao aptidoes = Inr (populacao ! i)
          \<and> (\<forall>j < length aptidoes. aptidoes ! j \<le> aptidoes ! i)
          \<and> (\<forall>j < i. aptidoes ! j < aptidoes ! i)"
    by blast
next
  assume h: "sorteio_choice (length populacao) (tamanho_torneio cfg) sel \<and> 0 < tamanho_torneio cfg"
  have l: "length aptidoes = length populacao" using assms(2) by simp
  from h have h1: "sorteio_choice (length populacao) (tamanho_torneio cfg) sel"
    and h2: "0 < tamanho_torneio cfg" by simp_all
  from selecao_primeiro [OF h1 h2 l]
  obtain p where "p < length sel" "selecao cfg populacao aptidoes sel = Inr (populacao ! (sel ! p))"
    "\<forall>q < length sel. aptidoes ! (sel ! q) \<le> aptidoes ! (sel ! p)"
    "\<forall>q < p. aptidoes ! (sel ! q) < aptidoes ! (sel ! p)"
    by blast
  then show "\<exists>p < length sel.
               selecao cfg populacao aptidoes sel = Inr (populacao ! (sel ! p))
             \<and> (\<forall>q < length sel. aptidoes ! (sel ! q) \<le> aptidoes ! (sel ! p))
             \<and> (\<forall>q < p. aptidoes ! (sel ! q) < aptidoes ! (sel ! p))"
    by blast
qed

theorem C10_primeiro_maximo_witness:
  "[1, 3, 3, 2 :: real] \<noteq> [] \<and> length [10, 20, 30, 40 :: nat] = length [1, 3, 3, 2 :: real]
   \<and> sorteio_choice (length [10, 20, 30, 40 :: nat]) (tamanho_torneio config_padrao) [0, 2, 1]
   \<and> 0 < tamanho_torneio config_padrao
   \<and> (\<exists>i < length [1, 3, 3, 2 :: real].
            np_argmax [1, 3, 3, 2] = Inr i
          \<and> melhor_individuo [10, 20, 30, 40] [1, 3, 3, 2] = Inr ([10, 20, 30, 40] ! i)
          \<and> (\<forall>j < length [1, 3, 3, 2 :: real]. [1, 3, 3, 2 :: real] ! j \<le> [1, 3, 3, 2] ! i)
          \<and> (\<forall>j < i. [1, 3, 3, 2 :: real] ! j < [1, 3, 3, 2] ! i))
   \<and> (\<exists>p < length [0, 2, 1 :: nat].
          selecao config_padrao [10, 20, 30, 40] [1, 3, 3, 2] [0, 2, 1]
            = Inr ([10, 20, 30, 40] ! ([0, 2, 1] ! p))
        \<and> (\<forall>q < length [0, 2, 1 :: nat].
              [1, 3, 3, 2 :: real] ! ([0, 2, 1] ! q) \<le> [1, 3, 3, 2] ! ([0, 2, 1] ! p))
        \<and> (\<forall>q < p. [1, 3, 3, 2 :: real] ! ([0, 2, 1] ! q) < [1, 3, 3, 2] ! ([0, 2, 1] ! p)))
   \<and> np_argmax [1, 3, 3, 2] = Inr 1
   \<and> melhor_individuo [10, 20, 30, 40] [1, 3, 3, 2] = Inr 20
   \<and> selecao config_padrao [10, 20, 30, 40] [1, 3, 3, 2] [0, 2, 1] = Inr 30"
proof -
  have a: "[1, 3, 3, 2 :: real] \<noteq> []" by simp
  have l: "length [10, 20, 30, 40 :: nat] = length [1, 3, 3, 2 :: real]" by simp
  have s: "sorteio_choice (length [10, 20, 30, 40 :: nat]) (tamanho_torneio config_padrao) [0, 2, 1]
      \<and> 0 < tamanho_torneio config_padrao"
    by (simp add: sorteio_choice_def config_padrao_def)
  have e1: "np_argmax [1, 3, 3, 2] = Inr 1" by (simp add: np_argmax_def)
  have e2: "melhor_individuo [10, 20, 30, 40] [1, 3, 3, 2] = Inr 20"
    by (simp add: melhor_individuo_def e1 indexar_def)
  have e3: "selecao config_padrao [10, 20, 30, 40] [1, 3, 3, 2] [0, 2, 1] = Inr 30"
    by (simp add: selecao_def np_random_choice_def config_padrao_def py_max_def indexar_def)
  from C10_primeiro_maximo [OF a l, of config_padrao "[0, 2, 1]"] s a l e1 e2 e3
  show ?thesis by blast
qed

end
